theory Spec2Isabelle
  imports Complex_Main
begin

section \<open>Python values, exceptions and the world the scripts act on\<close>

text \<open>
  The scripts of the repository are straight-line Python programs around calls of the
  TensorFlow library. A script is embedded as a function on a world record (the texts
  printed so far, one entry for each call of \<open>print\<close>; the files written; the process
  environment) that returns either the exception that escapes or a value. The library is
  a record of the results of the calls a script makes: every call either raises or
  returns, and what it does inside (its own output, its own files) is not part of the
  world. Writing a file and printing do not fail.
\<close>

datatype py_exception =
    Exception string
  | BaseException string

text \<open>
  \<open>Exception m\<close> is an instance of Python's class \<open>Exception\<close> whose \<open>str\<close> is \<open>m\<close>
  (ValueError, KeyError, IndexError, TypeError, OSError, ...). \<open>BaseException m\<close> is
  an exception outside that class (KeyboardInterrupt, SystemExit), which a clause
  \<open>except Exception\<close> does not catch.
\<close>

datatype pyval =
    PStr string
  | PInt int
  | PObj string string

text \<open>
  \<open>PObj t s\<close> is a value that is neither a string nor a number (an array of a shape,
  a tensor), known by the name \<open>t\<close> of its type and by its \<open>str\<close>, which is \<open>s\<close>. It is
  equal to no string and to no integer, and it has no order.
\<close>

type_synonym pydict = "string \<rightharpoonup> pyval"

record world =
  stdout :: "string list"
  files :: "string \<rightharpoonup> string"
  environ :: "string \<rightharpoonup> string"

type_synonym 'a py = "world \<Rightarrow> (py_exception + 'a) \<times> world"

definition py_return :: "'a \<Rightarrow> 'a py" where
  "py_return x w = (Inr x, w)"

definition py_raise :: "py_exception \<Rightarrow> 'a py" where
  "py_raise e w = (Inl e, w)"

definition py_bind :: "'a py \<Rightarrow> ('a \<Rightarrow> 'b py) \<Rightarrow> 'b py" where
  "py_bind m f w = (case m w of (Inl e, w') \<Rightarrow> (Inl e, w') | (Inr x, w') \<Rightarrow> f x w')"

definition py_then :: "unit py \<Rightarrow> 'b py \<Rightarrow> 'b py" where
  "py_then m k = py_bind m (\<lambda>_. k)"

text \<open>A call of the library: its result is given, the world is untouched.\<close>

definition py_call :: "py_exception + 'a \<Rightarrow> 'a py" where
  "py_call r w = (r, w)"

text \<open>\<open>print(s)\<close>: one more entry of the output.\<close>

definition py_print :: "string \<Rightarrow> unit py" where
  "py_print s w = (Inr (), w\<lparr>stdout := stdout w @ [s]\<rparr>)"

text \<open>\<open>with open(path, mode) as f: f.write(content)\<close>: the file holds the content.\<close>

definition write_file :: "string \<Rightarrow> string \<Rightarrow> unit py" where
  "write_file path content w = (Inr (), w\<lparr>files := (files w)(path \<mapsto> content)\<rparr>)"

text \<open>\<open>os.environ[k] = v\<close>.\<close>

definition set_environ :: "string \<Rightarrow> string \<Rightarrow> unit py" where
  "set_environ k v w = (Inr (), w\<lparr>environ := (environ w)(k \<mapsto> v)\<rparr>)"

text \<open>
  \<open>try: body except Exception as e: handler\<close>. The handler gets \<open>str(e)\<close>; what the
  body did to the world before it raised stays done.
\<close>

definition py_try :: "'a py \<Rightarrow> (string \<Rightarrow> 'a py) \<Rightarrow> 'a py" where
  "py_try body handler w =
     (case body w of
        (Inl (Exception m), w') \<Rightarrow> handler m w'
      | (Inl (BaseException m), w') \<Rightarrow> (Inl (BaseException m), w')
      | (Inr x, w') \<Rightarrow> (Inr x, w'))"

subsection \<open>Strings\<close>

text \<open>The two marks the scripts print, as the bytes of their UTF-8 encoding.\<close>

definition cross_mark :: string where
  "cross_mark = [CHR 0xE2, CHR 0x9D, CHR 0x8C]"

definition check_mark :: string where
  "check_mark = [CHR 0xE2, CHR 0x9C, CHR 0x85]"

definition newline :: string where
  "newline = [CHR 0x0A]"

text \<open>\<open>str\<close> of an integer: its decimal digits, with a minus sign when it is negative.\<close>

fun str_nat :: "nat \<Rightarrow> string" where
  "str_nat n =
     (if n < 10 then [''0123456789'' ! n]
      else str_nat (n div 10) @ [''0123456789'' ! (n mod 10)])"

definition str_int :: "int \<Rightarrow> string" where
  "str_int i = (if i < 0 then ''-'' @ str_nat (nat (- i)) else str_nat (nat i))"

fun py_str :: "pyval \<Rightarrow> string" where
  "py_str (PStr s) = s"
| "py_str (PInt i) = str_int i"
| "py_str (PObj t s) = s"

fun type_name :: "pyval \<Rightarrow> string" where
  "type_name (PStr s) = ''str''"
| "type_name (PInt i) = ''int''"
| "type_name (PObj t s) = t"

definition quoted :: "string \<Rightarrow> string" where
  "quoted s = [CHR 0x27] @ s @ [CHR 0x27]"

definition unlines :: "string list \<Rightarrow> string" where
  "unlines ls = concat (map (\<lambda>l. l @ newline) ls)"

subsection \<open>Comparisons\<close>

text \<open>
  \<open>a > b\<close> and \<open>a <= b\<close>: integers by value, strings by code point (which is the order
  of the bytes of UTF-8), anything else is a TypeError.
\<close>

definition str_less :: "string \<Rightarrow> string \<Rightarrow> bool" where
  "str_less a b = lexordp (\<lambda>c d. (of_char c :: nat) < of_char d) a b"

definition not_supported :: "string \<Rightarrow> pyval \<Rightarrow> pyval \<Rightarrow> py_exception" where
  "not_supported opr a b =
     Exception (quoted opr @ '' not supported between instances of ''
       @ quoted (type_name a) @ '' and '' @ quoted (type_name b))"

fun py_gt :: "pyval \<Rightarrow> pyval \<Rightarrow> py_exception + bool" where
  "py_gt (PInt a) (PInt b) = Inr (b < a)"
| "py_gt (PStr a) (PStr b) = Inr (str_less b a)"
| "py_gt a b = Inl (not_supported ''>'' a b)"

fun py_le :: "pyval \<Rightarrow> pyval \<Rightarrow> py_exception + bool" where
  "py_le (PInt a) (PInt b) = Inr (a \<le> b)"
| "py_le (PStr a) (PStr b) = Inr (\<not> str_less b a)"
| "py_le a b = Inl (not_supported ''<='' a b)"

text \<open>\<open>max(xs)\<close>: the first of the greatest items; of an empty list, a ValueError.\<close>

fun max_from :: "pyval \<Rightarrow> pyval list \<Rightarrow> py_exception + pyval" where
  "max_from m [] = Inr m"
| "max_from m (x # xs) =
     (case py_gt x m of
        Inl e \<Rightarrow> Inl e
      | Inr b \<Rightarrow> max_from (if b then x else m) xs)"

definition py_max :: "pyval list \<Rightarrow> py_exception + pyval" where
  "py_max xs =
     (case xs of
        [] \<Rightarrow> Inl (Exception ''max() arg is an empty sequence'')
      | x # rest \<Rightarrow> max_from x rest)"

subsection \<open>Lists and dictionaries\<close>

text \<open>\<open>xs[0]\<close>, \<open>d[k]\<close> and \<open>d.get(k, default)\<close>.\<close>

definition getitem0 :: "'a list \<Rightarrow> py_exception + 'a" where
  "getitem0 xs =
     (case xs of [] \<Rightarrow> Inl (Exception ''list index out of range'') | x # _ \<Rightarrow> Inr x)"

definition getkey :: "pydict \<Rightarrow> string \<Rightarrow> py_exception + pyval" where
  "getkey d k =
     (case d k of None \<Rightarrow> Inl (Exception (quoted k)) | Some v \<Rightarrow> Inr v)"

definition dict_get :: "pydict \<Rightarrow> string \<Rightarrow> pyval \<Rightarrow> pyval" where
  "dict_get d k dflt = (case d k of None \<Rightarrow> dflt | Some v \<Rightarrow> v)"

section \<open>The TensorFlow library as the scripts see it\<close>

record interpreter =
  allocate_tensors :: "py_exception + unit"
  get_input_details :: "py_exception + pydict list"
  get_output_details :: "py_exception + pydict list"
  get_ops_details :: "py_exception + pydict list"
  set_tensor :: "pyval \<Rightarrow> pyval \<Rightarrow> py_exception + unit"
  invoke :: "py_exception + unit"
  get_tensor :: "pyval \<Rightarrow> py_exception + pyval"

text \<open>What the scripts hand to Keras: the input, the layers in order, the compile arguments.\<close>

datatype layer =
    GlobalAveragePooling1D
  | Dense nat string "string option"
  | Dropout real

record network =
  input_shape :: "nat list"
  input_name :: string
  layers :: "layer list"
  model_name :: "string option"

datatype optimizer = Optimizer_name string | Adam real

record compile_args =
  optimizer :: optimizer
  loss :: string
  metrics :: "string list"

text \<open>What create_minimal_model.py traces: the operations of \<open>simple_model\<close> in order.\<close>

datatype graph_op =
    Reduce_mean nat
  | Reshape "nat list"
  | Matmul_constant "real list list"
  | Softmax

record tensor_spec =
  spec_shape :: "nat list"
  spec_dtype :: string

text \<open>Objects of the library that the scripts only pass on.\<close>

datatype keras_model = Keras_model nat

datatype concrete_function = Concrete_function nat

datatype optimize = DEFAULT

datatype ops_set = TFLITE_BUILTINS

datatype converter_source = From_keras keras_model | From_concrete "concrete_function list"

record converter =
  source :: converter_source
  optimizations :: "optimize list"
  supported_ops :: "ops_set list"
  experimental_new_converter :: bool
  experimental_new_quantizer :: bool
  allow_custom_ops :: bool
  experimental_enable_resource_variables :: bool

record tf =
  tf_version :: string
  Interpreter_path :: "string \<Rightarrow> py_exception + interpreter"
  Interpreter_content :: "string \<Rightarrow> py_exception + interpreter"
  load_model :: "string \<Rightarrow> py_exception + keras_model"
  keras_Model :: "network \<Rightarrow> py_exception + keras_model"
  compile :: "keras_model \<Rightarrow> compile_args \<Rightarrow> py_exception + unit"
  model_summary :: "keras_model \<Rightarrow> py_exception + string list"
  from_keras_model :: "keras_model \<Rightarrow> py_exception + converter"
  get_concrete_function :: "graph_op list \<Rightarrow> tensor_spec \<Rightarrow> py_exception + concrete_function"
  from_concrete_functions :: "concrete_function list \<Rightarrow> py_exception + converter"
  convert :: "converter \<Rightarrow> py_exception + string"
  random_input :: "nat list \<Rightarrow> py_exception + pyval"

text \<open>
  \<open>Interpreter_path p\<close> is \<open>tf.lite.Interpreter(model_path=p)\<close> and
  \<open>Interpreter_content c\<close> is \<open>tf.lite.Interpreter(model_content=c)\<close>;
  \<open>keras_Model\<close> stands for the calls from \<open>tf.keras.Input\<close> to \<open>tf.keras.Model\<close>;
  \<open>model_summary\<close> gives the lines \<open>model.summary()\<close> prints; \<open>random_input shape\<close> is
  \<open>np.random.randn(*shape).astype(np.float32)\<close>.
\<close>

section \<open>check_model_versions.py\<close>

text \<open>\<open>print(f"Input shape: {details[0]['shape']}")\<close>.\<close>

definition print_shape :: "string \<Rightarrow> pydict list \<Rightarrow> unit py" where
  "print_shape label details =
     py_bind (py_call (getitem0 details)) (\<lambda>d.
     py_bind (py_call (getkey d ''shape'')) (\<lambda>shape.
     py_print (label @ py_str shape)))"

text \<open>\<open>op.get('op_name', 'Unknown')\<close> and \<open>op.get('version', 'Unknown')\<close>.\<close>

definition op_name_of :: "pydict \<Rightarrow> pyval" where
  "op_name_of op = dict_get op ''op_name'' (PStr ''Unknown'')"

definition version_of :: "pydict \<Rightarrow> pyval" where
  "version_of op = dict_get op ''version'' (PStr ''Unknown'')"

definition op_line :: "pydict \<Rightarrow> string" where
  "op_line op =
     ''  - '' @ py_str (op_name_of op) @ '' (version '' @ py_str (version_of op) @ '')''"

definition incompatible_line :: string where
  "incompatible_line =
     ''    '' @ cross_mark
       @ '' INCOMPATIBLE: This version is not supported by TFLite Flutter 0.11.0''"

definition compatible_line :: "pyval \<Rightarrow> string" where
  "compatible_line version =
     ''    '' @ check_mark @ '' COMPATIBLE: Version '' @ py_str version @ '' should work''"

text \<open>The body of the loop over the operators of best_model.tflite (lines 28 to 36).\<close>

definition report_op_best :: "pydict \<Rightarrow> unit py" where
  "report_op_best op =
     (let op_name = op_name_of op;
          version = version_of op
      in py_then (py_print (op_line op))
           (if op_name = PStr ''FULLY_CONNECTED'' \<and> version = PInt 12
            then py_print incompatible_line
            else if op_name = PStr ''FULLY_CONNECTED''
            then py_print (compatible_line version)
            else py_return ()))"

text \<open>The body of the loop over the operators of minimal_model.tflite (lines 58 to 60).\<close>

definition report_op_minimal :: "pydict \<Rightarrow> unit py" where
  "report_op_minimal op = py_print (op_line op)"

text \<open>\<open>for x in xs: body\<close>.\<close>

fun py_for :: "'a list \<Rightarrow> ('a \<Rightarrow> unit py) \<Rightarrow> unit py" where
  "py_for [] body = py_return ()"
| "py_for (x # xs) body = py_then (body x) (py_for xs body)"

definition analyze_best :: "tf \<Rightarrow> unit py" where
  "analyze_best lib =
     py_try
       (py_then (py_print (newline @ ''Analyzing best_model.tflite...''))
       (py_bind (py_call (Interpreter_path lib ''assets/models/best_model.tflite'')) (\<lambda>interpreter.
        py_then (py_call (allocate_tensors interpreter))
       (py_bind (py_call (get_input_details interpreter)) (\<lambda>input_details.
        py_bind (py_call (get_output_details interpreter)) (\<lambda>output_details.
        py_then (print_shape ''Input shape: '' input_details)
       (py_then (print_shape ''Output shape: '' output_details)
       (py_bind (py_call (get_ops_details interpreter)) (\<lambda>ops.
        py_then (py_print ''Operations used:'')
          (py_for ops report_op_best))))))))))
       (\<lambda>e. py_print (cross_mark @ '' Error analyzing best_model.tflite: '' @ e))"

definition analyze_minimal :: "tf \<Rightarrow> unit py" where
  "analyze_minimal lib =
     py_try
       (py_then (py_print (newline @ ''Analyzing minimal_model.tflite...''))
       (py_bind (py_call (Interpreter_path lib ''assets/models/minimal_model.tflite'')) (\<lambda>interpreter2.
        py_then (py_call (allocate_tensors interpreter2))
       (py_bind (py_call (get_input_details interpreter2)) (\<lambda>input_details2.
        py_bind (py_call (get_output_details interpreter2)) (\<lambda>output_details2.
        py_then (print_shape ''Input shape: '' input_details2)
       (py_then (print_shape ''Output shape: '' output_details2)
       (py_bind (py_call (get_ops_details interpreter2)) (\<lambda>ops2.
        py_then (py_print ''Operations used:'')
          (py_for ops2 report_op_minimal))))))))))
       (\<lambda>e. py_print (cross_mark @ '' Error analyzing minimal_model.tflite: '' @ e))"

definition rule_line :: "nat \<Rightarrow> string" where
  "rule_line n = newline @ replicate n CHR ''=''"

definition version_header :: "tf \<Rightarrow> unit py" where
  "version_header lib =
     py_then (py_print (''TensorFlow version: '' @ tf_version lib))
    (py_then (py_print ''TensorFlow Lite version compatibility:'')
    (py_then (py_print ''- TF 2.15+ uses FULLY_CONNECTED v12+ (incompatible with TFLite Flutter 0.11.0)'')
    (py_then (py_print ''- TF 2.8-2.14 uses FULLY_CONNECTED v11 (compatible)'')
    (py_then (py_print ''- TF 2.4-2.7 uses FULLY_CONNECTED v9-v10 (compatible)'')
             (py_print (rule_line 60))))))"

definition summary :: "unit py" where
  "summary =
     py_then (py_print (rule_line 60))
    (py_then (py_print ''SUMMARY:'')
    (py_then (py_print ''TFLite Flutter 0.11.0 supports:'')
    (py_then (py_print ''- FULLY_CONNECTED versions up to v11'')
    (py_then (py_print ''- Most other operations up to TF 2.14 level'')
    (py_then (py_print ''Your best_model.tflite likely uses FULLY_CONNECTED v12 (from TF 2.15+)'')
             (py_print ''The minimal_model.tflite should be compatible''))))))"

definition check_model_versions :: "tf \<Rightarrow> unit py" where
  "check_model_versions lib =
     py_then (version_header lib)
    (py_then (analyze_best lib)
    (py_then (py_print (rule_line 60))
    (py_then (analyze_minimal lib)
             summary)))"

section \<open>convert_model_compatible.py\<close>

definition convert_with_compatibility_flags :: "tf \<Rightarrow> bool py" where
  "convert_with_compatibility_flags lib =
     py_try
       (py_bind (py_call (Interpreter_path lib ''assets/models/best_model.tflite'')) (\<lambda>interpreter.
        py_then (py_call (allocate_tensors interpreter))
       (py_bind (py_call (get_input_details interpreter)) (\<lambda>input_details.
        py_bind (py_call (get_output_details interpreter)) (\<lambda>output_details.
        py_then (py_print ''Original model details:'')
       (py_then (print_shape ''Input shape: '' input_details)
       (py_then (print_shape ''Output shape: '' output_details)
       (py_then (py_print (cross_mark @ '' Cannot directly convert TFLite to compatible TFLite''))
       (py_then (py_print ''You need to recreate the model with TensorFlow 2.8 or 2.9'')
                (py_return False))))))))))
       (\<lambda>e. py_then (py_print (''Error: '' @ e)) (py_return False))"

definition script_content :: string where
  \<open>script_content = unlines
     [[],
      ''import tensorflow as tf'',
      [],
      ''# Load your original model (before TFLite conversion)'',
      ''# Replace this with your actual model loading code'',
      ''model = tf.keras.models.load_model("your_original_model.h5")'',
      [],
      ''# Create converter with compatibility settings'',
      ''converter = tf.lite.TFLiteConverter.from_keras_model(model)'',
      [],
      ''# Set compatibility options for TFLite Flutter 0.11.0'',
      ''converter.optimizations = [tf.lite.Optimize.DEFAULT]'',
      ''converter.target_spec.supported_ops = ['',
      ''    tf.lite.OpsSet.TFLITE_BUILTINS,'',
      '']'',
      [],
      ''# Force use of older op versions'',
      ''converter.experimental_new_converter = False'',
      ''converter.experimental_new_quantizer = False'',
      [],
      ''# Convert with compatibility'',
      ''try:'',
      ''    tflite_model = converter.convert()'',
      ''    '',
      ''    # Save compatible model'',
      ''    with open("assets/models/best_model_compatible.tflite", "wb") as f:'',
      ''        f.write(tflite_model)'',
      ''    '',
      ''    print("'' @ check_mark @ '' Compatible model created!")'',
      ''    '',
      ''except Exception as e:'',
      ''    print(f"Conversion failed: {e}")'']\<close>

definition create_compatible_converter_script :: "unit py" where
  "create_compatible_converter_script =
     py_then (write_file ''create_compatible_model.py'' script_content)
    (py_then (py_print (check_mark @ '' Created 'create_compatible_model.py' template''))
             (py_print ''Edit it with your original model path and run it''))"

definition convert_model_compatible_main :: "tf \<Rightarrow> unit py" where
  "convert_model_compatible_main lib =
     py_bind (convert_with_compatibility_flags lib) (\<lambda>success.
       if \<not> success then
         py_then create_compatible_converter_script
        (py_then (py_print (rule_line 50))
        (py_then (py_print ''SOLUTION:'')
        (py_then (py_print ''1. Edit 'create_compatible_model.py' with your original model path'')
        (py_then (py_print ''2. Run: python create_compatible_model.py'')
        (py_then (py_print ''3. Replace best_model.tflite with best_model_compatible.tflite'')
                 (py_print (replicate 50 CHR ''='')))))))
       else py_return ())"

section \<open>create_compatible_model.py\<close>

definition create_compatible_model_script :: "tf \<Rightarrow> unit py" where
  "create_compatible_model_script lib =
     py_bind (py_call (load_model lib ''your_original_model.h5'')) (\<lambda>model.
     py_bind (py_call (from_keras_model lib model)) (\<lambda>converter0.
     (let converter = converter0
            \<lparr>optimizations := [DEFAULT],
             supported_ops := [TFLITE_BUILTINS],
             experimental_new_converter := False,
             experimental_new_quantizer := False\<rparr>
      in py_try
           (py_bind (py_call (convert lib converter)) (\<lambda>tflite_model.
            py_then (write_file ''assets/models/best_model_compatible.tflite'' tflite_model)
                    (py_print (check_mark @ '' Compatible model created!''))))
           (\<lambda>e. py_print (''Conversion failed: '' @ e)))))"

section \<open>create_minimal_model.py\<close>

definition simple_model :: "graph_op list" where
  "simple_model =
     [Reduce_mean 1, Reshape [1, 1], Matmul_constant [[0.1, 0.2, 0.3]], Softmax]"

definition create_minimal_tflite :: "tf \<Rightarrow> bool py" where
  "create_minimal_tflite lib =
     py_bind (py_call (get_concrete_function lib simple_model
                \<lparr>spec_shape = [1, 32000, 1], spec_dtype = ''float32''\<rparr>)) (\<lambda>concrete_func.
     py_bind (py_call (from_concrete_functions lib [concrete_func])) (\<lambda>converter0.
     (let converter = converter0\<lparr>optimizations := []\<rparr>
      in py_try
           (py_bind (py_call (convert lib converter)) (\<lambda>tflite_model.
            py_then (write_file ''assets/models/minimal_model.tflite'' tflite_model)
           (py_then (py_print (check_mark @ '' Minimal TFLite model created!''))
           (py_bind (py_call (Interpreter_content lib tflite_model)) (\<lambda>interpreter.
            py_then (py_call (allocate_tensors interpreter))
           (py_bind (py_call (get_input_details interpreter)) (\<lambda>input_details.
            py_bind (py_call (get_output_details interpreter)) (\<lambda>output_details.
            py_then (print_shape ''Input shape: '' input_details)
           (py_then (print_shape ''Output shape: '' output_details)
           (py_bind (py_call (random_input lib [1, 32000, 1])) (\<lambda>test_input.
            py_bind (py_call (getitem0 input_details)) (\<lambda>d_in.
            py_bind (py_call (getkey d_in ''index'')) (\<lambda>index_in.
            py_then (py_call (set_tensor interpreter index_in test_input))
           (py_then (py_call (invoke interpreter))
           (py_bind (py_call (getitem0 output_details)) (\<lambda>d_out.
            py_bind (py_call (getkey d_out ''index'')) (\<lambda>index_out.
            py_bind (py_call (get_tensor interpreter index_out)) (\<lambda>output.
            py_then (py_print (''Test output: '' @ py_str output))
                    (py_return True)))))))))))))))))))
           (\<lambda>e. py_then (py_print (cross_mark @ '' Failed to create minimal model: '' @ e))
                         (py_return False)))))"

definition create_minimal_model_main :: "tf \<Rightarrow> unit py" where
  "create_minimal_model_main lib =
     py_then (py_print (''TensorFlow version: '' @ tf_version lib))
    (py_bind (create_minimal_tflite lib) (\<lambda>success.
       if success then
         py_then (py_print (rule_line 50))
        (py_then (py_print ''SUCCESS! Created minimal_model.tflite'')
        (py_then (py_print ''This is a basic model that should work with TFLite Flutter 0.11.0'')
        (py_then (py_print (''Update your Dart code to use '' @ quoted ''minimal_model.tflite''))
                 (py_print (replicate 50 CHR ''='')))))
       else py_return ()))"

section \<open>create_simple_model.py\<close>

definition simple_network :: network where
  "simple_network =
     \<lparr>input_shape = [32000, 1], input_name = ''audio_input'',
      layers = [GlobalAveragePooling1D,
                Dense 64 ''relu'' None,
                Dense 32 ''relu'' None,
                Dense 3 ''softmax'' (Some ''predictions'')],
      model_name = None\<rparr>"

definition create_simple_compatible_model :: "tf \<Rightarrow> bool py" where
  "create_simple_compatible_model lib =
     py_bind (py_call (keras_Model lib simple_network)) (\<lambda>model.
     py_then (py_call (compile lib model
                \<lparr>optimizer = Optimizer_name ''adam'', loss = ''categorical_crossentropy'',
                 metrics = [''accuracy'']\<rparr>))
    (py_then (py_print ''Model summary:'')
    (py_bind (py_call (model_summary lib model)) (\<lambda>summary_lines.
     py_then (py_for summary_lines py_print)
    (py_bind (py_call (from_keras_model lib model)) (\<lambda>converter0.
     (let converter = converter0
            \<lparr>optimizations := [],
             supported_ops := [TFLITE_BUILTINS],
             experimental_new_converter := False,
             experimental_new_quantizer := False\<rparr>
      in py_try
           (py_bind (py_call (convert lib converter)) (\<lambda>tflite_model.
            py_then (write_file ''assets/models/simple_compatible_model.tflite'' tflite_model)
           (py_then (py_print (check_mark @ '' Simple compatible model created!''))
           (py_then (py_print ''File: assets/models/simple_compatible_model.tflite'')
           (py_bind (py_call (Interpreter_content lib tflite_model)) (\<lambda>interpreter.
            py_then (py_call (allocate_tensors interpreter))
           (py_bind (py_call (get_input_details interpreter)) (\<lambda>input_details.
            py_bind (py_call (get_output_details interpreter)) (\<lambda>output_details.
            py_then (print_shape ''Input shape: '' input_details)
           (py_then (print_shape ''Output shape: '' output_details)
                    (py_return True)))))))))))
           (\<lambda>e. py_then (py_print (cross_mark @ '' Failed to create model: '' @ e))
                         (py_return False)))))))))"

definition create_simple_model_main :: "tf \<Rightarrow> unit py" where
  "create_simple_model_main lib =
     py_then (py_print (''TensorFlow version: '' @ tf_version lib))
    (py_bind (create_simple_compatible_model lib) (\<lambda>success.
       if success then
         py_then (py_print (rule_line 50))
        (py_then (py_print ''NEXT STEPS:'')
        (py_then (py_print (''1. Update Dart code to use '' @ quoted ''simple_compatible_model.tflite''))
        (py_then (py_print ''2. Test the app'')
        (py_then (py_print ''3. This model gives random predictions - replace with your trained model'')
                 (py_print (replicate 50 CHR ''=''))))))
       else py_return ()))"

section \<open>create_tf212_compatible.py\<close>

definition compatible_network :: network where
  "compatible_network =
     \<lparr>input_shape = [32000, 1], input_name = ''audio_input'',
      layers = [GlobalAveragePooling1D,
                Dense 128 ''relu'' (Some ''dense1''),
                Dropout 0.2,
                Dense 64 ''relu'' (Some ''dense2''),
                Dropout 0.2,
                Dense 3 ''softmax'' (Some ''predictions'')],
      model_name = Some ''audio_classifier''\<rparr>"

text \<open>
  The loop over the operators (lines 79 to 84): it prints a line for each and collects
  the versions of the operators named FULLY_CONNECTED.
\<close>

fun collect_fully_connected :: "pydict list \<Rightarrow> pyval list \<Rightarrow> (pyval list) py" where
  "collect_fully_connected [] fully_connected_versions = py_return fully_connected_versions"
| "collect_fully_connected (op # ops) fully_connected_versions =
     (let op_name = op_name_of op;
          version = version_of op
      in py_then (py_print (''  - '' @ py_str op_name @ '' (v'' @ py_str version @ '')''))
           (collect_fully_connected ops
              (if op_name = PStr ''FULLY_CONNECTED''
               then fully_connected_versions @ [version]
               else fully_connected_versions)))"

definition report_fully_connected :: "pyval list \<Rightarrow> unit py" where
  "report_fully_connected fully_connected_versions =
     (if fully_connected_versions \<noteq> [] then
        py_bind (py_call (py_max fully_connected_versions)) (\<lambda>max_fc_version.
        py_bind (py_call (py_le max_fc_version (PInt 11))) (\<lambda>compatible.
          if compatible
          then py_print (check_mark @ '' FULLY_CONNECTED version '' @ py_str max_fc_version
                           @ '' - COMPATIBLE!'')
          else py_print (cross_mark @ '' FULLY_CONNECTED version '' @ py_str max_fc_version
                           @ '' - INCOMPATIBLE!'')))
      else py_return ())"

definition create_compatible_model :: "tf \<Rightarrow> bool py" where
  "create_compatible_model lib =
     py_bind (py_call (keras_Model lib compatible_network)) (\<lambda>model.
     py_then (py_call (compile lib model
                \<lparr>optimizer = Adam 0.001, loss = ''categorical_crossentropy'',
                 metrics = [''accuracy'']\<rparr>))
    (py_then (py_print ''Model summary:'')
    (py_bind (py_call (model_summary lib model)) (\<lambda>summary_lines.
     py_then (py_for summary_lines py_print)
    (py_bind (py_call (from_keras_model lib model)) (\<lambda>converter0.
     (let converter = converter0
            \<lparr>optimizations := [],
             supported_ops := [TFLITE_BUILTINS],
             experimental_new_converter := False,
             experimental_new_quantizer := False,
             allow_custom_ops := False,
             experimental_enable_resource_variables := False\<rparr>
      in py_try
           (py_then (py_print ''Converting model...'')
           (py_bind (py_call (convert lib converter)) (\<lambda>tflite_model.
            (let output_path = ''assets/models/best_model_compatible.tflite''
             in py_then (write_file output_path tflite_model)
               (py_then (py_print (check_mark @ '' Compatible model saved to: '' @ output_path))
               (py_bind (py_call (Interpreter_content lib tflite_model)) (\<lambda>interpreter.
                py_then (py_call (allocate_tensors interpreter))
               (py_bind (py_call (get_input_details interpreter)) (\<lambda>input_details.
                py_bind (py_call (get_output_details interpreter)) (\<lambda>output_details.
                py_then (print_shape ''Input shape: '' input_details)
               (py_then (print_shape ''Output shape: '' output_details)
               (py_bind (py_call (get_ops_details interpreter)) (\<lambda>ops.
                py_then (py_print ''Operations used:'')
               (py_bind (collect_fully_connected ops []) (\<lambda>fully_connected_versions.
                py_then (report_fully_connected fully_connected_versions)
                        (py_return True))))))))))))))))
           (\<lambda>e. py_then (py_print (cross_mark @ '' Conversion failed: '' @ e))
                         (py_return False)))))))))"

definition create_tf212_compatible_main :: "tf \<Rightarrow> unit py" where
  "create_tf212_compatible_main lib =
     py_then (py_print (''TensorFlow version: '' @ tf_version lib))
    (py_bind (create_compatible_model lib) (\<lambda>success.
       if success then
         py_then (py_print (rule_line 60))
        (py_then (py_print ''SUCCESS! Your compatible model is ready.'')
        (py_then (py_print (''1. Update your Dart code to use '' @ quoted ''best_model_compatible.tflite''))
        (py_then (py_print ''2. Or rename it to 'best_model.tflite' to replace the old one'')
                 (py_print (replicate 60 CHR ''='')))))
       else py_print (newline @ cross_mark @ '' Failed to create compatible model'')))"

text \<open>The script: the assignment to \<open>os.environ\<close> at import, then the main block.\<close>

definition create_tf212_compatible :: "tf \<Rightarrow> unit py" where
  "create_tf212_compatible lib =
     py_then (set_environ ''TF_USE_LEGACY_KERAS'' ''1'') (create_tf212_compatible_main lib)"

section \<open>Notions the properties are stated with\<close>

text \<open>What a statement prints when it is run on its own.\<close>

definition empty_world :: world where
  "empty_world = \<lparr>stdout = [], files = Map.empty, environ = Map.empty\<rparr>"

definition printed_by :: "'a py \<Rightarrow> string list" where
  "printed_by m = stdout (snd (m empty_world))"

text \<open>
  A statement changes at most the files of \<open>F\<close> and the environment variables of \<open>E\<close>,
  and it only adds to the output, whatever the world it starts from.
\<close>

definition changes_at_most :: "string set \<Rightarrow> string set \<Rightarrow> 'a py \<Rightarrow> bool" where
  "changes_at_most F E m =
     (\<forall>w. (\<forall>p. p \<notin> F \<longrightarrow> files (snd (m w)) p = files w p)
        \<and> (\<forall>k. k \<notin> E \<longrightarrow> environ (snd (m w)) k = environ w k)
        \<and> (\<exists>out. stdout (snd (m w)) = stdout w @ out))"

text \<open>
  A statement leaves the files as they are, or it writes to the one file \<open>p\<close> what a
  conversion of the library has returned.
\<close>

definition writes_only_converted :: "tf \<Rightarrow> string \<Rightarrow> 'a py \<Rightarrow> bool" where
  "writes_only_converted lib p m =
     (\<forall>w. files (snd (m w)) = files w
        \<or> (\<exists>c content. convert lib c = Inr content
              \<and> files (snd (m w)) = (files w)(p \<mapsto> content)))"

text \<open>Reading a decimal numeral back, to say what the digits of \<open>str_nat\<close> mean.\<close>

definition read_nat :: "string \<Rightarrow> nat" where
  "read_nat s = foldl (\<lambda>a c. 10 * a + (of_char c - 48)) 0 s"

subsection \<open>Example libraries and worlds\<close>

definition example_interpreter :: "pydict list \<Rightarrow> interpreter" where
  "example_interpreter ops =
     \<lparr>allocate_tensors = Inr (),
      get_input_details =
        Inr [[''index'' \<mapsto> PInt 0, ''shape'' \<mapsto> PObj ''ndarray'' ''[    1 32000     1]'']],
      get_output_details =
        Inr [[''index'' \<mapsto> PInt 7, ''shape'' \<mapsto> PObj ''ndarray'' ''[1 3]'']],
      get_ops_details = Inr ops,
      set_tensor = (\<lambda>i t. Inr ()),
      invoke = Inr (),
      get_tensor = (\<lambda>i. Inr (PObj ''ndarray'' ''[[0.3 0.3 0.4]]''))\<rparr>"

definition example_converter :: "converter_source \<Rightarrow> converter" where
  "example_converter src =
     \<lparr>source = src, optimizations = [], supported_ops = [TFLITE_BUILTINS],
      experimental_new_converter = True, experimental_new_quantizer = True,
      allow_custom_ops = False, experimental_enable_resource_variables = True\<rparr>"

text \<open>
  A library given by what loading a model file does and what a conversion does; every
  other call returns.
\<close>

definition example_tf ::
  "(string \<Rightarrow> py_exception + interpreter) \<Rightarrow> (py_exception + string) \<Rightarrow> tf" where
  "example_tf load conversion =
     \<lparr>tf_version = ''2.15.0'',
      Interpreter_path = load,
      Interpreter_content = (\<lambda>c. Inr (example_interpreter [])),
      load_model = (\<lambda>p. Inr (Keras_model 0)),
      keras_Model = (\<lambda>n. Inr (Keras_model 1)),
      compile = (\<lambda>m a. Inr ()),
      model_summary = (\<lambda>m. Inr [''Model: model'']),
      from_keras_model = (\<lambda>m. Inr (example_converter (From_keras m))),
      get_concrete_function = (\<lambda>g s. Inr (Concrete_function 0)),
      from_concrete_functions = (\<lambda>fs. Inr (example_converter (From_concrete fs))),
      convert = (\<lambda>c. conversion),
      random_input = (\<lambda>shape. Inr (PObj ''ndarray'' ''[[[0.1] [0.2]]]''))\<rparr>"

definition no_such_file :: "string \<Rightarrow> py_exception + interpreter" where
  "no_such_file p = Inl (Exception (''Could not open '' @ quoted p @ ''.''))"

definition fully_connected :: "int \<Rightarrow> pydict" where
  "fully_connected v = [''op_name'' \<mapsto> PStr ''FULLY_CONNECTED'', ''version'' \<mapsto> PInt v]"

text \<open>A library whose conversion raises, and a library in which no model can be had.\<close>

definition conversion_fails_tf :: tf where
  "conversion_fails_tf = example_tf no_such_file (Inl (Exception ''unsupported operation''))"

definition unbuildable_tf :: tf where
  "unbuildable_tf = (example_tf no_such_file (Inr ''TFL3''))
     \<lparr>load_model := (\<lambda>p. Inl (Exception (''No file or directory found at '' @ p))),
      keras_Model := (\<lambda>n. Inl (Exception ''Keras is not available'')),
      get_concrete_function := (\<lambda>g s. Inl (Exception ''tracing failed''))\<rparr>"

section \<open>The shapes of the models the scripts build\<close>

text \<open>
  Modelled from the spec: the converter and the interpreter of the TensorFlow library are
  not in the repository, and the spec says of them that the declared input and output
  of a produced artifact have the shapes given at construction. What the shapes given at
  construction are is computed here, from the operations and layers the scripts pass
  to the library, by the shape rules of the library's documentation (they agree with the
  comments of create_minimal_model.py: [1, 32000, 1], then [1, 1], then [1, 3]).
\<close>

fun graph_op_shape :: "graph_op \<Rightarrow> nat list \<Rightarrow> nat list option" where
  "graph_op_shape (Reduce_mean axis) s =
     (if axis < length s then Some (take axis s @ drop (Suc axis) s) else None)"
| "graph_op_shape (Reshape t) s =
     (if prod_list t = prod_list s then Some t else None)"
| "graph_op_shape (Matmul_constant m) s =
     (case s of
        [a, b] \<Rightarrow>
          (if m \<noteq> [] \<and> length m = b \<and> list_all (\<lambda>row. length row = length (hd m)) m
           then Some [a, length (hd m)] else None)
      | _ \<Rightarrow> None)"
| "graph_op_shape Softmax s = Some s"

fun graph_shape :: "graph_op list \<Rightarrow> nat list \<Rightarrow> nat list option" where
  "graph_shape [] s = Some s"
| "graph_shape (x # xs) s =
     (case graph_op_shape x s of None \<Rightarrow> None | Some t \<Rightarrow> graph_shape xs t)"

text \<open>
  A Keras model leaves its first dimension, the batch, open: \<open>None\<close> here. An input
  declared with \<open>shape=(32000, 1)\<close> has the shape (None, 32000, 1).
\<close>

fun layer_shape :: "layer \<Rightarrow> nat option list \<Rightarrow> nat option list option" where
  "layer_shape GlobalAveragePooling1D s =
     (case s of [batch, steps, features] \<Rightarrow> Some [batch, features] | _ \<Rightarrow> None)"
| "layer_shape (Dense units activation name) s =
     (if 2 \<le> length s then Some (butlast s @ [Some units]) else None)"
| "layer_shape (Dropout rate) s = Some s"

fun layers_shape :: "layer list \<Rightarrow> nat option list \<Rightarrow> nat option list option" where
  "layers_shape [] s = Some s"
| "layers_shape (x # xs) s =
     (case layer_shape x s of None \<Rightarrow> None | Some t \<Rightarrow> layers_shape xs t)"

definition keras_input_shape :: "network \<Rightarrow> nat option list" where
  "keras_input_shape net = None # map Some (input_shape net)"

definition keras_output_shape :: "network \<Rightarrow> nat option list option" where
  "keras_output_shape net = layers_shape (layers net) (keras_input_shape net)"

text \<open>In the artifact a dimension that the model leaves open is declared as 1.\<close>

definition declared_shape :: "nat option list \<Rightarrow> nat list" where
  "declared_shape s = map (\<lambda>d. case d of None \<Rightarrow> 1 | Some n \<Rightarrow> n) s"

text \<open>
  The interpreter reports a shape as an array of integers, whose \<open>str\<close> has the
  numbers padded to the width of the widest and separated by spaces.
\<close>

definition pad_left :: "nat \<Rightarrow> string \<Rightarrow> string" where
  "pad_left n s = replicate (n - length s) CHR '' '' @ s"

fun join_spaces :: "string list \<Rightarrow> string" where
  "join_spaces [] = []"
| "join_spaces [s] = s"
| "join_spaces (s # t # ts) = s @ '' '' @ join_spaces (t # ts)"

definition numpy_str :: "nat list \<Rightarrow> string" where
  "numpy_str xs =
     (let ss = map str_nat xs; n = foldr max (map length ss) 0
      in ''['' @ join_spaces (map (pad_left n) ss) @ '']'')"

definition shape_value :: "nat list \<Rightarrow> pyval" where
  "shape_value xs = PObj ''ndarray'' (numpy_str xs)"

text \<open>
  The shapes an artifact declares are read the way the scripts read them: the artifact is
  loaded from its content and the entry \<open>shape\<close> of the first input and of the first
  output is taken.
\<close>

definition artifact_declares :: "tf \<Rightarrow> string \<Rightarrow> nat list \<Rightarrow> nat list \<Rightarrow> bool" where
  "artifact_declares lib content input output =
     (case Interpreter_content lib content of
        Inl e \<Rightarrow> False
      | Inr i \<Rightarrow>
          (case (get_input_details i, get_output_details i) of
             (Inr (d_in # ins), Inr (d_out # outs)) \<Rightarrow>
               d_in ''shape'' = Some (shape_value input)
               \<and> d_out ''shape'' = Some (shape_value output)
           | _ \<Rightarrow> False))"

text \<open>
  Modelled from the spec: a conversion keeps the shapes. An artifact converted from a
  traced function declares the shape of the function's argument and of its result; an
  artifact converted from a Keras model declares the shapes of the model's input and
  output, with the batch as 1.
\<close>

definition converts_as_documented :: "tf \<Rightarrow> bool" where
  "converts_as_documented lib =
     ((\<forall>g s f c0 c content.
         get_concrete_function lib g s = Inr f
         \<and> from_concrete_functions lib [f] = Inr c0
         \<and> source c = source c0
         \<and> convert lib c = Inr content \<longrightarrow>
         (\<exists>out. graph_shape g (spec_shape s) = Some out
            \<and> artifact_declares lib content (spec_shape s) out))
      \<and> (\<forall>net model c0 c content.
         keras_Model lib net = Inr model
         \<and> from_keras_model lib model = Inr c0
         \<and> source c = source c0
         \<and> convert lib c = Inr content \<longrightarrow>
         (\<exists>out. keras_output_shape net = Some out
            \<and> artifact_declares lib content
                 (declared_shape (keras_input_shape net)) (declared_shape out))))"

text \<open>
  A statement leaves the files as they are, or it writes to the one file \<open>p\<close> a content
  that is \<open>good\<close>.
\<close>

definition writes_only_artifact :: "string \<Rightarrow> (string \<Rightarrow> bool) \<Rightarrow> 'a py \<Rightarrow> bool" where
  "writes_only_artifact p good m =
     (\<forall>w. files (snd (m w)) = files w
        \<or> (\<exists>content. good content \<and> files (snd (m w)) = (files w)(p \<mapsto> content)))"

text \<open>
  A library that converts as the spec says, and that takes only models whose shapes are
  those its artifacts declare.
\<close>

definition documented_tf :: tf where
  "documented_tf = (example_tf no_such_file (Inr ''TFL3''))
     \<lparr>keras_Model := (\<lambda>net.
        if declared_shape (keras_input_shape net) = [1, 32000, 1]
           \<and> map_option declared_shape (keras_output_shape net) = Some [1, 3]
        then Inr (Keras_model 1) else Inl (Exception ''unsupported model'')),
      get_concrete_function := (\<lambda>g s.
        if spec_shape s = [1, 32000, 1] \<and> graph_shape g (spec_shape s) = Some [1, 3]
        then Inr (Concrete_function 0) else Inl (Exception ''unsupported function''))\<rparr>"

section \<open>Basic facts about statements\<close>

declare str_nat.simps [simp del]

lemma py_bind_return: "py_bind (py_return x) f = f x"
  by (rule ext) (simp add: py_bind_def py_return_def)

lemma py_bind_raise: "py_bind (py_raise e) f = py_raise e"
  by (rule ext) (simp add: py_bind_def py_raise_def)

lemma py_call_Inr: "py_call (Inr x) = py_return x"
  by (rule ext) (simp add: py_call_def py_return_def)

lemma py_call_Inl: "py_call (Inl e) = py_raise e"
  by (rule ext) (simp add: py_call_def py_raise_def)

lemma py_then_return: "py_then (py_return x) k = k"
  by (simp add: py_then_def py_bind_return)

lemma py_then_raise: "py_then (py_raise e) k = py_raise e"
  by (simp add: py_then_def py_bind_raise)

lemma py_then_print: "py_then (py_print s) k w = k (w\<lparr>stdout := stdout w @ [s]\<rparr>)"
  by (simp add: py_then_def py_bind_def py_print_def)

lemma py_then_write_file:
  "py_then (write_file p c) k w = k (w\<lparr>files := (files w)(p \<mapsto> c)\<rparr>)"
  by (simp add: py_then_def py_bind_def write_file_def)

lemma py_then_set_environ:
  "py_then (set_environ x v) k w = k (w\<lparr>environ := (environ w)(x \<mapsto> v)\<rparr>)"
  by (simp add: py_then_def py_bind_def set_environ_def)

lemma py_try_return: "py_try (py_return x) h = py_return x"
  by (rule ext) (simp add: py_try_def py_return_def)

lemma py_try_raise_Exception: "py_try (py_raise (Exception m)) h = h m"
  by (rule ext) (simp add: py_try_def py_raise_def)

lemma py_try_raise_BaseException:
  "py_try (py_raise (BaseException m)) h = py_raise (BaseException m)"
  by (rule ext) (simp add: py_try_def py_raise_def)

lemma py_try_then_print:
  "py_try (py_then (py_print s) k) h w = py_try k h (w\<lparr>stdout := stdout w @ [s]\<rparr>)"
  by (simp add: py_try_def py_then_def py_bind_def py_print_def)

lemma py_try_then_write_file:
  "py_try (py_then (write_file p c) k) h w =
     py_try k h (w\<lparr>files := (files w)(p \<mapsto> c)\<rparr>)"
  by (simp add: py_try_def py_then_def py_bind_def write_file_def)

lemma py_then_eq: "m w = (Inr (), w') \<Longrightarrow> py_then m k w = k w'"
  by (simp add: py_then_def py_bind_def)

lemmas py_simps =
  py_bind_return py_bind_raise py_call_Inr py_call_Inl py_then_return py_then_raise
  py_then_print py_then_write_file py_then_set_environ py_try_return
  py_try_raise_Exception py_try_raise_BaseException py_try_then_print
  py_try_then_write_file

text \<open>The definitions that evaluate a run on a given library and world.\<close>

lemmas py_defs =
  py_return_def py_raise_def py_bind_def py_then_def py_call_def py_print_def
  write_file_def set_environ_def py_try_def print_shape_def getitem0_def getkey_def

lemmas example_simps =
  example_tf_def example_interpreter_def example_converter_def no_such_file_def
  fully_connected_def empty_world_def

lemmas string_simps =
  op_line_def op_name_of_def version_of_def dict_get_def str_int_def str_nat.simps
  incompatible_line_def compatible_line_def quoted_def

subsection \<open>Loops that only print\<close>

lemma py_for_prints:
  assumes "\<And>x w. body x w = (Inr (), w\<lparr>stdout := stdout w @ out x\<rparr>)"
  shows "py_for xs body w = (Inr (), w\<lparr>stdout := stdout w @ concat (map out xs)\<rparr>)"
proof (induction xs arbitrary: w)
  case Nil
  show ?case by (simp add: py_return_def)
next
  case (Cons x xs)
  have "body x w = (Inr (), w\<lparr>stdout := stdout w @ out x\<rparr>)"
    by (rule assms)
  then show ?case by (simp add: py_then_def py_bind_def Cons.IH)
qed

lemma report_op_best_eq:
  "report_op_best op w =
     (Inr (), w\<lparr>stdout := stdout w @ printed_by (report_op_best op)\<rparr>)"
  by (simp add: report_op_best_def printed_by_def empty_world_def Let_def py_simps
        py_print_def py_return_def)

lemma report_op_minimal_eq:
  "report_op_minimal op w = (Inr (), w\<lparr>stdout := stdout w @ [op_line op]\<rparr>)"
  by (simp add: report_op_minimal_def py_print_def)

lemma py_for_best:
  "py_for ops report_op_best w =
     (Inr (), w\<lparr>stdout := stdout w @
        concat (map (\<lambda>op. printed_by (report_op_best op)) ops)\<rparr>)"
  by (rule py_for_prints) (rule report_op_best_eq)

lemma py_for_minimal:
  "py_for ops report_op_minimal w = (Inr (), w\<lparr>stdout := stdout w @ map op_line ops\<rparr>)"
  using py_for_prints [of report_op_minimal "\<lambda>op. [op_line op]" ops w]
  by (simp add: report_op_minimal_eq)

lemma printed_best_12:
  "op_name_of op = PStr ''FULLY_CONNECTED'' \<Longrightarrow> version_of op = PInt 12 \<Longrightarrow>
   printed_by (report_op_best op) = [op_line op, incompatible_line]"
  by (simp add: report_op_best_def printed_by_def empty_world_def Let_def py_simps
        py_print_def)

lemma printed_best_below_12:
  "op_name_of op = PStr ''FULLY_CONNECTED'' \<Longrightarrow> version_of op = PInt n \<Longrightarrow> n \<le> 11 \<Longrightarrow>
   printed_by (report_op_best op) = [op_line op, compatible_line (PInt n)]"
  by (simp add: report_op_best_def printed_by_def empty_world_def Let_def py_simps
        py_print_def)

lemma printed_best_not_fully_connected:
  "op_name_of op \<noteq> PStr ''FULLY_CONNECTED'' \<Longrightarrow>
   printed_by (report_op_best op) = [op_line op]"
  by (simp add: report_op_best_def printed_by_def empty_world_def Let_def py_simps
        py_print_def py_return_def)

lemma printed_best_starts_with_op_line:
  "\<exists>flags. printed_by (report_op_best op) = op_line op # flags"
  by (simp add: report_op_best_def printed_by_def empty_world_def Let_def py_simps
        py_print_def py_return_def)

subsection \<open>The blocks of check_model_versions.py\<close>

lemma version_header_eq:
  "version_header lib w =
     (Inr (), w\<lparr>stdout := stdout w @ printed_by (version_header lib)\<rparr>)"
  by (simp add: version_header_def printed_by_def empty_world_def py_simps py_print_def)

lemma summary_eq:
  "summary w = (Inr (), w\<lparr>stdout := stdout w @ printed_by summary\<rparr>)"
  by (simp add: summary_def printed_by_def empty_world_def py_simps py_print_def)

lemma analyze_best_missing:
  assumes "Interpreter_path lib ''assets/models/best_model.tflite'' = Inl (Exception m)"
  shows "analyze_best lib w =
    (Inr (), w\<lparr>stdout := stdout w @ [newline @ ''Analyzing best_model.tflite...'',
       cross_mark @ '' Error analyzing best_model.tflite: '' @ m]\<rparr>)"
  using assms by (simp add: analyze_best_def py_simps py_print_def)

lemma analyze_minimal_missing:
  assumes "Interpreter_path lib ''assets/models/minimal_model.tflite'' = Inl (Exception m)"
  shows "analyze_minimal lib w =
    (Inr (), w\<lparr>stdout := stdout w @ [newline @ ''Analyzing minimal_model.tflite...'',
       cross_mark @ '' Error analyzing minimal_model.tflite: '' @ m]\<rparr>)"
  using assms by (simp add: analyze_minimal_def py_simps py_print_def)

lemma script_best_missing:
  assumes "Interpreter_path lib ''assets/models/best_model.tflite'' = Inl (Exception m)"
  shows "check_model_versions lib w =
     py_then (analyze_minimal lib) summary
       (w\<lparr>stdout := stdout w @ printed_by (version_header lib) @
          [newline @ ''Analyzing best_model.tflite...'',
           cross_mark @ '' Error analyzing best_model.tflite: '' @ m,
           rule_line 60]\<rparr>)"
  by (simp add: check_model_versions_def py_then_eq [OF version_header_eq]
        py_then_eq [OF analyze_best_missing [OF assms]] py_then_print)

lemma tail_minimal_missing:
  assumes "Interpreter_path lib ''assets/models/minimal_model.tflite'' = Inl (Exception m)"
  shows "py_then (analyze_minimal lib) summary w =
     (Inr (), w\<lparr>stdout := stdout w @
          [newline @ ''Analyzing minimal_model.tflite...'',
           cross_mark @ '' Error analyzing minimal_model.tflite: '' @ m]
          @ printed_by summary\<rparr>)"
  by (simp add: py_then_eq [OF analyze_minimal_missing [OF assms]]
        summary_eq [of "w\<lparr>stdout := x\<rparr>" for x])

lemma py_try_print_no_Exception:
  "fst (py_try body (\<lambda>e. py_print (f e)) w) \<noteq> Inl (Exception m)"
  by (simp add: py_try_def py_print_def split: prod.splits sum.splits py_exception.splits)

subsection \<open>The decimal digits of a number\<close>

lemma digit_value: "n < 10 \<Longrightarrow> of_char (''0123456789'' ! n) = 48 + n"
proof -
  assume "n < 10"
  then have "n \<in> {0, 1, 2, 3, 4, 5, 6, 7, 8, 9}" by auto
  then show ?thesis by auto
qed

lemma read_nat_append:
  "read_nat (s @ [c]) = 10 * read_nat s + (of_char c - 48)"
  by (simp add: read_nat_def)

lemma read_nat_str_nat: "read_nat (str_nat n) = n"
proof (induction n rule: str_nat.induct)
  case (1 n)
  show ?case
  proof (cases "n < 10")
    case True
    then show ?thesis
      by (subst str_nat.simps) (simp add: read_nat_def digit_value)
  next
    case False
    have "n mod 10 < 10" by simp
    then have d: "of_char (''0123456789'' ! (n mod 10)) = 48 + n mod 10"
      by (rule digit_value)
    have "read_nat (str_nat n) = 10 * read_nat (str_nat (n div 10)) + n mod 10"
      using False by (subst str_nat.simps) (simp add: read_nat_append d del: nth_Cons_numeral)
    then show ?thesis using 1 False by simp
  qed
qed

subsection \<open>The blocks of check_model_versions.py on a model that loads\<close>

lemma py_try_returns: "body w = (Inr x, w') \<Longrightarrow> py_try body h w = (Inr x, w')"
  by (simp add: py_try_def)

lemma print_shape_Cons:
  "d ''shape'' \<noteq> None \<Longrightarrow>
   print_shape label (d # rest) w =
     (Inr (), w\<lparr>stdout := stdout w @ [label @ py_str (the (d ''shape''))]\<rparr>)"
  by (auto simp add: print_shape_def getitem0_def getkey_def py_bind_def py_call_def
        py_print_def)

lemma py_try_then_print_shape:
  "d ''shape'' \<noteq> None \<Longrightarrow>
   py_try (py_then (print_shape label (d # rest)) k) h w =
     py_try k h (w\<lparr>stdout := stdout w @ [label @ py_str (the (d ''shape''))]\<rparr>)"
  by (simp add: py_try_def py_then_def py_bind_def print_shape_Cons)

lemma analyze_best_loaded:
  assumes "Interpreter_path lib ''assets/models/best_model.tflite'' = Inr i"
    and "allocate_tensors i = Inr ()"
    and "get_input_details i = Inr (d_in # ins)" and "d_in ''shape'' = Some s_in"
    and "get_output_details i = Inr (d_out # outs)" and "d_out ''shape'' = Some s_out"
    and "get_ops_details i = Inr ops"
  shows "analyze_best lib w =
    (Inr (), w\<lparr>stdout := stdout w @
       [newline @ ''Analyzing best_model.tflite...'',
        ''Input shape: '' @ py_str s_in,
        ''Output shape: '' @ py_str s_out,
        ''Operations used:'']
       @ concat (map (\<lambda>op. printed_by (report_op_best op)) ops)\<rparr>)"
  using assms
  by (simp add: analyze_best_def py_simps py_try_then_print_shape
        py_try_returns [OF py_for_best])

lemma analyze_minimal_loaded:
  assumes "Interpreter_path lib ''assets/models/minimal_model.tflite'' = Inr i"
    and "allocate_tensors i = Inr ()"
    and "get_input_details i = Inr (d_in # ins)" and "d_in ''shape'' = Some s_in"
    and "get_output_details i = Inr (d_out # outs)" and "d_out ''shape'' = Some s_out"
    and "get_ops_details i = Inr ops"
  shows "analyze_minimal lib w =
    (Inr (), w\<lparr>stdout := stdout w @
       [newline @ ''Analyzing minimal_model.tflite...'',
        ''Input shape: '' @ py_str s_in,
        ''Output shape: '' @ py_str s_out,
        ''Operations used:'']
       @ map op_line ops\<rparr>)"
  using assms
  by (simp add: analyze_minimal_def py_simps py_try_then_print_shape
        py_try_returns [OF py_for_minimal])

lemma op_line_known:
  "op ''op_name'' = Some (PStr name) \<Longrightarrow> op ''version'' = Some (PInt (int n)) \<Longrightarrow>
   op_line op = ''  - '' @ name @ '' (version '' @ str_nat n @ '')''"
  by (simp add: op_line_def op_name_of_def version_of_def dict_get_def str_int_def)

lemma op_line_no_version:
  "op ''op_name'' = Some (PStr name) \<Longrightarrow> op ''version'' = None \<Longrightarrow>
   op_line op = ''  - '' @ name @ '' (version Unknown)''"
  by (simp add: op_line_def op_name_of_def version_of_def dict_get_def)

section \<open>The operator report of check_model_versions.py\<close>

text \<open>
  Claim C1, as the code has it. When best_model.tflite loads, the routine prints the
  heading of the artifact, its two shapes, and then, for each operator of the list that
  \<open>_get_ops_details\<close> returns, in the order of that list, the line of the operator
  followed by its flag: an operator named FULLY_CONNECTED with version 12 is flagged
  incompatible, one with an integer version up to 11 is reported compatible, and an
  operator of another name gets no flag. When minimal_model.tflite loads, the routine
  prints the heading, the shapes and the line of each operator, and never a flag.
\<close>

theorem best_model_flags:
  "(Interpreter_path lib ''assets/models/best_model.tflite'' = Inr i
      \<and> allocate_tensors i = Inr ()
      \<and> get_input_details i = Inr (d_in # ins) \<and> d_in ''shape'' = Some s_in
      \<and> get_output_details i = Inr (d_out # outs) \<and> d_out ''shape'' = Some s_out
      \<and> get_ops_details i = Inr ops \<longrightarrow>
      analyze_best lib w =
        (Inr (), w\<lparr>stdout := stdout w @
           [newline @ ''Analyzing best_model.tflite...'',
              ''Input shape: '' @ py_str s_in,
              ''Output shape: '' @ py_str s_out,
              ''Operations used:'']
           @ concat (map (\<lambda>op. printed_by (report_op_best op)) ops)\<rparr>))
   \<and> (Interpreter_path lib ''assets/models/minimal_model.tflite'' = Inr i
      \<and> allocate_tensors i = Inr ()
      \<and> get_input_details i = Inr (d_in # ins) \<and> d_in ''shape'' = Some s_in
      \<and> get_output_details i = Inr (d_out # outs) \<and> d_out ''shape'' = Some s_out
      \<and> get_ops_details i = Inr ops \<longrightarrow>
      analyze_minimal lib w =
        (Inr (), w\<lparr>stdout := stdout w @
           [newline @ ''Analyzing minimal_model.tflite...'',
              ''Input shape: '' @ py_str s_in,
              ''Output shape: '' @ py_str s_out,
              ''Operations used:'']
           @ map op_line ops\<rparr>))
   \<and> (\<forall>op. op_name_of op = PStr ''FULLY_CONNECTED'' \<and> version_of op = PInt 12 \<longrightarrow>
          printed_by (report_op_best op) = [op_line op, incompatible_line])
   \<and> (\<forall>op n. op_name_of op = PStr ''FULLY_CONNECTED'' \<and> version_of op = PInt n \<and> n \<le> 11 \<longrightarrow>
          printed_by (report_op_best op) = [op_line op, compatible_line (PInt n)])
   \<and> (\<forall>op. op_name_of op \<noteq> PStr ''FULLY_CONNECTED'' \<longrightarrow>
          printed_by (report_op_best op) = [op_line op])"
proof -
  have best: "Interpreter_path lib ''assets/models/best_model.tflite'' = Inr i
      \<and> allocate_tensors i = Inr ()
      \<and> get_input_details i = Inr (d_in # ins) \<and> d_in ''shape'' = Some s_in
      \<and> get_output_details i = Inr (d_out # outs) \<and> d_out ''shape'' = Some s_out
      \<and> get_ops_details i = Inr ops \<longrightarrow>
      analyze_best lib w =
        (Inr (), w\<lparr>stdout := stdout w @
           [newline @ ''Analyzing best_model.tflite...'',
              ''Input shape: '' @ py_str s_in,
              ''Output shape: '' @ py_str s_out,
              ''Operations used:'']
           @ concat (map (\<lambda>op. printed_by (report_op_best op)) ops)\<rparr>)"
    using analyze_best_loaded [of lib i d_in ins s_in d_out outs s_out ops w] by blast
  have minimal: "Interpreter_path lib ''assets/models/minimal_model.tflite'' = Inr i
      \<and> allocate_tensors i = Inr ()
      \<and> get_input_details i = Inr (d_in # ins) \<and> d_in ''shape'' = Some s_in
      \<and> get_output_details i = Inr (d_out # outs) \<and> d_out ''shape'' = Some s_out
      \<and> get_ops_details i = Inr ops \<longrightarrow>
      analyze_minimal lib w =
        (Inr (), w\<lparr>stdout := stdout w @
           [newline @ ''Analyzing minimal_model.tflite...'',
              ''Input shape: '' @ py_str s_in,
              ''Output shape: '' @ py_str s_out,
              ''Operations used:'']
           @ map op_line ops\<rparr>)"
    using analyze_minimal_loaded [of lib i d_in ins s_in d_out outs s_out ops w] by blast
  have flags: "(\<forall>op. op_name_of op = PStr ''FULLY_CONNECTED'' \<and> version_of op = PInt 12 \<longrightarrow>
          printed_by (report_op_best op) = [op_line op, incompatible_line])
   \<and> (\<forall>op n. op_name_of op = PStr ''FULLY_CONNECTED'' \<and> version_of op = PInt n \<and> n \<le> 11 \<longrightarrow>
          printed_by (report_op_best op) = [op_line op, compatible_line (PInt n)])
   \<and> (\<forall>op. op_name_of op \<noteq> PStr ''FULLY_CONNECTED'' \<longrightarrow>
          printed_by (report_op_best op) = [op_line op])"
    using printed_best_12 printed_best_below_12 printed_best_not_fully_connected by blast
  show ?thesis
    by (intro conjI) (rule best, rule minimal, rule flags [THEN conjunct1],
      rule flags [THEN conjunct2, THEN conjunct1], rule flags [THEN conjunct2, THEN conjunct2])
qed

theorem best_model_flags_witness:
  "analyze_best
     (example_tf
        (\<lambda>p. Inr (example_interpreter
           [fully_connected 12, fully_connected 11,
            [''op_name'' \<mapsto> PStr ''SOFTMAX'', ''version'' \<mapsto> PInt 1]]))
        (Inr []))
     empty_world =
   (Inr (), empty_world\<lparr>stdout :=
      [newline @ ''Analyzing best_model.tflite...'',
       ''Input shape: [    1 32000     1]'',
       ''Output shape: [1 3]'',
       ''Operations used:'',
       ''  - FULLY_CONNECTED (version 12)'', incompatible_line,
       ''  - FULLY_CONNECTED (version 11)'', compatible_line (PInt 11),
       ''  - SOFTMAX (version 1)'']\<rparr>)
   \<and> analyze_minimal
     (example_tf
        (\<lambda>p. Inr (example_interpreter
           [fully_connected 12, fully_connected 11,
            [''op_name'' \<mapsto> PStr ''SOFTMAX'', ''version'' \<mapsto> PInt 1]]))
        (Inr []))
     empty_world =
   (Inr (), empty_world\<lparr>stdout :=
      [newline @ ''Analyzing minimal_model.tflite...'',
       ''Input shape: [    1 32000     1]'',
       ''Output shape: [1 3]'',
       ''Operations used:'',
       ''  - FULLY_CONNECTED (version 12)'',
       ''  - FULLY_CONNECTED (version 11)'',
       ''  - SOFTMAX (version 1)'']\<rparr>)"
proof -
  let ?softmax = "[''op_name'' \<mapsto> PStr ''SOFTMAX'', ''version'' \<mapsto> PInt 1]"
  let ?ops = "[fully_connected 12, fully_connected 11, ?softmax]"
  let ?i = "example_interpreter ?ops"
  let ?lib = "example_tf (\<lambda>p. Inr ?i) (Inr [])"
  let ?d_in = "[''index'' \<mapsto> PInt 0, ''shape'' \<mapsto> PObj ''ndarray'' ''[    1 32000     1]'']"
  let ?d_out = "[''index'' \<mapsto> PInt 7, ''shape'' \<mapsto> PObj ''ndarray'' ''[1 3]'']"
  note T = best_model_flags
    [where lib = ?lib and w = empty_world and i = ?i and ops = ?ops
       and d_in = ?d_in and ins = "[]" and s_in = "PObj ''ndarray'' ''[    1 32000     1]''"
       and d_out = ?d_out and outs = "[]" and s_out = "PObj ''ndarray'' ''[1 3]''"]
  have hb: "Interpreter_path ?lib ''assets/models/best_model.tflite'' = Inr ?i
      \<and> allocate_tensors ?i = Inr ()
      \<and> get_input_details ?i = Inr (?d_in # [])
      \<and> ?d_in ''shape'' = Some (PObj ''ndarray'' ''[    1 32000     1]'')
      \<and> get_output_details ?i = Inr (?d_out # [])
      \<and> ?d_out ''shape'' = Some (PObj ''ndarray'' ''[1 3]'')
      \<and> get_ops_details ?i = Inr ?ops"
    by (simp add: example_tf_def example_interpreter_def)
  have hm: "Interpreter_path ?lib ''assets/models/minimal_model.tflite'' = Inr ?i
      \<and> allocate_tensors ?i = Inr ()
      \<and> get_input_details ?i = Inr (?d_in # [])
      \<and> ?d_in ''shape'' = Some (PObj ''ndarray'' ''[    1 32000     1]'')
      \<and> get_output_details ?i = Inr (?d_out # [])
      \<and> ?d_out ''shape'' = Some (PObj ''ndarray'' ''[1 3]'')
      \<and> get_ops_details ?i = Inr ?ops"
    by (simp add: example_tf_def example_interpreter_def)
  note best = T [THEN conjunct1, THEN mp, OF hb]
  note minimal = T [THEN conjunct2, THEN conjunct1, THEN mp, OF hm]
  note flags = T [THEN conjunct2, THEN conjunct2]
  have p12: "printed_by (report_op_best (fully_connected 12)) =
      [op_line (fully_connected 12), incompatible_line]"
    using flags [THEN conjunct1]
    by (simp add: op_name_of_def version_of_def dict_get_def fully_connected_def)
  have p11: "printed_by (report_op_best (fully_connected 11)) =
      [op_line (fully_connected 11), compatible_line (PInt 11)]"
    using flags [THEN conjunct2, THEN conjunct1]
    by (simp add: op_name_of_def version_of_def dict_get_def fully_connected_def)
  have psm: "printed_by (report_op_best ?softmax) = [op_line ?softmax]"
    using flags [THEN conjunct2, THEN conjunct2]
    by (simp add: op_name_of_def dict_get_def)
  show ?thesis
    unfolding best minimal
    by (simp add: p12 p11 psm)
       (simp add: empty_world_def fully_connected_def op_line_def op_name_of_def
          version_of_def dict_get_def str_int_def str_nat.simps)
qed

text \<open>
  Against C1 as it is written: minimal_model.tflite is inspected too, and there an
  operator FULLY_CONNECTED of version 12 is listed without any flag.
\<close>

theorem minimal_model_not_flagged:
  "analyze_minimal
     (example_tf (\<lambda>p. Inr (example_interpreter [fully_connected 12])) (Inr []))
     empty_world =
   (Inr (), empty_world\<lparr>stdout :=
      [newline @ ''Analyzing minimal_model.tflite...'',
       ''Input shape: [    1 32000     1]'',
       ''Output shape: [1 3]'',
       ''Operations used:'',
       ''  - FULLY_CONNECTED (version 12)'']\<rparr>)"
  by (simp add: analyze_minimal_def example_simps py_defs report_op_minimal_def string_simps)

text \<open>
  Claim C2, as the code has it. When an artifact loads, the routine prints, after the
  heading and the shapes, the operator lines in the order of the list that
  \<open>_get_ops_details\<close> returns, one line for each entry (for best_model.tflite each
  line may be followed by flags). The line of an entry with a name and an integer version
  that is not negative shows the name and the decimal digits of the version; the line of
  an entry without the key \<open>version\<close> shows the text Unknown in its place. The version
  is not checked.
\<close>

theorem operators_in_loader_order:
  "(Interpreter_path lib ''assets/models/best_model.tflite'' = Inr i
      \<and> allocate_tensors i = Inr ()
      \<and> get_input_details i = Inr (d_in # ins) \<and> d_in ''shape'' = Some s_in
      \<and> get_output_details i = Inr (d_out # outs) \<and> d_out ''shape'' = Some s_out
      \<and> get_ops_details i = Inr ops \<longrightarrow>
      (\<exists>flags. analyze_best lib w =
        (Inr (), w\<lparr>stdout := stdout w @
           [newline @ ''Analyzing best_model.tflite...'',
              ''Input shape: '' @ py_str s_in,
              ''Output shape: '' @ py_str s_out,
              ''Operations used:'']
           @ concat (map (\<lambda>op. op_line op # flags op) ops)\<rparr>)))
   \<and> (Interpreter_path lib ''assets/models/minimal_model.tflite'' = Inr i
      \<and> allocate_tensors i = Inr ()
      \<and> get_input_details i = Inr (d_in # ins) \<and> d_in ''shape'' = Some s_in
      \<and> get_output_details i = Inr (d_out # outs) \<and> d_out ''shape'' = Some s_out
      \<and> get_ops_details i = Inr ops \<longrightarrow>
      analyze_minimal lib w =
        (Inr (), w\<lparr>stdout := stdout w @
           [newline @ ''Analyzing minimal_model.tflite...'',
              ''Input shape: '' @ py_str s_in,
              ''Output shape: '' @ py_str s_out,
              ''Operations used:'']
           @ map op_line ops\<rparr>))
   \<and> (\<forall>op name n. op ''op_name'' = Some (PStr name) \<and> op ''version'' = Some (PInt (int n)) \<longrightarrow>
          op_line op = ''  - '' @ name @ '' (version '' @ str_nat n @ '')''
          \<and> read_nat (str_nat n) = n)
   \<and> (\<forall>op name. op ''op_name'' = Some (PStr name) \<and> op ''version'' = None \<longrightarrow>
          op_line op = ''  - '' @ name @ '' (version Unknown)'')"
proof -
  define flags where "flags = (\<lambda>op. tl (printed_by (report_op_best op)))"
  have f: "printed_by (report_op_best op) = op_line op # flags op" for op
    using printed_best_starts_with_op_line [of op] unfolding flags_def by auto
  have fs: "map (\<lambda>op. printed_by (report_op_best op)) ops = map (\<lambda>op. op_line op # flags op) ops"
    using f by simp
  have best: "Interpreter_path lib ''assets/models/best_model.tflite'' = Inr i
      \<and> allocate_tensors i = Inr ()
      \<and> get_input_details i = Inr (d_in # ins) \<and> d_in ''shape'' = Some s_in
      \<and> get_output_details i = Inr (d_out # outs) \<and> d_out ''shape'' = Some s_out
      \<and> get_ops_details i = Inr ops \<longrightarrow>
      (\<exists>flags. analyze_best lib w =
        (Inr (), w\<lparr>stdout := stdout w @
           [newline @ ''Analyzing best_model.tflite...'',
              ''Input shape: '' @ py_str s_in,
              ''Output shape: '' @ py_str s_out,
              ''Operations used:'']
           @ concat (map (\<lambda>op. op_line op # flags op) ops)\<rparr>))"
  proof
    assume h: "Interpreter_path lib ''assets/models/best_model.tflite'' = Inr i
      \<and> allocate_tensors i = Inr ()
      \<and> get_input_details i = Inr (d_in # ins) \<and> d_in ''shape'' = Some s_in
      \<and> get_output_details i = Inr (d_out # outs) \<and> d_out ''shape'' = Some s_out
      \<and> get_ops_details i = Inr ops"
    have e: "analyze_best lib w =
        (Inr (), w\<lparr>stdout := stdout w @
           [newline @ ''Analyzing best_model.tflite...'',
              ''Input shape: '' @ py_str s_in,
              ''Output shape: '' @ py_str s_out,
              ''Operations used:'']
           @ concat (map (\<lambda>op. op_line op # flags op) ops)\<rparr>)"
      using h analyze_best_loaded [of lib i d_in ins s_in d_out outs s_out ops w]
      unfolding fs by blast
    show "\<exists>flags. analyze_best lib w =
        (Inr (), w\<lparr>stdout := stdout w @
           [newline @ ''Analyzing best_model.tflite...'',
              ''Input shape: '' @ py_str s_in,
              ''Output shape: '' @ py_str s_out,
              ''Operations used:'']
           @ concat (map (\<lambda>op. op_line op # flags op) ops)\<rparr>)"
      by (rule exI [of _ flags]) (rule e)
  qed
  have minimal: "Interpreter_path lib ''assets/models/minimal_model.tflite'' = Inr i
      \<and> allocate_tensors i = Inr ()
      \<and> get_input_details i = Inr (d_in # ins) \<and> d_in ''shape'' = Some s_in
      \<and> get_output_details i = Inr (d_out # outs) \<and> d_out ''shape'' = Some s_out
      \<and> get_ops_details i = Inr ops \<longrightarrow>
      analyze_minimal lib w =
        (Inr (), w\<lparr>stdout := stdout w @
           [newline @ ''Analyzing minimal_model.tflite...'',
              ''Input shape: '' @ py_str s_in,
              ''Output shape: '' @ py_str s_out,
              ''Operations used:'']
           @ map op_line ops\<rparr>)"
    using analyze_minimal_loaded [of lib i d_in ins s_in d_out outs s_out ops w] by blast
  have known: "\<forall>op name n. op ''op_name'' = Some (PStr name) \<and> op ''version'' = Some (PInt (int n)) \<longrightarrow>
          op_line op = ''  - '' @ name @ '' (version '' @ str_nat n @ '')''
          \<and> read_nat (str_nat n) = n"
  proof (intro allI impI)
    fix op :: pydict and name n
    assume "op ''op_name'' = Some (PStr name) \<and> op ''version'' = Some (PInt (int n))"
    then show "op_line op = ''  - '' @ name @ '' (version '' @ str_nat n @ '')''
          \<and> read_nat (str_nat n) = n"
      using op_line_known [of op name n] read_nat_str_nat [of n] by blast
  qed
  have unknown: "\<forall>op name. op ''op_name'' = Some (PStr name) \<and> op ''version'' = None \<longrightarrow>
          op_line op = ''  - '' @ name @ '' (version Unknown)''"
  proof (intro allI impI)
    fix op :: pydict and name
    assume "op ''op_name'' = Some (PStr name) \<and> op ''version'' = None"
    then show "op_line op = ''  - '' @ name @ '' (version Unknown)''"
      using op_line_no_version [of op name] by blast
  qed
  show ?thesis
    by (intro conjI) (rule best, rule minimal, rule known, rule unknown)
qed

theorem operators_in_loader_order_witness:
  "analyze_minimal
     (example_tf
        (\<lambda>p. Inr (example_interpreter
           [fully_connected 9, [''op_name'' \<mapsto> PStr ''SOFTMAX'']]))
        (Inr []))
     empty_world =
   (Inr (), empty_world\<lparr>stdout :=
      [newline @ ''Analyzing minimal_model.tflite...'',
       ''Input shape: [    1 32000     1]'',
       ''Output shape: [1 3]'',
       ''Operations used:'',
       ''  - FULLY_CONNECTED (version 9)'',
       ''  - SOFTMAX (version Unknown)'']\<rparr>)"
proof -
  let ?softmax = "[''op_name'' \<mapsto> PStr ''SOFTMAX'']"
  let ?ops = "[fully_connected 9, ?softmax]"
  let ?i = "example_interpreter ?ops"
  let ?lib = "example_tf (\<lambda>p. Inr ?i) (Inr [])"
  let ?d_in = "[''index'' \<mapsto> PInt 0, ''shape'' \<mapsto> PObj ''ndarray'' ''[    1 32000     1]'']"
  let ?d_out = "[''index'' \<mapsto> PInt 7, ''shape'' \<mapsto> PObj ''ndarray'' ''[1 3]'']"
  note T = operators_in_loader_order
    [where lib = ?lib and w = empty_world and i = ?i and ops = ?ops
       and d_in = ?d_in and ins = "[]" and s_in = "PObj ''ndarray'' ''[    1 32000     1]''"
       and d_out = ?d_out and outs = "[]" and s_out = "PObj ''ndarray'' ''[1 3]''"]
  have hm: "Interpreter_path ?lib ''assets/models/minimal_model.tflite'' = Inr ?i
      \<and> allocate_tensors ?i = Inr ()
      \<and> get_input_details ?i = Inr (?d_in # [])
      \<and> ?d_in ''shape'' = Some (PObj ''ndarray'' ''[    1 32000     1]'')
      \<and> get_output_details ?i = Inr (?d_out # [])
      \<and> ?d_out ''shape'' = Some (PObj ''ndarray'' ''[1 3]'')
      \<and> get_ops_details ?i = Inr ?ops"
    by (simp add: example_tf_def example_interpreter_def)
  note minimal = T [THEN conjunct2, THEN conjunct1, THEN mp, OF hm]
  have known: "fully_connected 9 ''op_name'' = Some (PStr ''FULLY_CONNECTED'')
      \<and> fully_connected 9 ''version'' = Some (PInt (int 9))"
    by (simp add: fully_connected_def)
  have unknown: "?softmax ''op_name'' = Some (PStr ''SOFTMAX'') \<and> ?softmax ''version'' = None"
    by simp
  note l1 = T [THEN conjunct2, THEN conjunct2, THEN conjunct1, rule_format,
      of "fully_connected 9" "''FULLY_CONNECTED''" 9, OF known, THEN conjunct1]
  note l2 = T [THEN conjunct2, THEN conjunct2, THEN conjunct2, rule_format,
      of ?softmax "''SOFTMAX''", OF unknown]
  show ?thesis
    unfolding minimal
    by (simp add: l1 l2) (simp add: empty_world_def str_nat.simps)
qed

text \<open>
  Against C2 as it is written: an entry without the key \<open>version\<close> is reported with the
  version Unknown, which is no integer.
\<close>

theorem version_unknown_reported:
  "analyze_minimal
     (example_tf
        (\<lambda>p. Inr (example_interpreter [[''index'' \<mapsto> PInt 0, ''op_name'' \<mapsto> PStr ''CONV_2D'']]))
        (Inr []))
     empty_world =
   (Inr (), empty_world\<lparr>stdout :=
      [newline @ ''Analyzing minimal_model.tflite...'',
       ''Input shape: [    1 32000     1]'',
       ''Output shape: [1 3]'',
       ''Operations used:'',
       ''  - CONV_2D (version Unknown)'']\<rparr>)"
  by (simp add: analyze_minimal_def example_simps py_defs report_op_minimal_def string_simps)

text \<open>
  Claim C3. When the loader raises an exception of the class \<open>Exception\<close> for an artifact
  (a file that is missing, corrupt or not a model), the block of that artifact prints its
  diagnostic with the message and ends without raising; after best_model.tflite the script
  goes on with minimal_model.tflite, and after minimal_model.tflite with the summary. No
  exception of the class \<open>Exception\<close> ever leaves either block.
\<close>

theorem inspection_survives_missing_artifact:
  "(Interpreter_path lib ''assets/models/best_model.tflite'' = Inl (Exception m1) \<longrightarrow>
      analyze_best lib w =
        (Inr (), w\<lparr>stdout := stdout w @ [newline @ ''Analyzing best_model.tflite...'',
           cross_mark @ '' Error analyzing best_model.tflite: '' @ m1]\<rparr>)
      \<and> check_model_versions lib w =
          py_then (analyze_minimal lib) summary
            (w\<lparr>stdout := stdout w @ printed_by (version_header lib) @
               [newline @ ''Analyzing best_model.tflite...'',
                cross_mark @ '' Error analyzing best_model.tflite: '' @ m1,
                rule_line 60]\<rparr>))
   \<and> (Interpreter_path lib ''assets/models/minimal_model.tflite'' = Inl (Exception m2) \<longrightarrow>
      analyze_minimal lib w =
        (Inr (), w\<lparr>stdout := stdout w @ [newline @ ''Analyzing minimal_model.tflite...'',
           cross_mark @ '' Error analyzing minimal_model.tflite: '' @ m2]\<rparr>)
      \<and> py_then (analyze_minimal lib) summary w =
          (Inr (), w\<lparr>stdout := stdout w @
             [newline @ ''Analyzing minimal_model.tflite...'',
              cross_mark @ '' Error analyzing minimal_model.tflite: '' @ m2]
             @ printed_by summary\<rparr>))
   \<and> (\<forall>e. fst (analyze_best lib w) \<noteq> Inl (Exception e))
   \<and> (\<forall>e. fst (analyze_minimal lib w) \<noteq> Inl (Exception e))"
  by (simp add: analyze_best_missing analyze_minimal_missing script_best_missing
        tail_minimal_missing)
     (simp add: analyze_best_def analyze_minimal_def py_try_print_no_Exception)

theorem inspection_survives_missing_artifact_witness:
  "check_model_versions (example_tf no_such_file (Inr [])) empty_world =
     (Inr (), empty_world\<lparr>stdout :=
        printed_by (version_header (example_tf no_such_file (Inr []))) @
        [newline @ ''Analyzing best_model.tflite...'',
         cross_mark @ '' Error analyzing best_model.tflite: ''
           @ ''Could not open 'assets/models/best_model.tflite'.'',
         rule_line 60,
         newline @ ''Analyzing minimal_model.tflite...'',
         cross_mark @ '' Error analyzing minimal_model.tflite: ''
           @ ''Could not open 'assets/models/minimal_model.tflite'.'']
        @ printed_by summary\<rparr>)"
proof -
  let ?lib = "example_tf no_such_file (Inr [])"
  let ?m1 = "''Could not open 'assets/models/best_model.tflite'.''"
  let ?m2 = "''Could not open 'assets/models/minimal_model.tflite'.''"
  have b: "Interpreter_path ?lib ''assets/models/best_model.tflite'' = Inl (Exception ?m1)"
    by (simp add: example_tf_def no_such_file_def quoted_def)
  have m: "Interpreter_path ?lib ''assets/models/minimal_model.tflite'' = Inl (Exception ?m2)"
    by (simp add: example_tf_def no_such_file_def quoted_def)
  have first: "check_model_versions ?lib empty_world =
      py_then (analyze_minimal ?lib) summary
        (empty_world\<lparr>stdout := stdout empty_world @ printed_by (version_header ?lib) @
           [newline @ ''Analyzing best_model.tflite...'',
            cross_mark @ '' Error analyzing best_model.tflite: '' @ ?m1,
            rule_line 60]\<rparr>)"
    using inspection_survives_missing_artifact [of ?lib ?m1 empty_world ?m2] b by blast
  have second: "py_then (analyze_minimal ?lib) summary w =
      (Inr (), w\<lparr>stdout := stdout w @
         [newline @ ''Analyzing minimal_model.tflite...'',
          cross_mark @ '' Error analyzing minimal_model.tflite: '' @ ?m2]
         @ printed_by summary\<rparr>)" for w
    using inspection_survives_missing_artifact [of ?lib ?m1 w ?m2] m by blast
  show ?thesis
    unfolding first second by (simp add: empty_world_def)
qed

section \<open>What a statement can change\<close>

lemma changes_return: "changes_at_most F E (py_return x)"
  by (simp add: changes_at_most_def py_return_def)

lemma changes_raise: "changes_at_most F E (py_raise e)"
  by (simp add: changes_at_most_def py_raise_def)

lemma changes_call: "changes_at_most F E (py_call r)"
  by (simp add: changes_at_most_def py_call_def)

lemma changes_print: "changes_at_most F E (py_print s)"
  by (simp add: changes_at_most_def py_print_def)

lemma changes_write_file: "p \<in> F \<Longrightarrow> changes_at_most F E (write_file p c)"
  by (auto simp add: changes_at_most_def write_file_def)

lemma changes_set_environ: "k \<in> E \<Longrightarrow> changes_at_most F E (set_environ k v)"
  by (auto simp add: changes_at_most_def set_environ_def)

lemma changes_bind:
  assumes m: "changes_at_most F E m" and f: "\<And>x. changes_at_most F E (f x)"
  shows "changes_at_most F E (py_bind m f)"
  unfolding changes_at_most_def
proof (intro allI)
  fix w
  obtain r w1 where mw: "m w = (r, w1)" by (cases "m w")
  from m [unfolded changes_at_most_def, rule_format, of w] mw
  have m1: "\<forall>p. p \<notin> F \<longrightarrow> files w1 p = files w p"
    and m2: "\<forall>k. k \<notin> E \<longrightarrow> environ w1 k = environ w k"
    and m3: "\<exists>out. stdout w1 = stdout w @ out"
    by simp_all
  show "(\<forall>p. p \<notin> F \<longrightarrow> files (snd (py_bind m f w)) p = files w p) \<and>
        (\<forall>k. k \<notin> E \<longrightarrow> environ (snd (py_bind m f w)) k = environ w k) \<and>
        (\<exists>out. stdout (snd (py_bind m f w)) = stdout w @ out)"
  proof (cases r)
    case (Inl e)
    then show ?thesis using mw m1 m2 m3 by (simp add: py_bind_def)
  next
    case (Inr x)
    from f [of x, unfolded changes_at_most_def, rule_format, of w1]
    have f1: "\<forall>p. p \<notin> F \<longrightarrow> files (snd (f x w1)) p = files w1 p"
      and f2: "\<forall>k. k \<notin> E \<longrightarrow> environ (snd (f x w1)) k = environ w1 k"
      and f3: "\<exists>out. stdout (snd (f x w1)) = stdout w1 @ out"
      by simp_all
    from m3 f3 have "\<exists>out. stdout (snd (f x w1)) = stdout w @ out"
      by auto
    then show ?thesis using Inr mw m1 m2 f1 f2 by (simp add: py_bind_def)
  qed
qed

lemma changes_then:
  "changes_at_most F E m \<Longrightarrow> changes_at_most F E k \<Longrightarrow> changes_at_most F E (py_then m k)"
  by (simp add: py_then_def changes_bind)

lemma changes_try:
  assumes b: "changes_at_most F E body" and h: "\<And>e. changes_at_most F E (h e)"
  shows "changes_at_most F E (py_try body h)"
  unfolding changes_at_most_def
proof (intro allI)
  fix w
  obtain r w1 where bw: "body w = (r, w1)" by (cases "body w")
  from b [unfolded changes_at_most_def, rule_format, of w] bw
  have b1: "\<forall>p. p \<notin> F \<longrightarrow> files w1 p = files w p"
    and b2: "\<forall>k. k \<notin> E \<longrightarrow> environ w1 k = environ w k"
    and b3: "\<exists>out. stdout w1 = stdout w @ out"
    by simp_all
  show "(\<forall>p. p \<notin> F \<longrightarrow> files (snd (py_try body h w)) p = files w p) \<and>
        (\<forall>k. k \<notin> E \<longrightarrow> environ (snd (py_try body h w)) k = environ w k) \<and>
        (\<exists>out. stdout (snd (py_try body h w)) = stdout w @ out)"
  proof (cases r)
    case (Inr x)
    then show ?thesis using bw b1 b2 b3 by (simp add: py_try_def)
  next
    case (Inl e)
    show ?thesis
    proof (cases e)
      case (BaseException m)
      then show ?thesis using Inl bw b1 b2 b3 by (simp add: py_try_def)
    next
      case (Exception m)
      from h [of m, unfolded changes_at_most_def, rule_format, of w1]
      have h1: "\<forall>p. p \<notin> F \<longrightarrow> files (snd (h m w1)) p = files w1 p"
        and h2: "\<forall>k. k \<notin> E \<longrightarrow> environ (snd (h m w1)) k = environ w1 k"
        and h3: "\<exists>out. stdout (snd (h m w1)) = stdout w1 @ out"
        by simp_all
      from b3 h3 have "\<exists>out. stdout (snd (h m w1)) = stdout w @ out"
        by auto
      then show ?thesis using Exception Inl bw b1 b2 h1 h2 by (simp add: py_try_def)
    qed
  qed
qed

lemma changes_for:
  "(\<And>x. changes_at_most F E (body x)) \<Longrightarrow> changes_at_most F E (py_for xs body)"
  by (induction xs) (simp_all add: changes_return changes_then)

lemma changes_if:
  "changes_at_most F E a \<Longrightarrow> changes_at_most F E b \<Longrightarrow>
   changes_at_most F E (if c then a else b)"
  by simp

lemma changes_print_shape: "changes_at_most F E (print_shape label details)"
  by (simp add: print_shape_def changes_bind changes_call changes_print)

lemma changes_collect_fully_connected:
  "changes_at_most F E (collect_fully_connected ops acc)"
  by (induction ops arbitrary: acc)
     (simp_all add: Let_def changes_return changes_then changes_print)

lemma changes_report_fully_connected:
  "changes_at_most F E (report_fully_connected versions)"
  by (simp add: report_fully_connected_def changes_return changes_bind changes_call
        changes_print)

lemmas changes_intros =
  changes_return changes_raise changes_call changes_print changes_bind changes_then
  changes_try changes_for changes_if changes_print_shape
  changes_collect_fully_connected changes_report_fully_connected

lemma changes_nothing_files:
  "changes_at_most {} E m \<Longrightarrow> files (snd (m w)) = files w"
  by (rule ext) (simp add: changes_at_most_def)

lemma changes_nothing_environ:
  "changes_at_most F {} m \<Longrightarrow> environ (snd (m w)) = environ w"
  by (rule ext) (simp add: changes_at_most_def)

subsection \<open>The scripts, one by one\<close>

lemma changes_report_op_best: "changes_at_most F E (report_op_best op)"
  by (simp add: report_op_best_def Let_def changes_intros)

lemma changes_report_op_minimal: "changes_at_most F E (report_op_minimal op)"
  by (simp add: report_op_minimal_def changes_intros)

lemma changes_analyze_best: "changes_at_most F E (analyze_best lib)"
  unfolding analyze_best_def
  by (intro changes_intros changes_report_op_best)

lemma changes_analyze_minimal: "changes_at_most F E (analyze_minimal lib)"
  unfolding analyze_minimal_def
  by (intro changes_intros changes_report_op_minimal)

lemma changes_check_model_versions: "changes_at_most F E (check_model_versions lib)"
  unfolding check_model_versions_def version_header_def summary_def
  by (intro changes_intros changes_analyze_best changes_analyze_minimal)

lemma changes_convert_with_compatibility_flags:
  "changes_at_most F E (convert_with_compatibility_flags lib)"
  unfolding convert_with_compatibility_flags_def
  by (intro changes_intros)

lemma changes_create_compatible_converter_script:
  "changes_at_most {''create_compatible_model.py''} E create_compatible_converter_script"
  unfolding create_compatible_converter_script_def
  by (intro changes_intros changes_write_file) simp

lemma changes_convert_model_compatible_main:
  "changes_at_most {''create_compatible_model.py''} E (convert_model_compatible_main lib)"
  unfolding convert_model_compatible_main_def
  by (intro changes_intros changes_convert_with_compatibility_flags
        changes_create_compatible_converter_script)

lemma changes_create_compatible_model_script:
  "changes_at_most {''assets/models/best_model_compatible.tflite''} E
     (create_compatible_model_script lib)"
  unfolding create_compatible_model_script_def Let_def
  by (intro changes_intros changes_write_file) simp

lemma changes_create_minimal_tflite:
  "changes_at_most {''assets/models/minimal_model.tflite''} E (create_minimal_tflite lib)"
  unfolding create_minimal_tflite_def Let_def
  by (intro changes_intros changes_write_file) simp

lemma changes_create_minimal_model_main:
  "changes_at_most {''assets/models/minimal_model.tflite''} E (create_minimal_model_main lib)"
  unfolding create_minimal_model_main_def
  by (intro changes_intros changes_create_minimal_tflite)

lemma changes_create_simple_compatible_model:
  "changes_at_most {''assets/models/simple_compatible_model.tflite''} E
     (create_simple_compatible_model lib)"
  unfolding create_simple_compatible_model_def Let_def
  by (intro changes_intros changes_write_file) simp

lemma changes_create_simple_model_main:
  "changes_at_most {''assets/models/simple_compatible_model.tflite''} E
     (create_simple_model_main lib)"
  unfolding create_simple_model_main_def
  by (intro changes_intros changes_create_simple_compatible_model)

lemma changes_create_compatible_model:
  "changes_at_most {''assets/models/best_model_compatible.tflite''} E
     (create_compatible_model lib)"
  unfolding create_compatible_model_def Let_def
  by (intro changes_intros changes_write_file) simp

lemma changes_create_tf212_compatible_main:
  "changes_at_most {''assets/models/best_model_compatible.tflite''} E
     (create_tf212_compatible_main lib)"
  unfolding create_tf212_compatible_main_def
  by (intro changes_intros changes_create_compatible_model)

lemma changes_create_tf212_compatible:
  "changes_at_most {''assets/models/best_model_compatible.tflite''} {''TF_USE_LEGACY_KERAS''}
     (create_tf212_compatible lib)"
  unfolding create_tf212_compatible_def
  by (intro changes_intros changes_set_environ changes_create_tf212_compatible_main) simp

section \<open>What a statement can return\<close>

lemma py_bind_Inr:
  "py_bind m f w = (Inr x, w') \<Longrightarrow> \<exists>y w1. m w = (Inr y, w1) \<and> f y w1 = (Inr x, w')"
  by (auto simp add: py_bind_def split: prod.splits sum.splits)

lemma py_then_Inr:
  "py_then m k w = (Inr x, w') \<Longrightarrow> \<exists>w1. m w = (Inr (), w1) \<and> k w1 = (Inr x, w')"
  by (auto simp add: py_then_def py_bind_def split: prod.splits sum.splits)

lemma py_try_Inr:
  "py_try body h w = (Inr x, w') \<Longrightarrow>
     body w = (Inr x, w') \<or> (\<exists>e w1. body w = (Inl (Exception e), w1) \<and> h e w1 = (Inr x, w'))"
  by (auto simp add: py_try_def split: prod.splits sum.splits py_exception.splits)

lemma py_try_no_Exception:
  assumes "\<And>e w1. fst (h e w1) \<noteq> Inl (Exception m)"
  shows "fst (py_try body h w) \<noteq> Inl (Exception m)"
proof -
  obtain r w1 where bw: "body w = (r, w1)" by (cases "body w")
  show ?thesis
  proof (cases r)
    case (Inr x)
    then show ?thesis using bw by (simp add: py_try_def)
  next
    case (Inl e)
    then show ?thesis using bw assms by (cases e) (simp_all add: py_try_def)
  qed
qed

lemma print_then_return:
  "py_then (py_print s) (py_return x) w = (Inr x, w\<lparr>stdout := stdout w @ [s]\<rparr>)"
  by (simp add: py_then_print py_return_def)

lemma py_for_print:
  "py_for ls py_print w = (Inr (), w\<lparr>stdout := stdout w @ ls\<rparr>)"
  using py_for_prints [of py_print "\<lambda>l. [l]" ls w]
  by (simp add: py_print_def)

lemma py_bind_eq: "m w = (Inr x, w') \<Longrightarrow> py_bind m f w = f x w'"
  by (simp add: py_bind_def)

subsection \<open>convert_with_compatibility_flags\<close>

lemma convert_flags_not_True:
  "fst (convert_with_compatibility_flags lib w) \<noteq> Inr True"
proof
  assume "fst (convert_with_compatibility_flags lib w) = Inr True"
  then obtain w' where "convert_with_compatibility_flags lib w = (Inr True, w')"
    by (cases "convert_with_compatibility_flags lib w") simp
  then show False
    unfolding convert_with_compatibility_flags_def
    by (auto dest!: py_try_Inr py_bind_Inr py_then_Inr simp add: py_return_def)
qed

lemma convert_flags_no_Exception:
  "fst (convert_with_compatibility_flags lib w) \<noteq> Inl (Exception e)"
  unfolding convert_with_compatibility_flags_def
  by (rule py_try_no_Exception) (simp add: print_then_return)

lemma convert_flags_missing:
  assumes "Interpreter_path lib ''assets/models/best_model.tflite'' = Inl (Exception m)"
  shows "convert_with_compatibility_flags lib w =
           (Inr False, w\<lparr>stdout := stdout w @ [''Error: '' @ m]\<rparr>)"
  using assms
  by (simp add: convert_with_compatibility_flags_def py_simps py_return_def)

lemma convert_flags_False_or_BaseException:
  "fst (convert_with_compatibility_flags lib w) = Inr False
   \<or> (\<exists>m. fst (convert_with_compatibility_flags lib w) = Inl (BaseException m))"
proof (cases "fst (convert_with_compatibility_flags lib w)")
  case (Inl e)
  then show ?thesis
    using convert_flags_no_Exception [of lib w] by (cases e) auto
next
  case (Inr b)
  then show ?thesis
    using convert_flags_not_True [of lib w] by (cases b) auto
qed

lemma print_shape_cases:
  "(\<exists>s. print_shape label details w = (Inr (), w\<lparr>stdout := stdout w @ [s]\<rparr>))
   \<or> (\<exists>e. print_shape label details w = (Inl (Exception e), w))"
  by (auto simp add: print_shape_def getitem0_def getkey_def py_bind_def py_call_def
        py_print_def split: list.splits option.splits)

lemma print_shape_no_BaseException:
  "fst (print_shape label details w) \<noteq> Inl (BaseException m)"
  using print_shape_cases [of label details w] by auto

lemma py_bind_BaseException:
  "fst (py_bind m f w) = Inl (BaseException e) \<Longrightarrow>
     fst (m w) = Inl (BaseException e)
     \<or> (\<exists>x w1. m w = (Inr x, w1) \<and> fst (f x w1) = Inl (BaseException e))"
  by (auto simp add: py_bind_def split: prod.splits sum.splits)

lemma py_then_BaseException:
  "fst (py_then m k w) = Inl (BaseException e) \<Longrightarrow>
     fst (m w) = Inl (BaseException e)
     \<or> (\<exists>w1. m w = (Inr (), w1) \<and> fst (k w1) = Inl (BaseException e))"
  by (auto simp add: py_then_def py_bind_def split: prod.splits sum.splits)

lemma py_try_BaseException:
  "fst (py_try body h w) = Inl (BaseException e) \<Longrightarrow>
     fst (body w) = Inl (BaseException e)
     \<or> (\<exists>m w1. body w = (Inl (Exception m), w1) \<and> fst (h m w1) = Inl (BaseException e))"
  by (auto simp add: py_try_def split: prod.splits sum.splits py_exception.splits)

lemma convert_flags_loaded:
  assumes "Interpreter_path lib ''assets/models/best_model.tflite'' = Inr i"
    and "allocate_tensors i = Inr ()"
    and "get_input_details i = Inr ins"
    and "get_output_details i = Inr outs"
  shows "fst (convert_with_compatibility_flags lib w) = Inr False"
proof -
  have "fst (convert_with_compatibility_flags lib w) \<noteq> Inl (BaseException m)" for m
  proof
    assume "fst (convert_with_compatibility_flags lib w) = Inl (BaseException m)"
    then show False
      unfolding convert_with_compatibility_flags_def
      using assms
      by (auto dest!: py_try_BaseException py_bind_BaseException py_then_BaseException
            simp add: py_call_def py_print_def py_return_def print_shape_no_BaseException)
  qed
  then show ?thesis
    using convert_flags_False_or_BaseException [of lib w] by auto
qed

subsection \<open>The building routines when the conversion raises\<close>

lemma create_compatible_model_script_fails:
  assumes "load_model lib ''your_original_model.h5'' = Inr model"
    and "from_keras_model lib model = Inr c0"
    and "convert lib (c0\<lparr>optimizations := [DEFAULT], supported_ops := [TFLITE_BUILTINS],
           experimental_new_converter := False, experimental_new_quantizer := False\<rparr>)
         = Inl (Exception m)"
  shows "create_compatible_model_script lib w =
           (Inr (), w\<lparr>stdout := stdout w @ [''Conversion failed: '' @ m]\<rparr>)"
  using assms
  by (simp add: create_compatible_model_script_def Let_def py_simps py_print_def)

lemma create_minimal_tflite_fails:
  assumes "get_concrete_function lib simple_model
             \<lparr>spec_shape = [1, 32000, 1], spec_dtype = ''float32''\<rparr> = Inr cf"
    and "from_concrete_functions lib [cf] = Inr c0"
    and "convert lib (c0\<lparr>optimizations := []\<rparr>) = Inl (Exception m)"
  shows "create_minimal_tflite lib w =
           (Inr False, w\<lparr>stdout := stdout w @
              [cross_mark @ '' Failed to create minimal model: '' @ m]\<rparr>)"
  using assms
  by (simp add: create_minimal_tflite_def Let_def py_simps py_return_def)

lemma create_simple_compatible_model_fails:
  assumes "keras_Model lib simple_network = Inr model"
    and "compile lib model
           \<lparr>optimizer = Optimizer_name ''adam'', loss = ''categorical_crossentropy'',
            metrics = [''accuracy'']\<rparr> = Inr ()"
    and "model_summary lib model = Inr ls"
    and "from_keras_model lib model = Inr c0"
    and "convert lib (c0\<lparr>optimizations := [], supported_ops := [TFLITE_BUILTINS],
           experimental_new_converter := False, experimental_new_quantizer := False\<rparr>)
         = Inl (Exception m)"
  shows "create_simple_compatible_model lib w =
           (Inr False, w\<lparr>stdout := stdout w @ [''Model summary:''] @ ls @
              [cross_mark @ '' Failed to create model: '' @ m]\<rparr>)"
  using assms
  by (simp add: create_simple_compatible_model_def Let_def py_simps py_return_def
        py_then_eq [OF py_for_print])

lemma create_compatible_model_fails:
  assumes "keras_Model lib compatible_network = Inr model"
    and "compile lib model
           \<lparr>optimizer = Adam 0.001, loss = ''categorical_crossentropy'',
            metrics = [''accuracy'']\<rparr> = Inr ()"
    and "model_summary lib model = Inr ls"
    and "from_keras_model lib model = Inr c0"
    and "convert lib (c0\<lparr>optimizations := [], supported_ops := [TFLITE_BUILTINS],
           experimental_new_converter := False, experimental_new_quantizer := False,
           allow_custom_ops := False, experimental_enable_resource_variables := False\<rparr>)
         = Inl (Exception m)"
  shows "create_compatible_model lib w =
           (Inr False, w\<lparr>stdout := stdout w @ [''Model summary:''] @ ls @
              [''Converting model...'', cross_mark @ '' Conversion failed: '' @ m]\<rparr>)"
  using assms
  by (simp add: create_compatible_model_def Let_def py_simps py_return_def
        py_then_eq [OF py_for_print])

section \<open>The downgrade script, convert_model_compatible.py\<close>

text \<open>
  Claim C4. \<open>convert_with_compatibility_flags\<close> never returns True and lets no exception
  of the class \<open>Exception\<close> out. It returns False when loading best_model.tflite raises
  such an exception, after printing the message, and it returns False when the model
  loads.
\<close>

theorem convert_never_succeeds:
  "fst (convert_with_compatibility_flags lib w) \<noteq> Inr True
   \<and> (\<forall>e. fst (convert_with_compatibility_flags lib w) \<noteq> Inl (Exception e))
   \<and> (Interpreter_path lib ''assets/models/best_model.tflite'' = Inl (Exception m) \<longrightarrow>
        convert_with_compatibility_flags lib w =
          (Inr False, w\<lparr>stdout := stdout w @ [''Error: '' @ m]\<rparr>))
   \<and> (Interpreter_path lib ''assets/models/best_model.tflite'' = Inr i
        \<and> allocate_tensors i = Inr ()
        \<and> get_input_details i = Inr ins
        \<and> get_output_details i = Inr outs \<longrightarrow>
        fst (convert_with_compatibility_flags lib w) = Inr False)"
  using convert_flags_not_True convert_flags_no_Exception convert_flags_missing
    convert_flags_loaded
  by blast

theorem convert_never_succeeds_witness:
  "convert_with_compatibility_flags (example_tf no_such_file (Inr [])) empty_world =
     (Inr False, empty_world\<lparr>stdout :=
        [''Error: Could not open 'assets/models/best_model.tflite'.'']\<rparr>)
   \<and> fst (convert_with_compatibility_flags
        (example_tf (\<lambda>p. Inr (example_interpreter [fully_connected 12])) (Inr []))
        empty_world) = Inr False"
proof -
  let ?missing = "example_tf no_such_file (Inr [])"
  let ?m = "''Could not open 'assets/models/best_model.tflite'.''"
  let ?i = "example_interpreter [fully_connected 12]"
  let ?loaded = "example_tf (\<lambda>p. Inr ?i) (Inr [])"
  have "Interpreter_path ?missing ''assets/models/best_model.tflite'' = Inl (Exception ?m)"
    by (simp add: example_tf_def no_such_file_def quoted_def)
  then have first: "convert_with_compatibility_flags ?missing empty_world =
      (Inr False, empty_world\<lparr>stdout := stdout empty_world @ [''Error: '' @ ?m]\<rparr>)"
    using convert_never_succeeds [of ?missing empty_world ?m] by blast
  have "Interpreter_path ?loaded ''assets/models/best_model.tflite'' = Inr ?i
      \<and> allocate_tensors ?i = Inr ()
      \<and> get_input_details ?i =
          Inr [[''index'' \<mapsto> PInt 0, ''shape'' \<mapsto> PObj ''ndarray'' ''[    1 32000     1]'']]
      \<and> get_output_details ?i =
          Inr [[''index'' \<mapsto> PInt 7, ''shape'' \<mapsto> PObj ''ndarray'' ''[1 3]'']]"
    by (simp add: example_tf_def example_interpreter_def)
  then have second: "fst (convert_with_compatibility_flags ?loaded empty_world) = Inr False"
    using convert_never_succeeds [of ?loaded empty_world _ ?i] by blast
  show ?thesis
    unfolding first using second by (simp add: empty_world_def)
qed

text \<open>
  Claim C5. When the attempt returns False, the main block goes on to the fallback: it
  writes the template to create_compatible_model.py, prints that it did, and prints the
  instructions. Nothing else of the world changes.
\<close>

theorem fallback_after_failed_attempt:
  "convert_with_compatibility_flags lib w = (Inr False, w1) \<longrightarrow>
     convert_model_compatible_main lib w =
       (Inr (), w1\<lparr>stdout := stdout w1 @
          [check_mark @ '' Created 'create_compatible_model.py' template'',
           ''Edit it with your original model path and run it'',
           rule_line 50,
           ''SOLUTION:'',
           ''1. Edit 'create_compatible_model.py' with your original model path'',
           ''2. Run: python create_compatible_model.py'',
           ''3. Replace best_model.tflite with best_model_compatible.tflite'',
           replicate 50 CHR ''=''],
          files := (files w1)(''create_compatible_model.py'' \<mapsto> script_content)\<rparr>)
     \<and> files w1 = files w \<and> environ w1 = environ w"
proof
  assume a: "convert_with_compatibility_flags lib w = (Inr False, w1)"
  have "files (snd (convert_with_compatibility_flags lib w)) = files w"
    by (rule changes_nothing_files) (rule changes_convert_with_compatibility_flags)
  moreover have "environ (snd (convert_with_compatibility_flags lib w)) = environ w"
    by (rule changes_nothing_environ) (rule changes_convert_with_compatibility_flags)
  ultimately have "files w1 = files w \<and> environ w1 = environ w"
    using a by simp
  then show "convert_model_compatible_main lib w =
       (Inr (), w1\<lparr>stdout := stdout w1 @
          [check_mark @ '' Created 'create_compatible_model.py' template'',
           ''Edit it with your original model path and run it'',
           rule_line 50,
           ''SOLUTION:'',
           ''1. Edit 'create_compatible_model.py' with your original model path'',
           ''2. Run: python create_compatible_model.py'',
           ''3. Replace best_model.tflite with best_model_compatible.tflite'',
           replicate 50 CHR ''=''],
          files := (files w1)(''create_compatible_model.py'' \<mapsto> script_content)\<rparr>)
     \<and> files w1 = files w \<and> environ w1 = environ w"
    by (simp add: convert_model_compatible_main_def a
          create_compatible_converter_script_def py_then_def py_bind_def py_print_def
          write_file_def)
qed

theorem fallback_after_failed_attempt_witness:
  "convert_model_compatible_main (example_tf no_such_file (Inr [])) empty_world =
     (Inr (),
      \<lparr>stdout =
         [''Error: Could not open 'assets/models/best_model.tflite'.'',
          check_mark @ '' Created 'create_compatible_model.py' template'',
          ''Edit it with your original model path and run it'',
          rule_line 50,
          ''SOLUTION:'',
          ''1. Edit 'create_compatible_model.py' with your original model path'',
          ''2. Run: python create_compatible_model.py'',
          ''3. Replace best_model.tflite with best_model_compatible.tflite'',
          replicate 50 CHR ''=''],
       files = [''create_compatible_model.py'' \<mapsto> script_content],
       environ = Map.empty\<rparr>)"
proof -
  let ?lib = "example_tf no_such_file (Inr [])"
  let ?w1 = "empty_world\<lparr>stdout :=
      [''Error: Could not open 'assets/models/best_model.tflite'.'']\<rparr>"
  have "convert_with_compatibility_flags ?lib empty_world = (Inr False, ?w1)"
    by (simp add: convert_with_compatibility_flags_def example_simps py_defs quoted_def)
  then show ?thesis
    using fallback_after_failed_attempt [of ?lib empty_world ?w1]
    by (simp add: empty_world_def)
qed

text \<open>
  Claim C9. \<open>convert_with_compatibility_flags\<close> writes no file and sets no environment
  variable: whatever the library does, the files and the environment after the call are
  those before it, and the output has only grown.
\<close>

theorem convert_attempt_writes_nothing:
  "files (snd (convert_with_compatibility_flags lib w)) = files w
   \<and> environ (snd (convert_with_compatibility_flags lib w)) = environ w
   \<and> (\<exists>out. stdout (snd (convert_with_compatibility_flags lib w)) = stdout w @ out)"
proof -
  have c: "changes_at_most {} {} (convert_with_compatibility_flags lib)"
    by (rule changes_convert_with_compatibility_flags)
  then have "\<exists>out. stdout (snd (convert_with_compatibility_flags lib w)) = stdout w @ out"
    by (simp add: changes_at_most_def)
  then show ?thesis
    using c by (simp add: changes_nothing_files changes_nothing_environ)
qed

section \<open>When the building routines write\<close>

lemma only_converted_unchanged:
  "changes_at_most {} {} m \<Longrightarrow> writes_only_converted lib p m"
  by (simp add: writes_only_converted_def changes_nothing_files)

lemma only_converted_bind:
  assumes m: "changes_at_most {} {} m"
    and f: "\<And>x. writes_only_converted lib p (f x)"
  shows "writes_only_converted lib p (py_bind m f)"
  unfolding writes_only_converted_def
proof
  fix w
  obtain r w1 where mw: "m w = (r, w1)" by (cases "m w")
  have "files (snd (m w)) = files w"
    using m by (rule changes_nothing_files)
  then have same: "files w1 = files w" using mw by simp
  show "files (snd (py_bind m f w)) = files w
      \<or> (\<exists>c content. convert lib c = Inr content
            \<and> files (snd (py_bind m f w)) = (files w)(p \<mapsto> content))"
  proof (cases r)
    case (Inl e)
    then show ?thesis using mw same by (simp add: py_bind_def)
  next
    case (Inr x)
    have "files (snd (f x w1)) = files w1
      \<or> (\<exists>c content. convert lib c = Inr content
            \<and> files (snd (f x w1)) = (files w1)(p \<mapsto> content))"
      using f [of x] by (simp add: writes_only_converted_def)
    then show ?thesis using Inr mw same by (simp add: py_bind_def)
  qed
qed

lemma only_converted_then:
  "changes_at_most {} {} m \<Longrightarrow> writes_only_converted lib p k \<Longrightarrow>
   writes_only_converted lib p (py_then m k)"
  by (simp add: py_then_def only_converted_bind)

lemma only_converted_try:
  assumes b: "writes_only_converted lib p body"
    and h: "\<And>e. changes_at_most {} {} (h e)"
  shows "writes_only_converted lib p (py_try body h)"
  unfolding writes_only_converted_def
proof
  fix w
  obtain r w1 where bw: "body w = (r, w1)" by (cases "body w")
  have "files (snd (body w)) = files w
      \<or> (\<exists>c content. convert lib c = Inr content
            \<and> files (snd (body w)) = (files w)(p \<mapsto> content))"
    using b by (simp add: writes_only_converted_def)
  then have w1: "files w1 = files w
      \<or> (\<exists>c content. convert lib c = Inr content \<and> files w1 = (files w)(p \<mapsto> content))"
    using bw by simp
  show "files (snd (py_try body h w)) = files w
      \<or> (\<exists>c content. convert lib c = Inr content
            \<and> files (snd (py_try body h w)) = (files w)(p \<mapsto> content))"
  proof (cases r)
    case (Inr x)
    then show ?thesis using bw w1 by (simp add: py_try_def)
  next
    case (Inl e)
    show ?thesis
    proof (cases e)
      case (BaseException m)
      then show ?thesis using Inl bw w1 by (simp add: py_try_def)
    next
      case (Exception m)
      have "files (snd (h m w1)) = files w1"
        using h [of m] by (rule changes_nothing_files)
      then show ?thesis using Exception Inl bw w1 by (simp add: py_try_def)
    qed
  qed
qed

lemma only_converted_convert_write:
  assumes rest: "\<And>t. changes_at_most {} {} (rest t)"
  shows "writes_only_converted lib p
           (py_bind (py_call (convert lib c)) (\<lambda>t. py_then (write_file p t) (rest t)))"
  unfolding writes_only_converted_def
proof
  fix w
  let ?m = "py_bind (py_call (convert lib c)) (\<lambda>t. py_then (write_file p t) (rest t))"
  show "files (snd (?m w)) = files w
      \<or> (\<exists>c content. convert lib c = Inr content
            \<and> files (snd (?m w)) = (files w)(p \<mapsto> content))"
  proof (cases "convert lib c")
    case (Inl e)
    then show ?thesis by (simp add: py_bind_def py_call_def)
  next
    case (Inr content)
    have "files (snd (rest content (w\<lparr>files := (files w)(p \<mapsto> content)\<rparr>)))
        = files (w\<lparr>files := (files w)(p \<mapsto> content)\<rparr>)"
      using rest [of content] by (rule changes_nothing_files)
    then have "files (snd (?m w)) = (files w)(p \<mapsto> content)"
      using Inr by (simp add: py_bind_def py_call_def py_then_def write_file_def)
    then show ?thesis using Inr by blast
  qed
qed

lemma only_converted_create_minimal_tflite:
  "writes_only_converted lib ''assets/models/minimal_model.tflite'' (create_minimal_tflite lib)"
  unfolding create_minimal_tflite_def Let_def
  apply (rule only_converted_bind [OF changes_call])
  apply (rule only_converted_bind [OF changes_call])
  apply (rule only_converted_try)
   apply (rule only_converted_convert_write)
   apply (intro changes_intros)
  apply (intro changes_intros)
  done

lemma only_converted_create_simple_compatible_model:
  "writes_only_converted lib ''assets/models/simple_compatible_model.tflite''
     (create_simple_compatible_model lib)"
  unfolding create_simple_compatible_model_def Let_def
  apply (rule only_converted_bind [OF changes_call])
  apply (rule only_converted_then [OF changes_call])
  apply (rule only_converted_then [OF changes_print])
  apply (rule only_converted_bind [OF changes_call])
  apply (rule only_converted_then [OF changes_for [OF changes_print]])
  apply (rule only_converted_bind [OF changes_call])
  apply (rule only_converted_try)
   apply (rule only_converted_convert_write)
   apply (intro changes_intros)
  apply (intro changes_intros)
  done

lemma only_converted_create_compatible_model:
  "writes_only_converted lib ''assets/models/best_model_compatible.tflite''
     (create_compatible_model lib)"
  unfolding create_compatible_model_def Let_def
  apply (rule only_converted_bind [OF changes_call])
  apply (rule only_converted_then [OF changes_call])
  apply (rule only_converted_then [OF changes_print])
  apply (rule only_converted_bind [OF changes_call])
  apply (rule only_converted_then [OF changes_for [OF changes_print]])
  apply (rule only_converted_bind [OF changes_call])
  apply (rule only_converted_try)
   apply (rule only_converted_then [OF changes_print])
   apply (rule only_converted_convert_write)
   apply (intro changes_intros)
  apply (intro changes_intros)
  done

subsection \<open>No exception of the class Exception leaves a try block\<close>

lemma create_compatible_model_script_no_Exception:
  assumes "load_model lib ''your_original_model.h5'' = Inr model"
    and "from_keras_model lib model = Inr c0"
  shows "fst (create_compatible_model_script lib w) \<noteq> Inl (Exception e)"
  using assms
  by (simp add: create_compatible_model_script_def Let_def py_simps
        py_try_print_no_Exception)

lemma create_minimal_tflite_no_Exception:
  assumes "get_concrete_function lib simple_model
             \<lparr>spec_shape = [1, 32000, 1], spec_dtype = ''float32''\<rparr> = Inr cf"
    and "from_concrete_functions lib [cf] = Inr c0"
  shows "fst (create_minimal_tflite lib w) \<noteq> Inl (Exception e)"
  using assms
  apply (simp add: create_minimal_tflite_def Let_def py_simps)
  apply (rule py_try_no_Exception)
  apply (simp add: print_then_return)
  done

lemma create_simple_compatible_model_no_Exception:
  assumes "keras_Model lib simple_network = Inr model"
    and "compile lib model
           \<lparr>optimizer = Optimizer_name ''adam'', loss = ''categorical_crossentropy'',
            metrics = [''accuracy'']\<rparr> = Inr ()"
    and "model_summary lib model = Inr ls"
    and "from_keras_model lib model = Inr c0"
  shows "fst (create_simple_compatible_model lib w) \<noteq> Inl (Exception e)"
  using assms
  apply (simp add: create_simple_compatible_model_def Let_def py_simps
      py_then_eq [OF py_for_print])
  apply (rule py_try_no_Exception)
  apply (simp add: print_then_return)
  done

lemma create_compatible_model_no_Exception:
  assumes "keras_Model lib compatible_network = Inr model"
    and "compile lib model
           \<lparr>optimizer = Adam 0.001, loss = ''categorical_crossentropy'',
            metrics = [''accuracy'']\<rparr> = Inr ()"
    and "model_summary lib model = Inr ls"
    and "from_keras_model lib model = Inr c0"
  shows "fst (create_compatible_model lib w) \<noteq> Inl (Exception e)"
  using assms
  apply (simp add: create_compatible_model_def Let_def py_simps
      py_then_eq [OF py_for_print])
  apply (rule py_try_no_Exception)
  apply (simp add: print_then_return)
  done

section \<open>Failure handling across the scripts\<close>

text \<open>
  Claim C6, as the code has it. Each script has a step inside \<open>try ... except
  Exception\<close> whose handler prints the message: the loading of the model in
  check_model_versions.py and convert_model_compatible.py, the conversion and what follows
  it in the other four. A loader that raises makes a block of check_model_versions.py
  print the diagnostic and end normally, so that the script goes on, and makes
  \<open>convert_with_compatibility_flags\<close> print and return False. A conversion that raises
  makes the three building routines print and return False; it makes
  create_compatible_model.py print and end, with no flag and no fallback. No exception of
  the class \<open>Exception\<close> leaves a try block. The calls before the try block are not
  guarded: when loading the original model, building the Keras model, compiling it,
  printing its summary, tracing the function or creating the converter raises, the
  exception leaves the routine, no diagnostic is printed and nothing is returned.
\<close>

theorem failures_caught_inside_try_only:
  "(Interpreter_path lib ''assets/models/best_model.tflite'' = Inl (Exception m1) \<longrightarrow>
      analyze_best lib w =
        (Inr (), w\<lparr>stdout := stdout w @ [newline @ ''Analyzing best_model.tflite...'',
           cross_mark @ '' Error analyzing best_model.tflite: '' @ m1]\<rparr>)
      \<and> convert_with_compatibility_flags lib w =
          (Inr False, w\<lparr>stdout := stdout w @ [''Error: '' @ m1]\<rparr>))
   \<and> (Interpreter_path lib ''assets/models/minimal_model.tflite'' = Inl (Exception m2) \<longrightarrow>
      analyze_minimal lib w =
        (Inr (), w\<lparr>stdout := stdout w @ [newline @ ''Analyzing minimal_model.tflite...'',
           cross_mark @ '' Error analyzing minimal_model.tflite: '' @ m2]\<rparr>))
   \<and> (\<forall>e. fst (analyze_best lib w) \<noteq> Inl (Exception e))
   \<and> (\<forall>e. fst (analyze_minimal lib w) \<noteq> Inl (Exception e))
   \<and> (\<forall>e. fst (convert_with_compatibility_flags lib w) \<noteq> Inl (Exception e))
   \<and> (load_model lib ''your_original_model.h5'' = Inr model0
        \<and> from_keras_model lib model0 = Inr c0 \<longrightarrow>
      (\<forall>e. fst (create_compatible_model_script lib w) \<noteq> Inl (Exception e))
      \<and> (convert lib (c0\<lparr>optimizations := [DEFAULT], supported_ops := [TFLITE_BUILTINS],
             experimental_new_converter := False, experimental_new_quantizer := False\<rparr>)
           = Inl (Exception m3) \<longrightarrow>
         create_compatible_model_script lib w =
           (Inr (), w\<lparr>stdout := stdout w @ [''Conversion failed: '' @ m3]\<rparr>)))
   \<and> (get_concrete_function lib simple_model
          \<lparr>spec_shape = [1, 32000, 1], spec_dtype = ''float32''\<rparr> = Inr cf
        \<and> from_concrete_functions lib [cf] = Inr c1 \<longrightarrow>
      (\<forall>e. fst (create_minimal_tflite lib w) \<noteq> Inl (Exception e))
      \<and> (convert lib (c1\<lparr>optimizations := []\<rparr>) = Inl (Exception m3) \<longrightarrow>
         create_minimal_tflite lib w =
           (Inr False, w\<lparr>stdout := stdout w @
              [cross_mark @ '' Failed to create minimal model: '' @ m3]\<rparr>)))
   \<and> (keras_Model lib simple_network = Inr model2
        \<and> compile lib model2
             \<lparr>optimizer = Optimizer_name ''adam'', loss = ''categorical_crossentropy'',
              metrics = [''accuracy'']\<rparr> = Inr ()
        \<and> model_summary lib model2 = Inr ls2
        \<and> from_keras_model lib model2 = Inr c2 \<longrightarrow>
      (\<forall>e. fst (create_simple_compatible_model lib w) \<noteq> Inl (Exception e))
      \<and> (convert lib (c2\<lparr>optimizations := [], supported_ops := [TFLITE_BUILTINS],
             experimental_new_converter := False, experimental_new_quantizer := False\<rparr>)
           = Inl (Exception m3) \<longrightarrow>
         create_simple_compatible_model lib w =
           (Inr False, w\<lparr>stdout := stdout w @ [''Model summary:''] @ ls2 @
              [cross_mark @ '' Failed to create model: '' @ m3]\<rparr>)))
   \<and> (keras_Model lib compatible_network = Inr model3
        \<and> compile lib model3
             \<lparr>optimizer = Adam 0.001, loss = ''categorical_crossentropy'',
              metrics = [''accuracy'']\<rparr> = Inr ()
        \<and> model_summary lib model3 = Inr ls3
        \<and> from_keras_model lib model3 = Inr c3 \<longrightarrow>
      (\<forall>e. fst (create_compatible_model lib w) \<noteq> Inl (Exception e))
      \<and> (convert lib (c3\<lparr>optimizations := [], supported_ops := [TFLITE_BUILTINS],
             experimental_new_converter := False, experimental_new_quantizer := False,
             allow_custom_ops := False, experimental_enable_resource_variables := False\<rparr>)
           = Inl (Exception m3) \<longrightarrow>
         create_compatible_model lib w =
           (Inr False, w\<lparr>stdout := stdout w @ [''Model summary:''] @ ls3 @
              [''Converting model...'', cross_mark @ '' Conversion failed: '' @ m3]\<rparr>)))
   \<and> (load_model lib ''your_original_model.h5'' = Inl e0 \<longrightarrow>
      create_compatible_model_script lib w = (Inl e0, w))
   \<and> (load_model lib ''your_original_model.h5'' = Inr model0
        \<and> from_keras_model lib model0 = Inl e0 \<longrightarrow>
      create_compatible_model_script lib w = (Inl e0, w))
   \<and> (get_concrete_function lib simple_model
          \<lparr>spec_shape = [1, 32000, 1], spec_dtype = ''float32''\<rparr> = Inl e0 \<longrightarrow>
      create_minimal_tflite lib w = (Inl e0, w))
   \<and> (get_concrete_function lib simple_model
          \<lparr>spec_shape = [1, 32000, 1], spec_dtype = ''float32''\<rparr> = Inr cf
        \<and> from_concrete_functions lib [cf] = Inl e0 \<longrightarrow>
      create_minimal_tflite lib w = (Inl e0, w))
   \<and> (keras_Model lib simple_network = Inl e0 \<longrightarrow>
      create_simple_compatible_model lib w = (Inl e0, w))
   \<and> (keras_Model lib simple_network = Inr model2
        \<and> compile lib model2
             \<lparr>optimizer = Optimizer_name ''adam'', loss = ''categorical_crossentropy'',
              metrics = [''accuracy'']\<rparr> = Inl e0 \<longrightarrow>
      create_simple_compatible_model lib w = (Inl e0, w))
   \<and> (keras_Model lib simple_network = Inr model2
        \<and> compile lib model2
             \<lparr>optimizer = Optimizer_name ''adam'', loss = ''categorical_crossentropy'',
              metrics = [''accuracy'']\<rparr> = Inr ()
        \<and> model_summary lib model2 = Inl e0 \<longrightarrow>
      create_simple_compatible_model lib w = (Inl e0, w\<lparr>stdout := stdout w @ [''Model summary:'']\<rparr>))
   \<and> (keras_Model lib simple_network = Inr model2
        \<and> compile lib model2
             \<lparr>optimizer = Optimizer_name ''adam'', loss = ''categorical_crossentropy'',
              metrics = [''accuracy'']\<rparr> = Inr ()
        \<and> model_summary lib model2 = Inr ls2
        \<and> from_keras_model lib model2 = Inl e0 \<longrightarrow>
      create_simple_compatible_model lib w = (Inl e0, w\<lparr>stdout := stdout w @ [''Model summary:''] @ ls2\<rparr>))
   \<and> (keras_Model lib compatible_network = Inl e0 \<longrightarrow>
      create_compatible_model lib w = (Inl e0, w))
   \<and> (keras_Model lib compatible_network = Inr model3
        \<and> compile lib model3
             \<lparr>optimizer = Adam 0.001, loss = ''categorical_crossentropy'',
              metrics = [''accuracy'']\<rparr> = Inl e0 \<longrightarrow>
      create_compatible_model lib w = (Inl e0, w))
   \<and> (keras_Model lib compatible_network = Inr model3
        \<and> compile lib model3
             \<lparr>optimizer = Adam 0.001, loss = ''categorical_crossentropy'',
              metrics = [''accuracy'']\<rparr> = Inr ()
        \<and> model_summary lib model3 = Inl e0 \<longrightarrow>
      create_compatible_model lib w = (Inl e0, w\<lparr>stdout := stdout w @ [''Model summary:'']\<rparr>))
   \<and> (keras_Model lib compatible_network = Inr model3
        \<and> compile lib model3
             \<lparr>optimizer = Adam 0.001, loss = ''categorical_crossentropy'',
              metrics = [''accuracy'']\<rparr> = Inr ()
        \<and> model_summary lib model3 = Inr ls3
        \<and> from_keras_model lib model3 = Inl e0 \<longrightarrow>
      create_compatible_model lib w = (Inl e0, w\<lparr>stdout := stdout w @ [''Model summary:''] @ ls3\<rparr>))"
proof -
  have c1: "Interpreter_path lib ''assets/models/best_model.tflite'' = Inl (Exception m1) \<longrightarrow>
      analyze_best lib w =
        (Inr (), w\<lparr>stdout := stdout w @ [newline @ ''Analyzing best_model.tflite...'',
           cross_mark @ '' Error analyzing best_model.tflite: '' @ m1]\<rparr>)
      \<and> convert_with_compatibility_flags lib w =
          (Inr False, w\<lparr>stdout := stdout w @ [''Error: '' @ m1]\<rparr>)"
    using analyze_best_missing [of lib m1 w] convert_flags_missing [of lib m1 w] by blast
  have c2: "Interpreter_path lib ''assets/models/minimal_model.tflite'' = Inl (Exception m2) \<longrightarrow>
      analyze_minimal lib w =
        (Inr (), w\<lparr>stdout := stdout w @ [newline @ ''Analyzing minimal_model.tflite...'',
           cross_mark @ '' Error analyzing minimal_model.tflite: '' @ m2]\<rparr>)"
    using analyze_minimal_missing [of lib m2 w] by blast
  have c3: "\<forall>e. fst (analyze_best lib w) \<noteq> Inl (Exception e)"
    by (simp add: analyze_best_def py_try_print_no_Exception)
  have c4: "\<forall>e. fst (analyze_minimal lib w) \<noteq> Inl (Exception e)"
    by (simp add: analyze_minimal_def py_try_print_no_Exception)
  have c5: "\<forall>e. fst (convert_with_compatibility_flags lib w) \<noteq> Inl (Exception e)"
    by (simp add: convert_flags_no_Exception)
  have c6: "load_model lib ''your_original_model.h5'' = Inr model0
        \<and> from_keras_model lib model0 = Inr c0 \<longrightarrow>
      (\<forall>e. fst (create_compatible_model_script lib w) \<noteq> Inl (Exception e))
      \<and> (convert lib (c0\<lparr>optimizations := [DEFAULT], supported_ops := [TFLITE_BUILTINS],
             experimental_new_converter := False, experimental_new_quantizer := False\<rparr>)
           = Inl (Exception m3) \<longrightarrow>
         create_compatible_model_script lib w =
           (Inr (), w\<lparr>stdout := stdout w @ [''Conversion failed: '' @ m3]\<rparr>))"
    using create_compatible_model_script_no_Exception [of lib model0 c0 w]
      create_compatible_model_script_fails [of lib model0 c0 m3 w]
    by blast
  have c7: "get_concrete_function lib simple_model
          \<lparr>spec_shape = [1, 32000, 1], spec_dtype = ''float32''\<rparr> = Inr cf
        \<and> from_concrete_functions lib [cf] = Inr c1 \<longrightarrow>
      (\<forall>e. fst (create_minimal_tflite lib w) \<noteq> Inl (Exception e))
      \<and> (convert lib (c1\<lparr>optimizations := []\<rparr>) = Inl (Exception m3) \<longrightarrow>
         create_minimal_tflite lib w =
           (Inr False, w\<lparr>stdout := stdout w @
              [cross_mark @ '' Failed to create minimal model: '' @ m3]\<rparr>))"
    using create_minimal_tflite_no_Exception [of lib cf c1 w]
      create_minimal_tflite_fails [of lib cf c1 m3 w]
    by blast
  have c8: "keras_Model lib simple_network = Inr model2
        \<and> compile lib model2
             \<lparr>optimizer = Optimizer_name ''adam'', loss = ''categorical_crossentropy'',
              metrics = [''accuracy'']\<rparr> = Inr ()
        \<and> model_summary lib model2 = Inr ls2
        \<and> from_keras_model lib model2 = Inr c2 \<longrightarrow>
      (\<forall>e. fst (create_simple_compatible_model lib w) \<noteq> Inl (Exception e))
      \<and> (convert lib (c2\<lparr>optimizations := [], supported_ops := [TFLITE_BUILTINS],
             experimental_new_converter := False, experimental_new_quantizer := False\<rparr>)
           = Inl (Exception m3) \<longrightarrow>
         create_simple_compatible_model lib w =
           (Inr False, w\<lparr>stdout := stdout w @ [''Model summary:''] @ ls2 @
              [cross_mark @ '' Failed to create model: '' @ m3]\<rparr>))"
    using create_simple_compatible_model_no_Exception [of lib model2 ls2 c2 w]
      create_simple_compatible_model_fails [of lib model2 ls2 c2 m3 w]
    by blast
  have c9: "keras_Model lib compatible_network = Inr model3
        \<and> compile lib model3
             \<lparr>optimizer = Adam 0.001, loss = ''categorical_crossentropy'',
              metrics = [''accuracy'']\<rparr> = Inr ()
        \<and> model_summary lib model3 = Inr ls3
        \<and> from_keras_model lib model3 = Inr c3 \<longrightarrow>
      (\<forall>e. fst (create_compatible_model lib w) \<noteq> Inl (Exception e))
      \<and> (convert lib (c3\<lparr>optimizations := [], supported_ops := [TFLITE_BUILTINS],
             experimental_new_converter := False, experimental_new_quantizer := False,
             allow_custom_ops := False, experimental_enable_resource_variables := False\<rparr>)
           = Inl (Exception m3) \<longrightarrow>
         create_compatible_model lib w =
           (Inr False, w\<lparr>stdout := stdout w @ [''Model summary:''] @ ls3 @
              [''Converting model...'', cross_mark @ '' Conversion failed: '' @ m3]\<rparr>))"
    using create_compatible_model_no_Exception [of lib model3 ls3 c3 w]
      create_compatible_model_fails [of lib model3 ls3 c3 m3 w]
    by blast
  have e1: "load_model lib ''your_original_model.h5'' = Inl e0 \<longrightarrow>
      create_compatible_model_script lib w = (Inl e0, w)"
    by (simp add: create_compatible_model_script_def Let_def py_simps py_raise_def py_then_eq [OF py_for_print])
  have e2: "load_model lib ''your_original_model.h5'' = Inr model0
        \<and> from_keras_model lib model0 = Inl e0 \<longrightarrow>
      create_compatible_model_script lib w = (Inl e0, w)"
    by (simp add: create_compatible_model_script_def Let_def py_simps py_raise_def py_then_eq [OF py_for_print])
  have e3: "get_concrete_function lib simple_model
          \<lparr>spec_shape = [1, 32000, 1], spec_dtype = ''float32''\<rparr> = Inl e0 \<longrightarrow>
      create_minimal_tflite lib w = (Inl e0, w)"
    by (simp add: create_minimal_tflite_def Let_def py_simps py_raise_def py_then_eq [OF py_for_print])
  have e4: "get_concrete_function lib simple_model
          \<lparr>spec_shape = [1, 32000, 1], spec_dtype = ''float32''\<rparr> = Inr cf
        \<and> from_concrete_functions lib [cf] = Inl e0 \<longrightarrow>
      create_minimal_tflite lib w = (Inl e0, w)"
    by (simp add: create_minimal_tflite_def Let_def py_simps py_raise_def py_then_eq [OF py_for_print])
  have e5: "keras_Model lib simple_network = Inl e0 \<longrightarrow>
      create_simple_compatible_model lib w = (Inl e0, w)"
    by (simp add: create_simple_compatible_model_def Let_def py_simps py_raise_def py_then_eq [OF py_for_print])
  have e6: "keras_Model lib simple_network = Inr model2
        \<and> compile lib model2
             \<lparr>optimizer = Optimizer_name ''adam'', loss = ''categorical_crossentropy'',
              metrics = [''accuracy'']\<rparr> = Inl e0 \<longrightarrow>
      create_simple_compatible_model lib w = (Inl e0, w)"
    by (simp add: create_simple_compatible_model_def Let_def py_simps py_raise_def py_then_eq [OF py_for_print])
  have e7: "keras_Model lib simple_network = Inr model2
        \<and> compile lib model2
             \<lparr>optimizer = Optimizer_name ''adam'', loss = ''categorical_crossentropy'',
              metrics = [''accuracy'']\<rparr> = Inr ()
        \<and> model_summary lib model2 = Inl e0 \<longrightarrow>
      create_simple_compatible_model lib w = (Inl e0, w\<lparr>stdout := stdout w @ [''Model summary:'']\<rparr>)"
    by (simp add: create_simple_compatible_model_def Let_def py_simps py_raise_def py_then_eq [OF py_for_print])
  have e8: "keras_Model lib simple_network = Inr model2
        \<and> compile lib model2
             \<lparr>optimizer = Optimizer_name ''adam'', loss = ''categorical_crossentropy'',
              metrics = [''accuracy'']\<rparr> = Inr ()
        \<and> model_summary lib model2 = Inr ls2
        \<and> from_keras_model lib model2 = Inl e0 \<longrightarrow>
      create_simple_compatible_model lib w = (Inl e0, w\<lparr>stdout := stdout w @ [''Model summary:''] @ ls2\<rparr>)"
    by (simp add: create_simple_compatible_model_def Let_def py_simps py_raise_def py_then_eq [OF py_for_print])
  have e9: "keras_Model lib compatible_network = Inl e0 \<longrightarrow>
      create_compatible_model lib w = (Inl e0, w)"
    by (simp add: create_compatible_model_def Let_def py_simps py_raise_def py_then_eq [OF py_for_print])
  have e10: "keras_Model lib compatible_network = Inr model3
        \<and> compile lib model3
             \<lparr>optimizer = Adam 0.001, loss = ''categorical_crossentropy'',
              metrics = [''accuracy'']\<rparr> = Inl e0 \<longrightarrow>
      create_compatible_model lib w = (Inl e0, w)"
    by (simp add: create_compatible_model_def Let_def py_simps py_raise_def py_then_eq [OF py_for_print])
  have e11: "keras_Model lib compatible_network = Inr model3
        \<and> compile lib model3
             \<lparr>optimizer = Adam 0.001, loss = ''categorical_crossentropy'',
              metrics = [''accuracy'']\<rparr> = Inr ()
        \<and> model_summary lib model3 = Inl e0 \<longrightarrow>
      create_compatible_model lib w = (Inl e0, w\<lparr>stdout := stdout w @ [''Model summary:'']\<rparr>)"
    by (simp add: create_compatible_model_def Let_def py_simps py_raise_def py_then_eq [OF py_for_print])
  have e12: "keras_Model lib compatible_network = Inr model3
        \<and> compile lib model3
             \<lparr>optimizer = Adam 0.001, loss = ''categorical_crossentropy'',
              metrics = [''accuracy'']\<rparr> = Inr ()
        \<and> model_summary lib model3 = Inr ls3
        \<and> from_keras_model lib model3 = Inl e0 \<longrightarrow>
      create_compatible_model lib w = (Inl e0, w\<lparr>stdout := stdout w @ [''Model summary:''] @ ls3\<rparr>)"
    by (simp add: create_compatible_model_def Let_def py_simps py_raise_def py_then_eq [OF py_for_print])
  show ?thesis
    by (intro conjI)
       (rule c1, rule c2, rule c3, rule c4, rule c5,
        rule c6, rule c7, rule c8, rule c9, rule e1,
        rule e2, rule e3, rule e4, rule e5, rule e6,
        rule e7, rule e8, rule e9, rule e10, rule e11,
        rule e12)
qed

text \<open>
  Runs of every script with a library whose loader and conversion raise, and runs of the
  four building scripts with libraries in which one of the calls before the try block
  raises.
\<close>

theorem failures_caught_inside_try_only_witness:
  "analyze_best conversion_fails_tf empty_world =
     (Inr (), empty_world\<lparr>stdout := [newline @ ''Analyzing best_model.tflite...'', cross_mark @ '' Error analyzing best_model.tflite: ''
          @ ''Could not open 'assets/models/best_model.tflite'.'']\<rparr>)
   \<and> convert_with_compatibility_flags conversion_fails_tf empty_world =
     (Inr False, empty_world\<lparr>stdout := [''Error: Could not open 'assets/models/best_model.tflite'.'']\<rparr>)
   \<and> analyze_minimal conversion_fails_tf empty_world =
     (Inr (), empty_world\<lparr>stdout := [newline @ ''Analyzing minimal_model.tflite...'', cross_mark @ '' Error analyzing minimal_model.tflite: ''
          @ ''Could not open 'assets/models/minimal_model.tflite'.'']\<rparr>)
   \<and> create_compatible_model_script conversion_fails_tf empty_world =
     (Inr (), empty_world\<lparr>stdout := [''Conversion failed: unsupported operation'']\<rparr>)
   \<and> create_minimal_tflite conversion_fails_tf empty_world =
     (Inr False, empty_world\<lparr>stdout := [cross_mark @ '' Failed to create minimal model: unsupported operation'']\<rparr>)
   \<and> create_simple_compatible_model conversion_fails_tf empty_world =
     (Inr False, empty_world\<lparr>stdout := [''Model summary:'', ''Model: model'', cross_mark @ '' Failed to create model: unsupported operation'']\<rparr>)
   \<and> create_compatible_model conversion_fails_tf empty_world =
     (Inr False, empty_world\<lparr>stdout := [''Model summary:'', ''Model: model'', ''Converting model...'', cross_mark @ '' Conversion failed: unsupported operation'']\<rparr>)
   \<and> create_compatible_model_script (conversion_fails_tf\<lparr>load_model := (\<lambda>p. Inl (Exception ''not available''))\<rparr>) empty_world =
     (Inl (Exception ''not available''), empty_world)
   \<and> create_compatible_model_script (conversion_fails_tf\<lparr>from_keras_model := (\<lambda>m. Inl (Exception ''not available''))\<rparr>) empty_world =
     (Inl (Exception ''not available''), empty_world)
   \<and> create_minimal_tflite (conversion_fails_tf\<lparr>get_concrete_function := (\<lambda>g s. Inl (Exception ''not available''))\<rparr>) empty_world =
     (Inl (Exception ''not available''), empty_world)
   \<and> create_minimal_tflite (conversion_fails_tf\<lparr>from_concrete_functions := (\<lambda>fs. Inl (Exception ''not available''))\<rparr>) empty_world =
     (Inl (Exception ''not available''), empty_world)
   \<and> create_simple_compatible_model (conversion_fails_tf\<lparr>keras_Model := (\<lambda>n. Inl (Exception ''not available''))\<rparr>) empty_world =
     (Inl (Exception ''not available''), empty_world)
   \<and> create_simple_compatible_model (conversion_fails_tf\<lparr>compile := (\<lambda>m a. Inl (Exception ''not available''))\<rparr>) empty_world =
     (Inl (Exception ''not available''), empty_world)
   \<and> create_simple_compatible_model (conversion_fails_tf\<lparr>model_summary := (\<lambda>m. Inl (Exception ''not available''))\<rparr>) empty_world =
     (Inl (Exception ''not available''), empty_world\<lparr>stdout := [''Model summary:'']\<rparr>)
   \<and> create_simple_compatible_model (conversion_fails_tf\<lparr>from_keras_model := (\<lambda>m. Inl (Exception ''not available''))\<rparr>) empty_world =
     (Inl (Exception ''not available''), empty_world\<lparr>stdout := [''Model summary:'', ''Model: model'']\<rparr>)
   \<and> create_compatible_model (conversion_fails_tf\<lparr>keras_Model := (\<lambda>n. Inl (Exception ''not available''))\<rparr>) empty_world =
     (Inl (Exception ''not available''), empty_world)
   \<and> create_compatible_model (conversion_fails_tf\<lparr>compile := (\<lambda>m a. Inl (Exception ''not available''))\<rparr>) empty_world =
     (Inl (Exception ''not available''), empty_world)
   \<and> create_compatible_model (conversion_fails_tf\<lparr>model_summary := (\<lambda>m. Inl (Exception ''not available''))\<rparr>) empty_world =
     (Inl (Exception ''not available''), empty_world\<lparr>stdout := [''Model summary:'']\<rparr>)
   \<and> create_compatible_model (conversion_fails_tf\<lparr>from_keras_model := (\<lambda>m. Inl (Exception ''not available''))\<rparr>) empty_world =
     (Inl (Exception ''not available''), empty_world\<lparr>stdout := [''Model summary:'', ''Model: model'']\<rparr>)"
proof -
  note T = failures_caught_inside_try_only
    [where lib = "conversion_fails_tf"
       and w = empty_world
       and ?m1.0 = "''Could not open 'assets/models/best_model.tflite'.''"
       and ?m2.0 = "''Could not open 'assets/models/minimal_model.tflite'.''"
       and ?m3.0 = "''unsupported operation''"
       and ?model0.0 = "Keras_model 0"
       and ?c0.0 = "example_converter (From_keras (Keras_model 0))"
       and cf = "Concrete_function 0"
       and ?c1.0 = "example_converter (From_concrete [Concrete_function 0])"
       and ?model2.0 = "Keras_model 1"
       and ?ls2.0 = "[''Model: model'']"
       and ?c2.0 = "example_converter (From_keras (Keras_model 1))"
       and ?model3.0 = "Keras_model 1"
       and ?ls3.0 = "[''Model: model'']"
       and ?c3.0 = "example_converter (From_keras (Keras_model 1))"]
  have hc: "convert conversion_fails_tf c = Inl (Exception ''unsupported operation'')" for c
    by (simp add: conversion_fails_tf_def example_tf_def)
  have h_a: "Interpreter_path conversion_fails_tf ''assets/models/best_model.tflite'' = Inl (Exception ''Could not open 'assets/models/best_model.tflite'.'')"
    by (simp add: conversion_fails_tf_def example_tf_def no_such_file_def quoted_def)
  note a = T [THEN conjunct1, THEN mp, OF h_a, THEN conjunct1]
  have h_b: "Interpreter_path conversion_fails_tf ''assets/models/best_model.tflite'' = Inl (Exception ''Could not open 'assets/models/best_model.tflite'.'')"
    by (simp add: conversion_fails_tf_def example_tf_def no_such_file_def quoted_def)
  note b = T [THEN conjunct1, THEN mp, OF h_b, THEN conjunct2]
  have h_c: "Interpreter_path conversion_fails_tf ''assets/models/minimal_model.tflite'' = Inl (Exception ''Could not open 'assets/models/minimal_model.tflite'.'')"
    by (simp add: conversion_fails_tf_def example_tf_def no_such_file_def quoted_def)
  note c = T [THEN conjunct2, THEN conjunct1, THEN mp, OF h_c]
  have h_d: "load_model conversion_fails_tf ''your_original_model.h5'' = Inr (Keras_model 0)
      \<and> from_keras_model conversion_fails_tf (Keras_model 0) = Inr (example_converter (From_keras (Keras_model 0)))"
    by (simp add: conversion_fails_tf_def example_tf_def no_such_file_def quoted_def)
  note d = T [THEN conjunct2, THEN conjunct2, THEN conjunct2, THEN conjunct2, THEN conjunct2, THEN conjunct1, THEN mp, OF h_d, THEN conjunct2, THEN mp, OF hc]
  have h_e: "get_concrete_function conversion_fails_tf simple_model
        \<lparr>spec_shape = [1, 32000, 1], spec_dtype = ''float32''\<rparr> = Inr (Concrete_function 0)
      \<and> from_concrete_functions conversion_fails_tf [Concrete_function 0] = Inr (example_converter (From_concrete [Concrete_function 0]))"
    by (simp add: conversion_fails_tf_def example_tf_def no_such_file_def quoted_def)
  note e = T [THEN conjunct2, THEN conjunct2, THEN conjunct2, THEN conjunct2, THEN conjunct2, THEN conjunct2, THEN conjunct1, THEN mp, OF h_e, THEN conjunct2, THEN mp, OF hc]
  have h_f: "keras_Model conversion_fails_tf simple_network = Inr (Keras_model 1)
      \<and> compile conversion_fails_tf (Keras_model 1)
           \<lparr>optimizer = Optimizer_name ''adam'', loss = ''categorical_crossentropy'',
            metrics = [''accuracy'']\<rparr> = Inr ()
      \<and> model_summary conversion_fails_tf (Keras_model 1) = Inr [''Model: model'']
      \<and> from_keras_model conversion_fails_tf (Keras_model 1) = Inr (example_converter (From_keras (Keras_model 1)))"
    by (simp add: conversion_fails_tf_def example_tf_def no_such_file_def quoted_def)
  note f = T [THEN conjunct2, THEN conjunct2, THEN conjunct2, THEN conjunct2, THEN conjunct2, THEN conjunct2, THEN conjunct2, THEN conjunct1, THEN mp, OF h_f, THEN conjunct2, THEN mp, OF hc]
  have h_g: "keras_Model conversion_fails_tf compatible_network = Inr (Keras_model 1)
      \<and> compile conversion_fails_tf (Keras_model 1)
           \<lparr>optimizer = Adam 0.001, loss = ''categorical_crossentropy'',
            metrics = [''accuracy'']\<rparr> = Inr ()
      \<and> model_summary conversion_fails_tf (Keras_model 1) = Inr [''Model: model'']
      \<and> from_keras_model conversion_fails_tf (Keras_model 1) = Inr (example_converter (From_keras (Keras_model 1)))"
    by (simp add: conversion_fails_tf_def example_tf_def no_such_file_def quoted_def)
  note g = T [THEN conjunct2, THEN conjunct2, THEN conjunct2, THEN conjunct2, THEN conjunct2, THEN conjunct2, THEN conjunct2, THEN conjunct2, THEN conjunct1, THEN mp, OF h_g, THEN conjunct2, THEN mp, OF hc]
  have h_x1: "load_model (conversion_fails_tf\<lparr>load_model := (\<lambda>p. Inl (Exception ''not available''))\<rparr>) ''your_original_model.h5'' = Inl (Exception ''not available'')"
    by (simp add: conversion_fails_tf_def example_tf_def)
  note x1 = failures_caught_inside_try_only
    [where lib = "(conversion_fails_tf\<lparr>load_model := (\<lambda>p. Inl (Exception ''not available''))\<rparr>)"
       and w = empty_world
       and ?e0.0 = "Exception ''not available''"
       and ?model0.0 = "Keras_model 0"
       and cf = "Concrete_function 0"
       and ?model2.0 = "Keras_model 1"
       and ?ls2.0 = "[''Model: model'']"
       and ?model3.0 = "Keras_model 1"
       and ?ls3.0 = "[''Model: model'']"]
  note x1 = x1 [THEN conjunct2, THEN conjunct2, THEN conjunct2, THEN conjunct2, THEN conjunct2, THEN conjunct2, THEN conjunct2, THEN conjunct2, THEN conjunct2, THEN conjunct1, THEN mp, OF h_x1]
  have h_x2: "load_model (conversion_fails_tf\<lparr>from_keras_model := (\<lambda>m. Inl (Exception ''not available''))\<rparr>) ''your_original_model.h5'' = Inr (Keras_model 0)
      \<and> from_keras_model (conversion_fails_tf\<lparr>from_keras_model := (\<lambda>m. Inl (Exception ''not available''))\<rparr>) (Keras_model 0) = Inl (Exception ''not available'')"
    by (simp add: conversion_fails_tf_def example_tf_def)
  note x2 = failures_caught_inside_try_only
    [where lib = "(conversion_fails_tf\<lparr>from_keras_model := (\<lambda>m. Inl (Exception ''not available''))\<rparr>)"
       and w = empty_world
       and ?e0.0 = "Exception ''not available''"
       and ?model0.0 = "Keras_model 0"
       and cf = "Concrete_function 0"
       and ?model2.0 = "Keras_model 1"
       and ?ls2.0 = "[''Model: model'']"
       and ?model3.0 = "Keras_model 1"
       and ?ls3.0 = "[''Model: model'']"]
  note x2 = x2 [THEN conjunct2, THEN conjunct2, THEN conjunct2, THEN conjunct2, THEN conjunct2, THEN conjunct2, THEN conjunct2, THEN conjunct2, THEN conjunct2, THEN conjunct2, THEN conjunct1, THEN mp, OF h_x2]
  have h_x3: "get_concrete_function (conversion_fails_tf\<lparr>get_concrete_function := (\<lambda>g s. Inl (Exception ''not available''))\<rparr>) simple_model
        \<lparr>spec_shape = [1, 32000, 1], spec_dtype = ''float32''\<rparr> = Inl (Exception ''not available'')"
    by (simp add: conversion_fails_tf_def example_tf_def)
  note x3 = failures_caught_inside_try_only
    [where lib = "(conversion_fails_tf\<lparr>get_concrete_function := (\<lambda>g s. Inl (Exception ''not available''))\<rparr>)"
       and w = empty_world
       and ?e0.0 = "Exception ''not available''"
       and ?model0.0 = "Keras_model 0"
       and cf = "Concrete_function 0"
       and ?model2.0 = "Keras_model 1"
       and ?ls2.0 = "[''Model: model'']"
       and ?model3.0 = "Keras_model 1"
       and ?ls3.0 = "[''Model: model'']"]
  note x3 = x3 [THEN conjunct2, THEN conjunct2, THEN conjunct2, THEN conjunct2, THEN conjunct2, THEN conjunct2, THEN conjunct2, THEN conjunct2, THEN conjunct2, THEN conjunct2, THEN conjunct2, THEN conjunct1, THEN mp, OF h_x3]
  have h_x4: "get_concrete_function (conversion_fails_tf\<lparr>from_concrete_functions := (\<lambda>fs. Inl (Exception ''not available''))\<rparr>) simple_model
        \<lparr>spec_shape = [1, 32000, 1], spec_dtype = ''float32''\<rparr> = Inr (Concrete_function 0)
      \<and> from_concrete_functions (conversion_fails_tf\<lparr>from_concrete_functions := (\<lambda>fs. Inl (Exception ''not available''))\<rparr>) [Concrete_function 0] = Inl (Exception ''not available'')"
    by (simp add: conversion_fails_tf_def example_tf_def)
  note x4 = failures_caught_inside_try_only
    [where lib = "(conversion_fails_tf\<lparr>from_concrete_functions := (\<lambda>fs. Inl (Exception ''not available''))\<rparr>)"
       and w = empty_world
       and ?e0.0 = "Exception ''not available''"
       and ?model0.0 = "Keras_model 0"
       and cf = "Concrete_function 0"
       and ?model2.0 = "Keras_model 1"
       and ?ls2.0 = "[''Model: model'']"
       and ?model3.0 = "Keras_model 1"
       and ?ls3.0 = "[''Model: model'']"]
  note x4 = x4 [THEN conjunct2, THEN conjunct2, THEN conjunct2, THEN conjunct2, THEN conjunct2, THEN conjunct2, THEN conjunct2, THEN conjunct2, THEN conjunct2, THEN conjunct2, THEN conjunct2, THEN conjunct2, THEN conjunct1, THEN mp, OF h_x4]
  have h_x5: "keras_Model (conversion_fails_tf\<lparr>keras_Model := (\<lambda>n. Inl (Exception ''not available''))\<rparr>) simple_network = Inl (Exception ''not available'')"
    by (simp add: conversion_fails_tf_def example_tf_def)
  note x5 = failures_caught_inside_try_only
    [where lib = "(conversion_fails_tf\<lparr>keras_Model := (\<lambda>n. Inl (Exception ''not available''))\<rparr>)"
       and w = empty_world
       and ?e0.0 = "Exception ''not available''"
       and ?model0.0 = "Keras_model 0"
       and cf = "Concrete_function 0"
       and ?model2.0 = "Keras_model 1"
       and ?ls2.0 = "[''Model: model'']"
       and ?model3.0 = "Keras_model 1"
       and ?ls3.0 = "[''Model: model'']"]
  note x5 = x5 [THEN conjunct2, THEN conjunct2, THEN conjunct2, THEN conjunct2, THEN conjunct2, THEN conjunct2, THEN conjunct2, THEN conjunct2, THEN conjunct2, THEN conjunct2, THEN conjunct2, THEN conjunct2, THEN conjunct2, THEN conjunct1, THEN mp, OF h_x5]
  have h_x6: "keras_Model (conversion_fails_tf\<lparr>compile := (\<lambda>m a. Inl (Exception ''not available''))\<rparr>) simple_network = Inr (Keras_model 1)
      \<and> compile (conversion_fails_tf\<lparr>compile := (\<lambda>m a. Inl (Exception ''not available''))\<rparr>) (Keras_model 1)
           \<lparr>optimizer = Optimizer_name ''adam'', loss = ''categorical_crossentropy'',
            metrics = [''accuracy'']\<rparr> = Inl (Exception ''not available'')"
    by (simp add: conversion_fails_tf_def example_tf_def)
  note x6 = failures_caught_inside_try_only
    [where lib = "(conversion_fails_tf\<lparr>compile := (\<lambda>m a. Inl (Exception ''not available''))\<rparr>)"
       and w = empty_world
       and ?e0.0 = "Exception ''not available''"
       and ?model0.0 = "Keras_model 0"
       and cf = "Concrete_function 0"
       and ?model2.0 = "Keras_model 1"
       and ?ls2.0 = "[''Model: model'']"
       and ?model3.0 = "Keras_model 1"
       and ?ls3.0 = "[''Model: model'']"]
  note x6 = x6 [THEN conjunct2, THEN conjunct2, THEN conjunct2, THEN conjunct2, THEN conjunct2, THEN conjunct2, THEN conjunct2, THEN conjunct2, THEN conjunct2, THEN conjunct2, THEN conjunct2, THEN conjunct2, THEN conjunct2, THEN conjunct2, THEN conjunct1, THEN mp, OF h_x6]
  have h_x7: "keras_Model (conversion_fails_tf\<lparr>model_summary := (\<lambda>m. Inl (Exception ''not available''))\<rparr>) simple_network = Inr (Keras_model 1)
      \<and> compile (conversion_fails_tf\<lparr>model_summary := (\<lambda>m. Inl (Exception ''not available''))\<rparr>) (Keras_model 1)
           \<lparr>optimizer = Optimizer_name ''adam'', loss = ''categorical_crossentropy'',
            metrics = [''accuracy'']\<rparr> = Inr ()
      \<and> model_summary (conversion_fails_tf\<lparr>model_summary := (\<lambda>m. Inl (Exception ''not available''))\<rparr>) (Keras_model 1) = Inl (Exception ''not available'')"
    by (simp add: conversion_fails_tf_def example_tf_def)
  note x7 = failures_caught_inside_try_only
    [where lib = "(conversion_fails_tf\<lparr>model_summary := (\<lambda>m. Inl (Exception ''not available''))\<rparr>)"
       and w = empty_world
       and ?e0.0 = "Exception ''not available''"
       and ?model0.0 = "Keras_model 0"
       and cf = "Concrete_function 0"
       and ?model2.0 = "Keras_model 1"
       and ?ls2.0 = "[''Model: model'']"
       and ?model3.0 = "Keras_model 1"
       and ?ls3.0 = "[''Model: model'']"]
  note x7 = x7 [THEN conjunct2, THEN conjunct2, THEN conjunct2, THEN conjunct2, THEN conjunct2, THEN conjunct2, THEN conjunct2, THEN conjunct2, THEN conjunct2, THEN conjunct2, THEN conjunct2, THEN conjunct2, THEN conjunct2, THEN conjunct2, THEN conjunct2, THEN conjunct1, THEN mp, OF h_x7]
  have h_x8: "keras_Model (conversion_fails_tf\<lparr>from_keras_model := (\<lambda>m. Inl (Exception ''not available''))\<rparr>) simple_network = Inr (Keras_model 1)
      \<and> compile (conversion_fails_tf\<lparr>from_keras_model := (\<lambda>m. Inl (Exception ''not available''))\<rparr>) (Keras_model 1)
           \<lparr>optimizer = Optimizer_name ''adam'', loss = ''categorical_crossentropy'',
            metrics = [''accuracy'']\<rparr> = Inr ()
      \<and> model_summary (conversion_fails_tf\<lparr>from_keras_model := (\<lambda>m. Inl (Exception ''not available''))\<rparr>) (Keras_model 1) = Inr [''Model: model'']
      \<and> from_keras_model (conversion_fails_tf\<lparr>from_keras_model := (\<lambda>m. Inl (Exception ''not available''))\<rparr>) (Keras_model 1) = Inl (Exception ''not available'')"
    by (simp add: conversion_fails_tf_def example_tf_def)
  note x8 = failures_caught_inside_try_only
    [where lib = "(conversion_fails_tf\<lparr>from_keras_model := (\<lambda>m. Inl (Exception ''not available''))\<rparr>)"
       and w = empty_world
       and ?e0.0 = "Exception ''not available''"
       and ?model0.0 = "Keras_model 0"
       and cf = "Concrete_function 0"
       and ?model2.0 = "Keras_model 1"
       and ?ls2.0 = "[''Model: model'']"
       and ?model3.0 = "Keras_model 1"
       and ?ls3.0 = "[''Model: model'']"]
  note x8 = x8 [THEN conjunct2, THEN conjunct2, THEN conjunct2, THEN conjunct2, THEN conjunct2, THEN conjunct2, THEN conjunct2, THEN conjunct2, THEN conjunct2, THEN conjunct2, THEN conjunct2, THEN conjunct2, THEN conjunct2, THEN conjunct2, THEN conjunct2, THEN conjunct2, THEN conjunct1, THEN mp, OF h_x8]
  have h_x9: "keras_Model (conversion_fails_tf\<lparr>keras_Model := (\<lambda>n. Inl (Exception ''not available''))\<rparr>) compatible_network = Inl (Exception ''not available'')"
    by (simp add: conversion_fails_tf_def example_tf_def)
  note x9 = failures_caught_inside_try_only
    [where lib = "(conversion_fails_tf\<lparr>keras_Model := (\<lambda>n. Inl (Exception ''not available''))\<rparr>)"
       and w = empty_world
       and ?e0.0 = "Exception ''not available''"
       and ?model0.0 = "Keras_model 0"
       and cf = "Concrete_function 0"
       and ?model2.0 = "Keras_model 1"
       and ?ls2.0 = "[''Model: model'']"
       and ?model3.0 = "Keras_model 1"
       and ?ls3.0 = "[''Model: model'']"]
  note x9 = x9 [THEN conjunct2, THEN conjunct2, THEN conjunct2, THEN conjunct2, THEN conjunct2, THEN conjunct2, THEN conjunct2, THEN conjunct2, THEN conjunct2, THEN conjunct2, THEN conjunct2, THEN conjunct2, THEN conjunct2, THEN conjunct2, THEN conjunct2, THEN conjunct2, THEN conjunct2, THEN conjunct1, THEN mp, OF h_x9]
  have h_x10: "keras_Model (conversion_fails_tf\<lparr>compile := (\<lambda>m a. Inl (Exception ''not available''))\<rparr>) compatible_network = Inr (Keras_model 1)
      \<and> compile (conversion_fails_tf\<lparr>compile := (\<lambda>m a. Inl (Exception ''not available''))\<rparr>) (Keras_model 1)
           \<lparr>optimizer = Adam 0.001, loss = ''categorical_crossentropy'',
            metrics = [''accuracy'']\<rparr> = Inl (Exception ''not available'')"
    by (simp add: conversion_fails_tf_def example_tf_def)
  note x10 = failures_caught_inside_try_only
    [where lib = "(conversion_fails_tf\<lparr>compile := (\<lambda>m a. Inl (Exception ''not available''))\<rparr>)"
       and w = empty_world
       and ?e0.0 = "Exception ''not available''"
       and ?model0.0 = "Keras_model 0"
       and cf = "Concrete_function 0"
       and ?model2.0 = "Keras_model 1"
       and ?ls2.0 = "[''Model: model'']"
       and ?model3.0 = "Keras_model 1"
       and ?ls3.0 = "[''Model: model'']"]
  note x10 = x10 [THEN conjunct2, THEN conjunct2, THEN conjunct2, THEN conjunct2, THEN conjunct2, THEN conjunct2, THEN conjunct2, THEN conjunct2, THEN conjunct2, THEN conjunct2, THEN conjunct2, THEN conjunct2, THEN conjunct2, THEN conjunct2, THEN conjunct2, THEN conjunct2, THEN conjunct2, THEN conjunct2, THEN conjunct1, THEN mp, OF h_x10]
  have h_x11: "keras_Model (conversion_fails_tf\<lparr>model_summary := (\<lambda>m. Inl (Exception ''not available''))\<rparr>) compatible_network = Inr (Keras_model 1)
      \<and> compile (conversion_fails_tf\<lparr>model_summary := (\<lambda>m. Inl (Exception ''not available''))\<rparr>) (Keras_model 1)
           \<lparr>optimizer = Adam 0.001, loss = ''categorical_crossentropy'',
            metrics = [''accuracy'']\<rparr> = Inr ()
      \<and> model_summary (conversion_fails_tf\<lparr>model_summary := (\<lambda>m. Inl (Exception ''not available''))\<rparr>) (Keras_model 1) = Inl (Exception ''not available'')"
    by (simp add: conversion_fails_tf_def example_tf_def)
  note x11 = failures_caught_inside_try_only
    [where lib = "(conversion_fails_tf\<lparr>model_summary := (\<lambda>m. Inl (Exception ''not available''))\<rparr>)"
       and w = empty_world
       and ?e0.0 = "Exception ''not available''"
       and ?model0.0 = "Keras_model 0"
       and cf = "Concrete_function 0"
       and ?model2.0 = "Keras_model 1"
       and ?ls2.0 = "[''Model: model'']"
       and ?model3.0 = "Keras_model 1"
       and ?ls3.0 = "[''Model: model'']"]
  note x11 = x11 [THEN conjunct2, THEN conjunct2, THEN conjunct2, THEN conjunct2, THEN conjunct2, THEN conjunct2, THEN conjunct2, THEN conjunct2, THEN conjunct2, THEN conjunct2, THEN conjunct2, THEN conjunct2, THEN conjunct2, THEN conjunct2, THEN conjunct2, THEN conjunct2, THEN conjunct2, THEN conjunct2, THEN conjunct2, THEN conjunct1, THEN mp, OF h_x11]
  have h_x12: "keras_Model (conversion_fails_tf\<lparr>from_keras_model := (\<lambda>m. Inl (Exception ''not available''))\<rparr>) compatible_network = Inr (Keras_model 1)
      \<and> compile (conversion_fails_tf\<lparr>from_keras_model := (\<lambda>m. Inl (Exception ''not available''))\<rparr>) (Keras_model 1)
           \<lparr>optimizer = Adam 0.001, loss = ''categorical_crossentropy'',
            metrics = [''accuracy'']\<rparr> = Inr ()
      \<and> model_summary (conversion_fails_tf\<lparr>from_keras_model := (\<lambda>m. Inl (Exception ''not available''))\<rparr>) (Keras_model 1) = Inr [''Model: model'']
      \<and> from_keras_model (conversion_fails_tf\<lparr>from_keras_model := (\<lambda>m. Inl (Exception ''not available''))\<rparr>) (Keras_model 1) = Inl (Exception ''not available'')"
    by (simp add: conversion_fails_tf_def example_tf_def)
  note x12 = failures_caught_inside_try_only
    [where lib = "(conversion_fails_tf\<lparr>from_keras_model := (\<lambda>m. Inl (Exception ''not available''))\<rparr>)"
       and w = empty_world
       and ?e0.0 = "Exception ''not available''"
       and ?model0.0 = "Keras_model 0"
       and cf = "Concrete_function 0"
       and ?model2.0 = "Keras_model 1"
       and ?ls2.0 = "[''Model: model'']"
       and ?model3.0 = "Keras_model 1"
       and ?ls3.0 = "[''Model: model'']"]
  note x12 = x12 [THEN conjunct2, THEN conjunct2, THEN conjunct2, THEN conjunct2, THEN conjunct2, THEN conjunct2, THEN conjunct2, THEN conjunct2, THEN conjunct2, THEN conjunct2, THEN conjunct2, THEN conjunct2, THEN conjunct2, THEN conjunct2, THEN conjunct2, THEN conjunct2, THEN conjunct2, THEN conjunct2, THEN conjunct2, THEN conjunct2, THEN mp, OF h_x12]
  show ?thesis
    unfolding a b c d e f g x1 x2 x3 x4 x5 x6 x7 x8 x9 x10 x11 x12
    by (simp add: empty_world_def)
qed

text \<open>
  Against C6 as it is written: in four scripts the model is loaded or built before the
  try block. When that raises, the exception leaves the script; nothing is printed and
  nothing is returned.
\<close>

theorem build_failure_escapes:
  "create_compatible_model_script unbuildable_tf empty_world =
     (Inl (Exception ''No file or directory found at your_original_model.h5''), empty_world)
   \<and> create_minimal_tflite unbuildable_tf empty_world =
     (Inl (Exception ''tracing failed''), empty_world)
   \<and> create_simple_compatible_model unbuildable_tf empty_world =
     (Inl (Exception ''Keras is not available''), empty_world)
   \<and> create_compatible_model unbuildable_tf empty_world =
     (Inl (Exception ''Keras is not available''), empty_world)"
  by (simp add: create_compatible_model_script_def create_minimal_tflite_def
        create_simple_compatible_model_def create_compatible_model_def unbuildable_tf_def
        example_tf_def py_simps py_raise_def)

section \<open>The output artifact and the conversion\<close>

text \<open>
  Claim C10. Each building routine leaves the files as they are unless a conversion has
  returned, and then the one file it changes is its artifact, which holds what the
  conversion returned. When the conversion raises an exception of the class
  \<open>Exception\<close>, the routine prints its diagnostic with the message and returns False, and
  the world after the call differs from the world before it in the output only.
\<close>

theorem artifact_written_only_after_conversion:
  "writes_only_converted lib ''assets/models/minimal_model.tflite'' (create_minimal_tflite lib)
   \<and> writes_only_converted lib ''assets/models/simple_compatible_model.tflite''
         (create_simple_compatible_model lib)
   \<and> writes_only_converted lib ''assets/models/best_model_compatible.tflite''
         (create_compatible_model lib)
   \<and> (get_concrete_function lib simple_model
          \<lparr>spec_shape = [1, 32000, 1], spec_dtype = ''float32''\<rparr> = Inr cf
        \<and> from_concrete_functions lib [cf] = Inr c1
        \<and> convert lib (c1\<lparr>optimizations := []\<rparr>) = Inl (Exception m) \<longrightarrow>
         create_minimal_tflite lib w =
           (Inr False, w\<lparr>stdout := stdout w @
              [cross_mark @ '' Failed to create minimal model: '' @ m]\<rparr>))
   \<and> (keras_Model lib simple_network = Inr model2
        \<and> compile lib model2
             \<lparr>optimizer = Optimizer_name ''adam'', loss = ''categorical_crossentropy'',
              metrics = [''accuracy'']\<rparr> = Inr ()
        \<and> model_summary lib model2 = Inr ls2
        \<and> from_keras_model lib model2 = Inr c2
        \<and> convert lib (c2\<lparr>optimizations := [], supported_ops := [TFLITE_BUILTINS],
             experimental_new_converter := False, experimental_new_quantizer := False\<rparr>)
           = Inl (Exception m) \<longrightarrow>
         create_simple_compatible_model lib w =
           (Inr False, w\<lparr>stdout := stdout w @ [''Model summary:''] @ ls2 @
              [cross_mark @ '' Failed to create model: '' @ m]\<rparr>))
   \<and> (keras_Model lib compatible_network = Inr model3
        \<and> compile lib model3
             \<lparr>optimizer = Adam 0.001, loss = ''categorical_crossentropy'',
              metrics = [''accuracy'']\<rparr> = Inr ()
        \<and> model_summary lib model3 = Inr ls3
        \<and> from_keras_model lib model3 = Inr c3
        \<and> convert lib (c3\<lparr>optimizations := [], supported_ops := [TFLITE_BUILTINS],
             experimental_new_converter := False, experimental_new_quantizer := False,
             allow_custom_ops := False, experimental_enable_resource_variables := False\<rparr>)
           = Inl (Exception m) \<longrightarrow>
         create_compatible_model lib w =
           (Inr False, w\<lparr>stdout := stdout w @ [''Model summary:''] @ ls3 @
              [''Converting model...'', cross_mark @ '' Conversion failed: '' @ m]\<rparr>))"
proof -
  have c4: "get_concrete_function lib simple_model
          \<lparr>spec_shape = [1, 32000, 1], spec_dtype = ''float32''\<rparr> = Inr cf
        \<and> from_concrete_functions lib [cf] = Inr c1
        \<and> convert lib (c1\<lparr>optimizations := []\<rparr>) = Inl (Exception m) \<longrightarrow>
         create_minimal_tflite lib w =
           (Inr False, w\<lparr>stdout := stdout w @
              [cross_mark @ '' Failed to create minimal model: '' @ m]\<rparr>)"
    using create_minimal_tflite_fails [of lib cf c1 m w] by blast
  have c5: "keras_Model lib simple_network = Inr model2
        \<and> compile lib model2
             \<lparr>optimizer = Optimizer_name ''adam'', loss = ''categorical_crossentropy'',
              metrics = [''accuracy'']\<rparr> = Inr ()
        \<and> model_summary lib model2 = Inr ls2
        \<and> from_keras_model lib model2 = Inr c2
        \<and> convert lib (c2\<lparr>optimizations := [], supported_ops := [TFLITE_BUILTINS],
             experimental_new_converter := False, experimental_new_quantizer := False\<rparr>)
           = Inl (Exception m) \<longrightarrow>
         create_simple_compatible_model lib w =
           (Inr False, w\<lparr>stdout := stdout w @ [''Model summary:''] @ ls2 @
              [cross_mark @ '' Failed to create model: '' @ m]\<rparr>)"
    using create_simple_compatible_model_fails [of lib model2 ls2 c2 m w] by blast
  have c6: "keras_Model lib compatible_network = Inr model3
        \<and> compile lib model3
             \<lparr>optimizer = Adam 0.001, loss = ''categorical_crossentropy'',
              metrics = [''accuracy'']\<rparr> = Inr ()
        \<and> model_summary lib model3 = Inr ls3
        \<and> from_keras_model lib model3 = Inr c3
        \<and> convert lib (c3\<lparr>optimizations := [], supported_ops := [TFLITE_BUILTINS],
             experimental_new_converter := False, experimental_new_quantizer := False,
             allow_custom_ops := False, experimental_enable_resource_variables := False\<rparr>)
           = Inl (Exception m) \<longrightarrow>
         create_compatible_model lib w =
           (Inr False, w\<lparr>stdout := stdout w @ [''Model summary:''] @ ls3 @
              [''Converting model...'', cross_mark @ '' Conversion failed: '' @ m]\<rparr>)"
    using create_compatible_model_fails [of lib model3 ls3 c3 m w] by blast
  show ?thesis
    by (intro conjI)
       (rule only_converted_create_minimal_tflite,
        rule only_converted_create_simple_compatible_model,
        rule only_converted_create_compatible_model,
        rule c4, rule c5, rule c6)
qed

text \<open>
  A run of each routine on a world that has files, with a library whose conversion
  raises: the files are the same afterwards.
\<close>

theorem artifact_written_only_after_conversion_witness:
  "create_minimal_tflite (example_tf no_such_file (Inl (Exception ''out of memory'')))
     \<lparr>stdout = [], files = [''assets/models/minimal_model.tflite'' \<mapsto> ''old''],
      environ = Map.empty\<rparr> =
     (Inr False,
      \<lparr>stdout = [cross_mark @ '' Failed to create minimal model: out of memory''],
       files = [''assets/models/minimal_model.tflite'' \<mapsto> ''old''],
       environ = Map.empty\<rparr>)
   \<and> create_simple_compatible_model
       (example_tf no_such_file (Inl (Exception ''out of memory'')))
     \<lparr>stdout = [], files = [''assets/models/minimal_model.tflite'' \<mapsto> ''old''],
      environ = Map.empty\<rparr> =
     (Inr False,
      \<lparr>stdout = [''Model summary:'', ''Model: model'',
                 cross_mark @ '' Failed to create model: out of memory''],
       files = [''assets/models/minimal_model.tflite'' \<mapsto> ''old''],
       environ = Map.empty\<rparr>)
   \<and> create_compatible_model (example_tf no_such_file (Inl (Exception ''out of memory'')))
     \<lparr>stdout = [], files = [''assets/models/minimal_model.tflite'' \<mapsto> ''old''],
      environ = Map.empty\<rparr> =
     (Inr False,
      \<lparr>stdout = [''Model summary:'', ''Model: model'', ''Converting model...'',
                 cross_mark @ '' Conversion failed: out of memory''],
       files = [''assets/models/minimal_model.tflite'' \<mapsto> ''old''],
       environ = Map.empty\<rparr>)"
proof -
  let ?lib = "example_tf no_such_file (Inl (Exception ''out of memory''))"
  let ?w = "\<lparr>stdout = [], files = [''assets/models/minimal_model.tflite'' \<mapsto> ''old''],
      environ = Map.empty\<rparr>"
  let ?c1 = "example_converter (From_concrete [Concrete_function 0])"
  let ?c2 = "example_converter (From_keras (Keras_model 1))"
  note T = artifact_written_only_after_conversion
    [where lib = ?lib and w = ?w and m = "''out of memory''"
       and cf = "Concrete_function 0" and ?c1.0 = ?c1
       and ?model2.0 = "Keras_model 1" and ?ls2.0 = "[''Model: model'']" and ?c2.0 = ?c2
       and ?model3.0 = "Keras_model 1" and ?ls3.0 = "[''Model: model'']" and ?c3.0 = ?c2]
  have h4: "get_concrete_function ?lib simple_model
        \<lparr>spec_shape = [1, 32000, 1], spec_dtype = ''float32''\<rparr> = Inr (Concrete_function 0)
      \<and> from_concrete_functions ?lib [Concrete_function 0] = Inr ?c1
      \<and> convert ?lib (?c1\<lparr>optimizations := []\<rparr>) = Inl (Exception ''out of memory'')"
    by (simp add: example_tf_def)
  have h5: "keras_Model ?lib simple_network = Inr (Keras_model 1)
      \<and> compile ?lib (Keras_model 1)
           \<lparr>optimizer = Optimizer_name ''adam'', loss = ''categorical_crossentropy'',
            metrics = [''accuracy'']\<rparr> = Inr ()
      \<and> model_summary ?lib (Keras_model 1) = Inr [''Model: model'']
      \<and> from_keras_model ?lib (Keras_model 1) = Inr ?c2
      \<and> convert ?lib (?c2\<lparr>optimizations := [], supported_ops := [TFLITE_BUILTINS],
             experimental_new_converter := False, experimental_new_quantizer := False\<rparr>)
           = Inl (Exception ''out of memory'')"
    by (simp add: example_tf_def)
  have h6: "keras_Model ?lib compatible_network = Inr (Keras_model 1)
      \<and> compile ?lib (Keras_model 1)
           \<lparr>optimizer = Adam 0.001, loss = ''categorical_crossentropy'',
            metrics = [''accuracy'']\<rparr> = Inr ()
      \<and> model_summary ?lib (Keras_model 1) = Inr [''Model: model'']
      \<and> from_keras_model ?lib (Keras_model 1) = Inr ?c2
      \<and> convert ?lib (?c2\<lparr>optimizations := [], supported_ops := [TFLITE_BUILTINS],
             experimental_new_converter := False, experimental_new_quantizer := False,
             allow_custom_ops := False, experimental_enable_resource_variables := False\<rparr>)
           = Inl (Exception ''out of memory'')"
    by (simp add: example_tf_def)
  note rest = T [THEN conjunct2, THEN conjunct2, THEN conjunct2]
  note a = rest [THEN conjunct1, THEN mp, OF h4]
  note b = rest [THEN conjunct2, THEN conjunct1, THEN mp, OF h5]
  note c = rest [THEN conjunct2, THEN conjunct2, THEN mp, OF h6]
  show ?thesis
    unfolding a b c by simp
qed

section \<open>What the scripts leave behind\<close>

text \<open>
  Claim C8, as the code has it. check_model_versions.py changes no file and no
  environment variable. convert_model_compatible.py changes at most the file
  create_compatible_model.py, which is a script and not a model artifact. Each of the
  other scripts changes at most its own artifact under assets/models.
  create_tf212_compatible.py also sets an environment variable, TF_USE_LEGACY_KERAS, and
  no script touches another one.
\<close>

theorem scripts_change_at_most:
  "changes_at_most {} {} (check_model_versions lib)
   \<and> changes_at_most {''create_compatible_model.py''} {} (convert_model_compatible_main lib)
   \<and> changes_at_most {''assets/models/best_model_compatible.tflite''} {}
         (create_compatible_model_script lib)
   \<and> changes_at_most {''assets/models/minimal_model.tflite''} {}
         (create_minimal_model_main lib)
   \<and> changes_at_most {''assets/models/simple_compatible_model.tflite''} {}
         (create_simple_model_main lib)
   \<and> changes_at_most {''assets/models/best_model_compatible.tflite''} {''TF_USE_LEGACY_KERAS''}
         (create_tf212_compatible lib)"
  by (intro conjI)
     (rule changes_check_model_versions,
      rule changes_convert_model_compatible_main,
      rule changes_create_compatible_model_script,
      rule changes_create_minimal_model_main,
      rule changes_create_simple_model_main,
      rule changes_create_tf212_compatible)

text \<open>
  A world with a file and a variable of its own: after each script, run with a library
  whose conversion returns, both are as before.
\<close>

theorem scripts_change_at_most_witness:
  "files (snd (check_model_versions (example_tf no_such_file (Inr ''TFL3''))
      \<lparr>stdout = [], files = [''notes.txt'' \<mapsto> ''keep''], environ = [''HOME'' \<mapsto> ''/root'']\<rparr>))
      ''notes.txt'' = Some ''keep''
   \<and> environ (snd (check_model_versions (example_tf no_such_file (Inr ''TFL3''))
      \<lparr>stdout = [], files = [''notes.txt'' \<mapsto> ''keep''], environ = [''HOME'' \<mapsto> ''/root'']\<rparr>))
      ''HOME'' = Some ''/root''
   \<and> files (snd (convert_model_compatible_main (example_tf no_such_file (Inr ''TFL3''))
      \<lparr>stdout = [], files = [''notes.txt'' \<mapsto> ''keep''], environ = [''HOME'' \<mapsto> ''/root'']\<rparr>))
      ''notes.txt'' = Some ''keep''
   \<and> environ (snd (convert_model_compatible_main (example_tf no_such_file (Inr ''TFL3''))
      \<lparr>stdout = [], files = [''notes.txt'' \<mapsto> ''keep''], environ = [''HOME'' \<mapsto> ''/root'']\<rparr>))
      ''HOME'' = Some ''/root''
   \<and> files (snd (create_compatible_model_script (example_tf no_such_file (Inr ''TFL3''))
      \<lparr>stdout = [], files = [''notes.txt'' \<mapsto> ''keep''], environ = [''HOME'' \<mapsto> ''/root'']\<rparr>))
      ''notes.txt'' = Some ''keep''
   \<and> environ (snd (create_compatible_model_script (example_tf no_such_file (Inr ''TFL3''))
      \<lparr>stdout = [], files = [''notes.txt'' \<mapsto> ''keep''], environ = [''HOME'' \<mapsto> ''/root'']\<rparr>))
      ''HOME'' = Some ''/root''
   \<and> files (snd (create_minimal_model_main (example_tf no_such_file (Inr ''TFL3''))
      \<lparr>stdout = [], files = [''notes.txt'' \<mapsto> ''keep''], environ = [''HOME'' \<mapsto> ''/root'']\<rparr>))
      ''notes.txt'' = Some ''keep''
   \<and> environ (snd (create_minimal_model_main (example_tf no_such_file (Inr ''TFL3''))
      \<lparr>stdout = [], files = [''notes.txt'' \<mapsto> ''keep''], environ = [''HOME'' \<mapsto> ''/root'']\<rparr>))
      ''HOME'' = Some ''/root''
   \<and> files (snd (create_simple_model_main (example_tf no_such_file (Inr ''TFL3''))
      \<lparr>stdout = [], files = [''notes.txt'' \<mapsto> ''keep''], environ = [''HOME'' \<mapsto> ''/root'']\<rparr>))
      ''notes.txt'' = Some ''keep''
   \<and> environ (snd (create_simple_model_main (example_tf no_such_file (Inr ''TFL3''))
      \<lparr>stdout = [], files = [''notes.txt'' \<mapsto> ''keep''], environ = [''HOME'' \<mapsto> ''/root'']\<rparr>))
      ''HOME'' = Some ''/root''
   \<and> files (snd (create_tf212_compatible (example_tf no_such_file (Inr ''TFL3''))
      \<lparr>stdout = [], files = [''notes.txt'' \<mapsto> ''keep''], environ = [''HOME'' \<mapsto> ''/root'']\<rparr>))
      ''notes.txt'' = Some ''keep''
   \<and> environ (snd (create_tf212_compatible (example_tf no_such_file (Inr ''TFL3''))
      \<lparr>stdout = [], files = [''notes.txt'' \<mapsto> ''keep''], environ = [''HOME'' \<mapsto> ''/root'']\<rparr>))
      ''HOME'' = Some ''/root''"
proof -
  let ?lib = "example_tf no_such_file (Inr ''TFL3'')"
  let ?w = "\<lparr>stdout = [], files = [''notes.txt'' \<mapsto> ''keep''],
    environ = [''HOME'' \<mapsto> ''/root'']\<rparr>"
  note T = scripts_change_at_most [of ?lib]
  have frame: "files (snd (run ?w)) ''notes.txt'' = Some ''keep''
      \<and> environ (snd (run ?w)) ''HOME'' = Some ''/root''"
    if "changes_at_most F E run" and "''notes.txt'' \<notin> F" and "''HOME'' \<notin> E"
    for F E and run :: "unit py"
    using that by (simp add: changes_at_most_def)
  have a: "files (snd (check_model_versions ?lib ?w)) ''notes.txt'' = Some ''keep''
      \<and> environ (snd (check_model_versions ?lib ?w)) ''HOME'' = Some ''/root''"
    by (rule frame [OF T [THEN conjunct1]]) simp_all
  have b: "files (snd (convert_model_compatible_main ?lib ?w)) ''notes.txt'' = Some ''keep''
      \<and> environ (snd (convert_model_compatible_main ?lib ?w)) ''HOME'' = Some ''/root''"
    by (rule frame [OF T [THEN conjunct2, THEN conjunct1]]) simp_all
  have c: "files (snd (create_compatible_model_script ?lib ?w)) ''notes.txt'' = Some ''keep''
      \<and> environ (snd (create_compatible_model_script ?lib ?w)) ''HOME'' = Some ''/root''"
    by (rule frame [OF T [THEN conjunct2, THEN conjunct2, THEN conjunct1]]) simp_all
  have d: "files (snd (create_minimal_model_main ?lib ?w)) ''notes.txt'' = Some ''keep''
      \<and> environ (snd (create_minimal_model_main ?lib ?w)) ''HOME'' = Some ''/root''"
    by (rule frame [OF T [THEN conjunct2, THEN conjunct2, THEN conjunct2, THEN conjunct1]])
       simp_all
  have e: "files (snd (create_simple_model_main ?lib ?w)) ''notes.txt'' = Some ''keep''
      \<and> environ (snd (create_simple_model_main ?lib ?w)) ''HOME'' = Some ''/root''"
    by (rule frame [OF T [THEN conjunct2, THEN conjunct2, THEN conjunct2, THEN conjunct2,
          THEN conjunct1]])
       simp_all
  have f: "files (snd (create_tf212_compatible ?lib ?w)) ''notes.txt'' = Some ''keep''
      \<and> environ (snd (create_tf212_compatible ?lib ?w)) ''HOME'' = Some ''/root''"
    by (rule frame [OF T [THEN conjunct2, THEN conjunct2, THEN conjunct2, THEN conjunct2,
          THEN conjunct2]])
       simp_all
  show ?thesis
    using a b c d e f by simp
qed

text \<open>
  Against C8 as it is written: create_tf212_compatible.py sets an environment variable,
  and convert_model_compatible.py creates a file that is no model artifact.
\<close>

theorem environment_and_template_written:
  "environ empty_world ''TF_USE_LEGACY_KERAS'' = None
   \<and> environ (snd (create_tf212_compatible
         (example_tf no_such_file (Inl (Exception ''out of memory''))) empty_world))
       ''TF_USE_LEGACY_KERAS'' = Some ''1''
   \<and> files empty_world ''create_compatible_model.py'' = None
   \<and> files (snd (convert_model_compatible_main
         (example_tf no_such_file (Inl (Exception ''out of memory''))) empty_world))
       ''create_compatible_model.py'' = Some script_content"
proof -
  let ?lib = "example_tf no_such_file (Inl (Exception ''out of memory''))"
  have "environ (snd (create_tf212_compatible ?lib empty_world)) ''TF_USE_LEGACY_KERAS''
      = Some ''1''"
    by (simp add: create_tf212_compatible_def create_tf212_compatible_main_def
          create_compatible_model_def compatible_network_def example_simps py_defs Let_def)
  moreover have "files (snd (convert_model_compatible_main ?lib empty_world))
      ''create_compatible_model.py'' = Some script_content"
    by (simp add: convert_model_compatible_main_def convert_with_compatibility_flags_def
          create_compatible_converter_script_def example_simps py_defs)
  ultimately show ?thesis
    by (simp add: empty_world_def)
qed

section \<open>The shapes the artifacts declare\<close>

lemmas shape_simps =
  simple_model_def simple_network_def compatible_network_def
  keras_input_shape_def keras_output_shape_def declared_shape_def

lemma graph_shape_simple_model: "graph_shape simple_model [1, 32000, 1] = Some [1, 3]"
  by (simp add: simple_model_def)

lemma keras_shapes_simple_network:
  "declared_shape (keras_input_shape simple_network) = [1, 32000, 1]
   \<and> map_option declared_shape (keras_output_shape simple_network) = Some [1, 3]"
  by (simp add: shape_simps)

lemma keras_shapes_compatible_network:
  "declared_shape (keras_input_shape compatible_network) = [1, 32000, 1]
   \<and> map_option declared_shape (keras_output_shape compatible_network) = Some [1, 3]"
  by (simp add: shape_simps)

lemma numpy_str_input: "numpy_str [1, 32000, 1] = ''[    1 32000     1]''"
  by (simp add: numpy_str_def pad_left_def str_nat.simps Let_def)

lemma numpy_str_output: "numpy_str [1, 3] = ''[1 3]''"
  by (simp add: numpy_str_def pad_left_def str_nat.simps Let_def)

subsection \<open>What a routine writes is what the conversion returned\<close>

lemma only_artifact_call_bind:
  assumes "\<And>x. r = Inr x \<Longrightarrow> writes_only_artifact p good (f x)"
  shows "writes_only_artifact p good (py_bind (py_call r) f)"
proof (cases r)
  case (Inl e)
  then show ?thesis
    by (simp add: writes_only_artifact_def py_bind_def py_call_def)
next
  case (Inr x)
  then have "writes_only_artifact p good (f x)" by (rule assms)
  then show ?thesis
    using Inr by (simp add: writes_only_artifact_def py_bind_def py_call_def)
qed

lemma only_artifact_then:
  assumes m: "changes_at_most {} {} m" and k: "writes_only_artifact p good k"
  shows "writes_only_artifact p good (py_then m k)"
  unfolding writes_only_artifact_def
proof
  fix w
  obtain r w1 where mw: "m w = (r, w1)" by (cases "m w")
  have "files (snd (m w)) = files w"
    using m by (rule changes_nothing_files)
  then have same: "files w1 = files w" using mw by simp
  show "files (snd (py_then m k w)) = files w
      \<or> (\<exists>content. good content \<and> files (snd (py_then m k w)) = (files w)(p \<mapsto> content))"
  proof (cases r)
    case (Inl e)
    then show ?thesis using mw same by (simp add: py_then_def py_bind_def)
  next
    case (Inr x)
    have "files (snd (k w1)) = files w1
      \<or> (\<exists>content. good content \<and> files (snd (k w1)) = (files w1)(p \<mapsto> content))"
      using k by (simp add: writes_only_artifact_def)
    then show ?thesis using Inr mw same by (simp add: py_then_def py_bind_def)
  qed
qed

lemma only_artifact_try:
  assumes b: "writes_only_artifact p good body"
    and h: "\<And>e. changes_at_most {} {} (h e)"
  shows "writes_only_artifact p good (py_try body h)"
  unfolding writes_only_artifact_def
proof
  fix w
  obtain r w1 where bw: "body w = (r, w1)" by (cases "body w")
  have "files (snd (body w)) = files w
      \<or> (\<exists>content. good content \<and> files (snd (body w)) = (files w)(p \<mapsto> content))"
    using b by (simp add: writes_only_artifact_def)
  then have w1: "files w1 = files w
      \<or> (\<exists>content. good content \<and> files w1 = (files w)(p \<mapsto> content))"
    using bw by simp
  show "files (snd (py_try body h w)) = files w
      \<or> (\<exists>content. good content \<and> files (snd (py_try body h w)) = (files w)(p \<mapsto> content))"
  proof (cases r)
    case (Inr x)
    then show ?thesis using bw w1 by (simp add: py_try_def)
  next
    case (Inl e)
    show ?thesis
    proof (cases e)
      case (BaseException m)
      then show ?thesis using Inl bw w1 by (simp add: py_try_def)
    next
      case (Exception m)
      have "files (snd (h m w1)) = files w1"
        using h [of m] by (rule changes_nothing_files)
      then show ?thesis using Exception Inl bw w1 by (simp add: py_try_def)
    qed
  qed
qed

lemma only_artifact_convert_write:
  assumes good: "\<And>content. r = Inr content \<Longrightarrow> good content"
    and rest: "\<And>t. changes_at_most {} {} (rest t)"
  shows "writes_only_artifact p good
           (py_bind (py_call r) (\<lambda>t. py_then (write_file p t) (rest t)))"
  unfolding writes_only_artifact_def
proof
  fix w
  let ?m = "py_bind (py_call r) (\<lambda>t. py_then (write_file p t) (rest t))"
  show "files (snd (?m w)) = files w
      \<or> (\<exists>content. good content \<and> files (snd (?m w)) = (files w)(p \<mapsto> content))"
  proof (cases r)
    case (Inl e)
    then show ?thesis by (simp add: py_bind_def py_call_def)
  next
    case (Inr content)
    have "files (snd (rest content (w\<lparr>files := (files w)(p \<mapsto> content)\<rparr>)))
        = files (w\<lparr>files := (files w)(p \<mapsto> content)\<rparr>)"
      using rest [of content] by (rule changes_nothing_files)
    then have "files (snd (?m w)) = (files w)(p \<mapsto> content)"
      using Inr by (simp add: py_bind_def py_call_def py_then_def write_file_def)
    moreover have "good content" using Inr by (rule good)
    ultimately show ?thesis by blast
  qed
qed

lemma documented_traced:
  assumes "converts_as_documented lib"
    and "get_concrete_function lib g s = Inr f"
    and "from_concrete_functions lib [f] = Inr c0"
    and "source c = source c0"
    and "convert lib c = Inr content"
    and "graph_shape g (spec_shape s) = Some out"
  shows "artifact_declares lib content (spec_shape s) out"
proof -
  have "\<exists>out. graph_shape g (spec_shape s) = Some out
      \<and> artifact_declares lib content (spec_shape s) out"
    using assms(1-5) unfolding converts_as_documented_def by blast
  then show ?thesis using assms(6) by auto
qed

lemma documented_keras:
  assumes "converts_as_documented lib"
    and "keras_Model lib net = Inr model"
    and "from_keras_model lib model = Inr c0"
    and "source c = source c0"
    and "convert lib c = Inr content"
    and "declared_shape (keras_input_shape net) = input
         \<and> map_option declared_shape (keras_output_shape net) = Some output"
  shows "artifact_declares lib content input output"
proof -
  have "\<exists>out. keras_output_shape net = Some out
      \<and> artifact_declares lib content
           (declared_shape (keras_input_shape net)) (declared_shape out)"
    using assms(1-5) unfolding converts_as_documented_def by blast
  then show ?thesis using assms(6) by auto
qed

lemma shapes_create_minimal_tflite:
  assumes doc: "converts_as_documented lib"
  shows "writes_only_artifact ''assets/models/minimal_model.tflite''
           (\<lambda>content. artifact_declares lib content [1, 32000, 1] [1, 3])
           (create_minimal_tflite lib)"
  unfolding create_minimal_tflite_def Let_def
proof (rule only_artifact_call_bind, rule only_artifact_call_bind, rule only_artifact_try,
    rule only_artifact_convert_write)
  fix f c0 content
  assume f: "get_concrete_function lib simple_model
      \<lparr>spec_shape = [1, 32000, 1], spec_dtype = ''float32''\<rparr> = Inr f"
    and c0: "from_concrete_functions lib [f] = Inr c0"
    and content: "convert lib (c0\<lparr>optimizations := []\<rparr>) = Inr content"
  have g: "graph_shape simple_model
      (spec_shape \<lparr>spec_shape = [1, 32000, 1], spec_dtype = ''float32''\<rparr>) = Some [1, 3]"
    by (simp add: simple_model_def)
  have "artifact_declares lib content
      (spec_shape \<lparr>spec_shape = [1, 32000, 1], spec_dtype = ''float32''\<rparr>) [1, 3]"
    by (rule documented_traced [OF doc f c0 _ content g]) simp
  then show "artifact_declares lib content [1, 32000, 1] [1, 3]" by simp
qed (intro changes_intros)+

lemma shapes_create_simple_compatible_model:
  assumes doc: "converts_as_documented lib"
  shows "writes_only_artifact ''assets/models/simple_compatible_model.tflite''
           (\<lambda>content. artifact_declares lib content [1, 32000, 1] [1, 3])
           (create_simple_compatible_model lib)"
  unfolding create_simple_compatible_model_def Let_def
proof (rule only_artifact_call_bind, rule only_artifact_then [OF changes_call],
    rule only_artifact_then [OF changes_print], rule only_artifact_call_bind,
    rule only_artifact_then [OF changes_for [OF changes_print]],
    rule only_artifact_call_bind, rule only_artifact_try,
    rule only_artifact_convert_write)
  fix model ls c0 content
  assume model: "keras_Model lib simple_network = Inr model"
    and c0: "from_keras_model lib model = Inr c0"
    and content: "convert lib (c0\<lparr>optimizations := [], supported_ops := [TFLITE_BUILTINS],
        experimental_new_converter := False, experimental_new_quantizer := False\<rparr>)
        = Inr content"
  show "artifact_declares lib content [1, 32000, 1] [1, 3]"
    by (rule documented_keras [OF doc model c0 _ content keras_shapes_simple_network]) simp
qed (intro changes_intros)+

lemma shapes_create_compatible_model:
  assumes doc: "converts_as_documented lib"
  shows "writes_only_artifact ''assets/models/best_model_compatible.tflite''
           (\<lambda>content. artifact_declares lib content [1, 32000, 1] [1, 3])
           (create_compatible_model lib)"
  unfolding create_compatible_model_def Let_def
proof (rule only_artifact_call_bind, rule only_artifact_then [OF changes_call],
    rule only_artifact_then [OF changes_print], rule only_artifact_call_bind,
    rule only_artifact_then [OF changes_for [OF changes_print]],
    rule only_artifact_call_bind, rule only_artifact_try,
    rule only_artifact_then [OF changes_print],
    rule only_artifact_convert_write)
  fix model ls c0 content
  assume model: "keras_Model lib compatible_network = Inr model"
    and c0: "from_keras_model lib model = Inr c0"
    and content: "convert lib (c0\<lparr>optimizations := [], supported_ops := [TFLITE_BUILTINS],
        experimental_new_converter := False, experimental_new_quantizer := False,
        allow_custom_ops := False, experimental_enable_resource_variables := False\<rparr>)
        = Inr content"
  show "artifact_declares lib content [1, 32000, 1] [1, 3]"
    by (rule documented_keras [OF doc model c0 _ content keras_shapes_compatible_network]) simp
qed (intro changes_intros)+

text \<open>
  Claim C7. The shapes the three routines give at construction are [1, 32000, 1] for the
  input and [1, 3] for the output: for \<open>create_minimal_tflite\<close> the traced function
  takes [1, 32000, 1] and its operations end in [1, 3]; for the two Keras routines the
  input (None, 32000, 1) and the layers end in (None, 3), declared with the batch as 1.
  With a library that converts as the spec says, whatever artifact a routine writes
  declares these shapes.
\<close>

theorem artifact_shapes_as_constructed:
  "graph_shape simple_model [1, 32000, 1] = Some [1, 3]
   \<and> declared_shape (keras_input_shape simple_network) = [1, 32000, 1]
   \<and> map_option declared_shape (keras_output_shape simple_network) = Some [1, 3]
   \<and> declared_shape (keras_input_shape compatible_network) = [1, 32000, 1]
   \<and> map_option declared_shape (keras_output_shape compatible_network) = Some [1, 3]
   \<and> (converts_as_documented lib \<longrightarrow>
        writes_only_artifact ''assets/models/minimal_model.tflite''
          (\<lambda>content. artifact_declares lib content [1, 32000, 1] [1, 3])
          (create_minimal_tflite lib)
        \<and> writes_only_artifact ''assets/models/simple_compatible_model.tflite''
          (\<lambda>content. artifact_declares lib content [1, 32000, 1] [1, 3])
          (create_simple_compatible_model lib)
        \<and> writes_only_artifact ''assets/models/best_model_compatible.tflite''
          (\<lambda>content. artifact_declares lib content [1, 32000, 1] [1, 3])
          (create_compatible_model lib))"
proof -
  have routines: "converts_as_documented lib \<longrightarrow>
        writes_only_artifact ''assets/models/minimal_model.tflite''
          (\<lambda>content. artifact_declares lib content [1, 32000, 1] [1, 3])
          (create_minimal_tflite lib)
        \<and> writes_only_artifact ''assets/models/simple_compatible_model.tflite''
          (\<lambda>content. artifact_declares lib content [1, 32000, 1] [1, 3])
          (create_simple_compatible_model lib)
        \<and> writes_only_artifact ''assets/models/best_model_compatible.tflite''
          (\<lambda>content. artifact_declares lib content [1, 32000, 1] [1, 3])
          (create_compatible_model lib)"
    by (intro impI conjI)
       (erule shapes_create_minimal_tflite, erule shapes_create_simple_compatible_model,
        erule shapes_create_compatible_model)
  show ?thesis
    by (intro conjI)
       (rule graph_shape_simple_model,
        rule keras_shapes_simple_network [THEN conjunct1],
        rule keras_shapes_simple_network [THEN conjunct2],
        rule keras_shapes_compatible_network [THEN conjunct1],
        rule keras_shapes_compatible_network [THEN conjunct2],
        rule routines)
qed

lemma documented_tf_declares:
  "artifact_declares documented_tf content [1, 32000, 1] [1, 3]"
  unfolding artifact_declares_def documented_tf_def example_tf_def example_interpreter_def
    shape_value_def numpy_str_input numpy_str_output
  by simp

lemma documented_tf_converts: "converts_as_documented documented_tf"
  unfolding converts_as_documented_def
proof (intro conjI allI impI)
  fix g s f c0 c content
  assume a: "get_concrete_function documented_tf g s = Inr f
      \<and> from_concrete_functions documented_tf [f] = Inr c0
      \<and> source c = source c0
      \<and> convert documented_tf c = Inr content"
  then have "spec_shape s = [1, 32000, 1] \<and> graph_shape g (spec_shape s) = Some [1, 3]"
    by (simp add: documented_tf_def split: if_splits)
  then show "\<exists>out. graph_shape g (spec_shape s) = Some out
      \<and> artifact_declares documented_tf content (spec_shape s) out"
    using documented_tf_declares [of content] by auto
next
  fix net model c0 c content
  assume a: "keras_Model documented_tf net = Inr model
      \<and> from_keras_model documented_tf model = Inr c0
      \<and> source c = source c0
      \<and> convert documented_tf c = Inr content"
  then have "declared_shape (keras_input_shape net) = [1, 32000, 1]
      \<and> map_option declared_shape (keras_output_shape net) = Some [1, 3]"
    by (simp add: documented_tf_def split: if_splits)
  then show "\<exists>out. keras_output_shape net = Some out
      \<and> artifact_declares documented_tf content
           (declared_shape (keras_input_shape net)) (declared_shape out)"
    using documented_tf_declares [of content] by auto
qed

text \<open>
  Runs of the three routines with a library that converts as the spec says: each writes
  its artifact, and the artifact declares the two shapes.
\<close>

theorem artifact_shapes_as_constructed_witness:
  "converts_as_documented documented_tf
   \<and> files (snd (create_minimal_tflite documented_tf empty_world))
       ''assets/models/minimal_model.tflite'' = Some ''TFL3''
   \<and> files (snd (create_simple_compatible_model documented_tf empty_world))
       ''assets/models/simple_compatible_model.tflite'' = Some ''TFL3''
   \<and> files (snd (create_compatible_model documented_tf empty_world))
       ''assets/models/best_model_compatible.tflite'' = Some ''TFL3''
   \<and> artifact_declares documented_tf ''TFL3'' [1, 32000, 1] [1, 3]"
proof -
  note T = artifact_shapes_as_constructed [of documented_tf]
  note R = T [THEN conjunct2, THEN conjunct2, THEN conjunct2, THEN conjunct2, THEN conjunct2,
    THEN mp, OF documented_tf_converts]
  have a: "files (snd (create_minimal_tflite documented_tf empty_world))
       ''assets/models/minimal_model.tflite'' = Some ''TFL3''"
    by (simp add: create_minimal_tflite_def documented_tf_def example_simps py_defs
          simple_model_def Let_def)
  have b: "files (snd (create_simple_compatible_model documented_tf empty_world))
       ''assets/models/simple_compatible_model.tflite'' = Some ''TFL3''"
    by (simp add: create_simple_compatible_model_def documented_tf_def example_simps py_defs
          shape_simps Let_def)
  have c: "files (snd (create_compatible_model documented_tf empty_world))
       ''assets/models/best_model_compatible.tflite'' = Some ''TFL3''"
    by (simp add: create_compatible_model_def documented_tf_def example_simps py_defs
          shape_simps Let_def report_fully_connected_def)
  have "files (snd (create_minimal_tflite documented_tf empty_world)) = files empty_world
      \<or> (\<exists>content. artifact_declares documented_tf content [1, 32000, 1] [1, 3]
            \<and> files (snd (create_minimal_tflite documented_tf empty_world))
                = (files empty_world)(''assets/models/minimal_model.tflite'' \<mapsto> content))"
    using R [THEN conjunct1] unfolding writes_only_artifact_def by blast
  then have d: "artifact_declares documented_tf ''TFL3'' [1, 32000, 1] [1, 3]"
  proof
    assume "files (snd (create_minimal_tflite documented_tf empty_world)) = files empty_world"
    then have "files (snd (create_minimal_tflite documented_tf empty_world))
        ''assets/models/minimal_model.tflite'' = None"
      by (simp add: empty_world_def)
    then show ?thesis using a by simp
  next
    assume "\<exists>content. artifact_declares documented_tf content [1, 32000, 1] [1, 3]
        \<and> files (snd (create_minimal_tflite documented_tf empty_world))
            = (files empty_world)(''assets/models/minimal_model.tflite'' \<mapsto> content)"
    then obtain content
      where good: "artifact_declares documented_tf content [1, 32000, 1] [1, 3]"
        and written: "files (snd (create_minimal_tflite documented_tf empty_world))
            = (files empty_world)(''assets/models/minimal_model.tflite'' \<mapsto> content)"
      by blast
    from written have "files (snd (create_minimal_tflite documented_tf empty_world))
        ''assets/models/minimal_model.tflite'' = Some content"
      by simp
    then have "content = ''TFL3''" using a by simp
    then show ?thesis using good by simp
  qed
  show ?thesis
    by (intro conjI) (rule documented_tf_converts, rule a, rule b, rule c, rule d)
qed

end
